(* ===== verification/Prelude.thy ===== *)
theory Prelude
  imports Complex_Main
begin

text \<open>
  Shared vocabulary of the development: the types that name the model's values
  (money, user ids, submitted forms), the collections of facts the component
  theories feed, and generic lemmas on lists and sums that the table models share.
  Currency amounts are Python floats in the application and SQLite \<open>REAL\<close>
  columns in the database; the model reads them as exact rationals, so rounding
  of binary floating point is not modelled.
\<close>

type_synonym money = rat
type_synonym uid = nat

text \<open>A submitted form: Werkzeug's \<open>MultiDict\<close>, whose \<open>get\<close> returns the first value.\<close>
type_synonym form = "(string \<times> string) list"

definition form_get :: "form \<Rightarrow> string \<Rightarrow> string option" where
  "form_get f k = map_of f k"

named_theorems store_simps "characteristic equations of the SQL statement models"
named_theorems handler_defs "definitions of the request handlers, unfolded together"

subsection \<open>Lists updated in place by a condition\<close>

text \<open>
  An SQL \<open>UPDATE ... WHERE P\<close> rewrites exactly the rows satisfying \<open>P\<close>; the
  model is a \<open>map\<close> with a conditional body.  These lemmas say what such a map
  does to filters and sums over the same table.
\<close>

lemma map_if_no_match [simp]:
  "\<forall>x\<in>set xs. \<not> P x \<Longrightarrow> map (\<lambda>x. if P x then f x else x) xs = xs"
  by (induction xs) auto

lemma sum_list_map_filter_append [simp]:
  "sum_list (map g (filter P (xs @ [x]))) =
     sum_list (map g (filter P xs)) + (if P x then g x else 0)"
  by simp

lemma sum_list_map_filter_neg:
  fixes g :: "'a \<Rightarrow> 'b::ab_group_add"
  shows "sum_list (map g (filter P xs)) = sum_list (map g (filter (\<lambda>x. P x \<and> g x \<noteq> 0) xs))"
  by (induction xs) auto

lemma distinct_map_filter_key:
  "distinct (map f xs) \<Longrightarrow> filter (\<lambda>x. f x = k) xs = [] \<or> (\<exists>x. filter (\<lambda>x. f x = k) xs = [x])"
proof (induction xs)
  case Nil
  then show ?case by simp
next
  case (Cons y ys)
  then have "k = f y \<Longrightarrow> filter (\<lambda>x. f x = k) ys = []"
    by (auto simp: filter_empty_conv) (metis image_eqI)
  with Cons show ?case by auto
qed

lemma sum_list_map_pos:
  fixes f :: "'a \<Rightarrow> 'b::linordered_ab_group_add"
  shows "\<forall>x\<in>set xs. 0 < f x \<Longrightarrow> xs \<noteq> [] \<Longrightarrow> 0 < sum_list (map f xs)"
proof (induction xs)
  case (Cons x xs)
  then show ?case by (cases "xs = []") (auto intro: add_pos_pos)
qed simp

lemma filter_Cons_mem: "filter P xs = x # ys \<Longrightarrow> x \<in> set xs"
  by (metis filter_is_subset list.set_intros(1) subsetD)

end
