(* ===== verification/Python.thy ===== *)
theory Python
  imports Prelude
begin

text \<open>
  The Python built-ins the handlers of \<open>src/finance/application.py\<close> rely on:
  the exceptions that can escape a handler, the truthiness tests
  (\<open>if not symbol\<close>), and the conversion \<open>int(request.form.get("shares"))\<close> of
  the \<open>buy\<close> and \<open>sell\<close> handlers (lines 64 and 223), which parses a decimal
  string the way CPython's \<open>int()\<close> does on ASCII input: surrounding whitespace
  is stripped, one optional sign, then digits with single underscores between
  them.  \<open>int(None)\<close> raises \<open>TypeError\<close>, a malformed string \<open>ValueError\<close>.
  The main lemma is the round trip \<open>int(str(n)) = n\<close>.
\<close>

datatype exc =
    ValueError
  | TypeError
  | IndexError
  | IntegrityError
  | RuntimeError
  | HTTPException nat string  \<comment> \<open>Werkzeug's \<open>HTTPException\<close>: status code and name\<close>

text \<open>Python truthiness of a form field: \<open>None\<close> and \<open>""\<close> are false.\<close>

definition truthy :: "string option \<Rightarrow> bool" where
  "truthy v = (case v of None \<Rightarrow> False | Some s \<Rightarrow> s \<noteq> [])"

subsection \<open>Digits and whitespace\<close>

definition is_digit :: "char \<Rightarrow> bool" where
  "is_digit c \<longleftrightarrow> 48 \<le> (of_char c :: nat) \<and> (of_char c :: nat) \<le> 57"

definition digit_val :: "char \<Rightarrow> nat" where
  "digit_val c = of_char c - 48"

definition py_space :: "char \<Rightarrow> bool" where
  "py_space c \<longleftrightarrow> c \<in> set [CHR '' '', CHR 0x09, CHR 0x0A, CHR 0x0B, CHR 0x0C, CHR 0x0D]"

definition py_strip :: "string \<Rightarrow> string" where
  "py_strip s = rev (dropWhile py_space (rev (dropWhile py_space s)))"

subsection \<open>\<open>int()\<close> on a string\<close>

text \<open>
  \<open>py_digits acc s\<close> reads the rest of a literal after its first digit; an
  underscore must be followed by a digit.
\<close>

fun py_digits :: "nat \<Rightarrow> string \<Rightarrow> nat option" where
  "py_digits acc [] = Some acc"
| "py_digits acc (c # cs) =
     (if is_digit c then py_digits (10 * acc + digit_val c) cs
      else if c = CHR ''_'' then
        (case cs of
           d # ds \<Rightarrow> if is_digit d then py_digits (10 * acc + digit_val d) ds else None
         | [] \<Rightarrow> None)
      else None)"

definition py_unsigned :: "string \<Rightarrow> nat option" where
  "py_unsigned s =
     (case s of
        [] \<Rightarrow> None
      | c # cs \<Rightarrow> if is_digit c then py_digits (digit_val c) cs else None)"

definition py_int :: "string \<Rightarrow> int option" where
  "py_int s =
     (let t = py_strip s in
      case t of
        [] \<Rightarrow> None
      | c # r \<Rightarrow>
          if c = CHR ''-'' then map_option (\<lambda>n. - int n) (py_unsigned r)
          else if c = CHR ''+'' then map_option int (py_unsigned r)
          else map_option int (py_unsigned t))"

text \<open>\<open>int(request.form.get(k))\<close>: a missing field is \<open>int(None)\<close>.\<close>

definition int_field :: "string option \<Rightarrow> exc + int" where
  "int_field v =
     (case v of
        None \<Rightarrow> Inl TypeError
      | Some s \<Rightarrow> (case py_int s of None \<Rightarrow> Inl ValueError | Some n \<Rightarrow> Inr n))"

text \<open>The value of a digit string read from an accumulator, as \<open>py_digits\<close> reads it.\<close>

definition digits_value :: "nat \<Rightarrow> string \<Rightarrow> nat" where
  "digits_value acc s = foldl (\<lambda>a c. 10 * a + digit_val c) acc s"

subsection \<open>\<open>str()\<close> of an integer\<close>

definition digit_char :: "nat \<Rightarrow> char" where
  "digit_char d = char_of (48 + d)"

fun py_str_nat :: "nat \<Rightarrow> string" where
  "py_str_nat n = (if n < 10 then [digit_char n] else py_str_nat (n div 10) @ [digit_char (n mod 10)])"

declare py_str_nat.simps [simp del]

definition py_str_int :: "int \<Rightarrow> string" where
  "py_str_int i = (if i < 0 then CHR ''-'' # py_str_nat (nat (- i)) else py_str_nat (nat i))"

subsection \<open>Truthiness\<close>

lemma truthy_simps [simp]: "truthy (Some s) \<longleftrightarrow> s \<noteq> []" "\<not> truthy None"
  by (simp_all add: truthy_def)

subsection \<open>Round trip\<close>

lemma digit_char_props:
  assumes "d < 10"
  shows "is_digit (digit_char d)" "digit_val (digit_char d) = d"
  using assms by (simp_all add: is_digit_def digit_val_def digit_char_def)

lemma digit_not_space: "is_digit c \<Longrightarrow> \<not> py_space c"
  by (auto simp: is_digit_def py_space_def)

lemma py_str_nat_digits: "\<forall>c\<in>set (py_str_nat n). is_digit c"
proof (induction n rule: py_str_nat.induct)
  case (1 n)
  then show ?case
    by (subst py_str_nat.simps) (auto simp: digit_char_props)
qed

lemma py_str_nat_Cons: "\<exists>c cs. py_str_nat n = c # cs"
proof (induction n rule: py_str_nat.induct)
  case (1 n)
  then show ?case
    by (subst py_str_nat.simps) auto
qed

lemma py_digits_plain:
  "\<forall>c\<in>set s. is_digit c \<Longrightarrow> py_digits acc s = Some (digits_value acc s)"
  by (induction s arbitrary: acc) (auto simp: digits_value_def)

lemma digits_value_py_str_nat:
  "digits_value acc (py_str_nat n) = acc * 10 ^ length (py_str_nat n) + n"
proof (induction n arbitrary: acc rule: py_str_nat.induct)
  case (1 n)
  show ?case
  proof (cases "n < 10")
    case True
    then show ?thesis
      by (simp add: py_str_nat.simps [of n] digits_value_def digit_char_props)
  next
    case False
    have "digits_value acc (py_str_nat n) =
        10 * digits_value acc (py_str_nat (n div 10)) + n mod 10"
      using False by (simp add: py_str_nat.simps [of n] digits_value_def digit_char_props)
    also have "\<dots> = acc * 10 ^ length (py_str_nat n) + n"
      using "1" False by (simp add: py_str_nat.simps [of n])
    finally show ?thesis .
  qed
qed

lemma py_unsigned_py_str_nat: "py_unsigned (py_str_nat n) = Some n"
proof -
  obtain c cs where cs: "py_str_nat n = c # cs" using py_str_nat_Cons by blast
  have dig: "\<forall>x\<in>set (c # cs). is_digit x" using py_str_nat_digits [of n] cs by simp
  have "py_unsigned (py_str_nat n) = Some (digits_value (digit_val c) cs)"
    using dig by (simp add: cs py_unsigned_def py_digits_plain)
  also have "digits_value (digit_val c) cs = digits_value 0 (py_str_nat n)"
    by (simp add: cs digits_value_def)
  finally show ?thesis by (simp add: digits_value_py_str_nat)
qed

lemma dropWhile_none: "\<forall>c\<in>set s. \<not> P c \<Longrightarrow> dropWhile P s = s"
  by (induction s) auto

lemma py_strip_no_space: "\<forall>c\<in>set s. \<not> py_space c \<Longrightarrow> py_strip s = s"
  by (simp add: py_strip_def dropWhile_none)

lemma py_int_py_str_int: "py_int (py_str_int i) = Some i"
proof (cases "i < 0")
  case True
  have "\<forall>c\<in>set (py_str_nat (nat (- i))). \<not> py_space c"
    using py_str_nat_digits digit_not_space by blast
  moreover have "\<not> py_space (CHR ''-'')" by (simp add: py_space_def)
  ultimately have ns: "\<forall>c\<in>set (py_str_int i). \<not> py_space c"
    using True by (simp add: py_str_int_def)
  have "py_strip (py_str_int i) = py_str_int i" by (rule py_strip_no_space [OF ns])
  then show ?thesis using True
    by (simp add: py_int_def py_str_int_def py_unsigned_py_str_nat)
next
  case False
  obtain c cs where cs: "py_str_nat (nat i) = c # cs" using py_str_nat_Cons by blast
  have dig: "\<forall>x\<in>set (c # cs). is_digit x" using py_str_nat_digits [of "nat i"] cs by simp
  then have "c \<noteq> CHR ''-''" "c \<noteq> CHR ''+''" by (auto simp: is_digit_def)
  moreover have "\<forall>x\<in>set (py_str_int i). \<not> py_space x"
    using False dig cs by (auto simp: py_str_int_def dest: digit_not_space)
  ultimately show ?thesis using False cs py_unsigned_py_str_nat [of "nat i"]
    by (simp add: py_int_def py_strip_no_space py_str_int_def)
qed

lemma py_str_int_Cons: "\<exists>c cs. py_str_int i = c # cs \<and> \<not> py_space c \<and> (\<forall>x\<in>set cs. \<not> py_space x)"
proof -
  obtain c cs where cs: "py_str_nat (nat \<bar>i\<bar>) = c # cs" using py_str_nat_Cons by blast
  have "\<forall>x\<in>set (c # cs). \<not> py_space x" using py_str_nat_digits [of "nat \<bar>i\<bar>"] cs digit_not_space by auto
  moreover have "\<not> py_space (CHR ''-'')" by (simp add: py_space_def)
  ultimately show ?thesis using cs by (auto simp: py_str_int_def)
qed

lemma py_strip_pad:
  assumes "\<forall>x\<in>set (ws @ ws'). py_space x" "\<not> py_space c" "\<forall>x\<in>set cs. \<not> py_space x"
  shows "py_strip (ws @ (c # cs) @ ws') = c # cs"
proof -
  have "dropWhile py_space (ws @ (c # cs) @ ws') = (c # cs) @ ws'"
    using assms by simp
  moreover have "dropWhile py_space (rev ws' @ rev cs @ [c]) = rev cs @ [c]"
  proof -
    have sw: "\<forall>x\<in>set (rev ws'). py_space x" using assms(1) by simp
    have "dropWhile py_space (rev cs @ [c]) = rev cs @ [c]"
    proof (cases "rev cs")
      case Nil
      then show ?thesis using assms(2) by simp
    next
      case (Cons y ys)
      then have "y \<in> set cs" by (metis list.set_intros(1) set_rev)
      then show ?thesis using Cons assms(3) by simp
    qed
    moreover have "dropWhile py_space (rev ws' @ (rev cs @ [c])) = dropWhile py_space (rev cs @ [c])"
      by (rule dropWhile_append2) (use sw in simp)
    ultimately show ?thesis by simp
  qed
  ultimately show ?thesis by (simp add: py_strip_def)
qed

text \<open>
  Round trip of the shares field: whatever integer \<open>n\<close> is printed in
  decimal (\<open>str(n)\<close>), with any Python whitespace around it, the handlers'
  \<open>int(request.form.get("shares"))\<close> reads back exactly \<open>n\<close>.
\<close>

theorem int_field_py_str_int:
  assumes "\<forall>x\<in>set (ws @ ws'). py_space x"
  shows "int_field (Some (ws @ py_str_int i @ ws')) = Inr i"
proof -
  obtain c cs where cs: "py_str_int i = c # cs" "\<not> py_space c" "\<forall>x\<in>set cs. \<not> py_space x"
    using py_str_int_Cons by blast
  have "py_int (ws @ py_str_int i @ ws') = py_int (py_str_int i)"
    using py_strip_pad [OF assms cs(2,3)] py_strip_no_space [of "py_str_int i"] cs
    by (simp add: py_int_def)
  then show ?thesis by (simp add: int_field_def py_int_py_str_int)
qed

end
