(* ===== verification/Store.thy ===== *)
theory Store
  imports Python
begin

text \<open>
  The SQLite database \<open>finance.db\<close> that every handler of
  \<open>src/finance/application.py\<close> reads and writes through
  \<open>db.execute(...)\<close>: the tables \<open>users\<close> (Account Store), \<open>portfolio\<close>
  (Holdings Store) and \<open>history\<close> (Ledger Store), each a list of rows in rowid
  order, which is the order SQLite returns them in when no \<open>ORDER BY\<close> is given.
  Each SQL statement the source issues is one definition below, named after what
  it does; a \<open>[0]\<close> on a result list is \<open>first_row\<close>, which raises
  \<open>IndexError\<close> on an empty result as Python does.  The schema itself is not
  in the repository: the column default of \<open>users.cash\<close> (10000.00) and the
  unique index on \<open>users.username\<close> are taken from the specification.

  Below the statements are the abstractions the correctness theorems are stated
  in: the number of shares of a symbol a user holds according to the portfolio
  table (\<open>held\<close>) and according to the ledger (\<open>ledger_shares\<close>), and the
  net amount a user has paid for trades (\<open>spent\<close>), with the equations that
  say how each statement changes them.
\<close>

record user_row =
  u_id :: uid
  u_username :: string
  u_hash :: string
  u_cash :: money

record portfolio_row =
  p_username :: string
  p_symbol :: string
  p_name :: string
  p_shares :: int
  p_price :: money
  p_total :: money

record history_row =
  h_symbol :: string
  h_shares :: int
  h_price :: money
  h_username :: string

record db =
  users :: "user_row list"
  portfolio :: "portfolio_row list"
  history :: "history_row list"
  next_id :: uid  \<comment> \<open>the next \<open>AUTOINCREMENT\<close> value of \<open>users.id\<close>\<close>

definition starting_cash :: money where
  "starting_cash = 10000"

subsection \<open>Queries\<close>

text \<open>Python's \<open>rows[0]\<close> on the list a \<open>SELECT\<close> returns.\<close>

definition first_row :: "'a list \<Rightarrow> exc + 'a" where
  "first_row xs = (case xs of [] \<Rightarrow> Inl IndexError | x # _ \<Rightarrow> Inr x)"

text \<open>\<open>SELECT ... FROM users WHERE id = ?\<close>\<close>

definition users_with_id :: "db \<Rightarrow> uid \<Rightarrow> user_row list" where
  "users_with_id d i = filter (\<lambda>u. u_id u = i) (users d)"

text \<open>\<open>db.execute("SELECT cash FROM users WHERE id = ?", ...)[0]["cash"]\<close>\<close>

definition select_cash :: "db \<Rightarrow> uid \<Rightarrow> exc + money" where
  "select_cash d i = (case first_row (users_with_id d i) of Inl e \<Rightarrow> Inl e | Inr u \<Rightarrow> Inr (u_cash u))"

text \<open>\<open>db.execute("SELECT username FROM users WHERE id = ?", ...)[0]["username"]\<close>\<close>

definition select_username :: "db \<Rightarrow> uid \<Rightarrow> exc + string" where
  "select_username d i =
     (case first_row (users_with_id d i) of Inl e \<Rightarrow> Inl e | Inr u \<Rightarrow> Inr (u_username u))"

text \<open>
  The scalar subquery \<open>(SELECT username FROM users WHERE id = ?)\<close>: the first
  row's value, or \<open>NULL\<close>, which no \<open>username = NULL\<close> comparison matches.
\<close>

definition username_subquery :: "db \<Rightarrow> uid \<Rightarrow> string option" where
  "username_subquery d i =
     (case users_with_id d i of [] \<Rightarrow> None | u # _ \<Rightarrow> Some (u_username u))"

text \<open>\<open>SELECT * FROM portfolio WHERE username = (SELECT username ...)\<close>\<close>

definition portfolio_of :: "db \<Rightarrow> uid \<Rightarrow> portfolio_row list" where
  "portfolio_of d i = filter (\<lambda>r. username_subquery d i = Some (p_username r)) (portfolio d)"

text \<open>\<open>SELECT * FROM history WHERE username = (SELECT username ...)\<close>\<close>

definition history_of :: "db \<Rightarrow> uid \<Rightarrow> history_row list" where
  "history_of d i = filter (\<lambda>h. username_subquery d i = Some (h_username h)) (history d)"

text \<open>\<open>SELECT symbol FROM portfolio WHERE username = (SELECT username ...)\<close>\<close>

definition symbols_of :: "db \<Rightarrow> uid \<Rightarrow> string list" where
  "symbols_of d i = map p_symbol (portfolio_of d i)"

text \<open>The rows of one position: \<open>WHERE username = ? AND symbol = ?\<close>.\<close>

definition holding_rows :: "portfolio_row list \<Rightarrow> string \<Rightarrow> string \<Rightarrow> portfolio_row list" where
  "holding_rows rs un symb = filter (\<lambda>r. p_username r = un \<and> p_symbol r = symb) rs"

text \<open>
  \<open>SELECT SUM(shares) FROM portfolio WHERE username = ? AND symbol = ?\<close>:
  SQL's \<open>SUM\<close> of no rows is \<open>NULL\<close>, Python's \<open>None\<close>.
\<close>

definition sum_shares :: "db \<Rightarrow> string \<Rightarrow> string \<Rightarrow> int option" where
  "sum_shares d un symb =
     (let rs = holding_rows (portfolio d) un symb in
      if rs = [] then None else Some (sum_list (map p_shares rs)))"

text \<open>
  \<open>db.execute("SELECT shares FROM portfolio WHERE username = (SELECT username
  ...) AND symbol = ?", ...)[0]["shares"]\<close> of the \<open>sell\<close> handler.
\<close>

definition select_shares :: "db \<Rightarrow> uid \<Rightarrow> string \<Rightarrow> exc + int" where
  "select_shares d i symb =
     (case first_row (filter (\<lambda>r. username_subquery d i = Some (p_username r) \<and> p_symbol r = symb)
                        (portfolio d)) of
        Inl e \<Rightarrow> Inl e
      | Inr r \<Rightarrow> Inr (p_shares r))"

text \<open>\<open>SELECT * FROM users WHERE username = :username\<close> of the \<open>login\<close> handler.\<close>

definition users_named :: "db \<Rightarrow> string \<Rightarrow> user_row list" where
  "users_named d un = filter (\<lambda>u. u_username u = un) (users d)"

subsection \<open>Statements\<close>

text \<open>\<open>UPDATE users SET cash = ? WHERE id = ?\<close>\<close>

definition update_cash :: "uid \<Rightarrow> money \<Rightarrow> db \<Rightarrow> db" where
  "update_cash i c d =
     d\<lparr>users := map (\<lambda>u. if u_id u = i then u\<lparr>u_cash := c\<rparr> else u) (users d)\<rparr>"

text \<open>\<open>INSERT INTO history (symbol, shares, price, username) VALUES (?, ?, ?, ?)\<close>\<close>

definition insert_history :: "string \<Rightarrow> int \<Rightarrow> money \<Rightarrow> string \<Rightarrow> db \<Rightarrow> db" where
  "insert_history symb n pr un d =
     d\<lparr>history := history d @ [\<lparr>h_symbol = symb, h_shares = n, h_price = pr, h_username = un\<rparr>]\<rparr>"

text \<open>\<open>INSERT INTO portfolio (username, symbol, name, shares, price, total) VALUES (...)\<close>\<close>

definition insert_portfolio :: "portfolio_row \<Rightarrow> db \<Rightarrow> db" where
  "insert_portfolio r d = d\<lparr>portfolio := portfolio d @ [r]\<rparr>"

text \<open>
  \<open>UPDATE portfolio SET shares = ?, total = total + ? WHERE symbol = ? AND
  username = ?\<close>; the \<open>sell\<close> handler's \<open>total = total - ?\<close> is the same
  statement with the amount negated.
\<close>

definition update_holding :: "string \<Rightarrow> string \<Rightarrow> int \<Rightarrow> money \<Rightarrow> db \<Rightarrow> db" where
  "update_holding un symb n t d =
     d\<lparr>portfolio := map (\<lambda>r. if p_symbol r = symb \<and> p_username r = un
                              then r\<lparr>p_shares := n, p_total := p_total r + t\<rparr> else r) (portfolio d)\<rparr>"

text \<open>\<open>DELETE FROM portfolio WHERE shares = 0\<close>: every user's empty rows.\<close>

definition delete_empty :: "db \<Rightarrow> db" where
  "delete_empty d = d\<lparr>portfolio := filter (\<lambda>r. p_shares r \<noteq> 0) (portfolio d)\<rparr>"

text \<open>
  What the specification asks for instead (section 4.4): delete the holding of
  this user and symbol if its shares reached 0, and no other row.
\<close>

definition delete_holding :: "string \<Rightarrow> string \<Rightarrow> db \<Rightarrow> db" where
  "delete_holding un symb d =
     d\<lparr>portfolio := filter (\<lambda>r. \<not> (p_username r = un \<and> p_symbol r = symb \<and> p_shares r = 0)) (portfolio d)\<rparr>"

text \<open>
  \<open>INSERT INTO users (username, hash) VALUES (?, ?)\<close>: a fresh id, the column
  default for \<open>cash\<close>, and \<open>IntegrityError\<close> from the unique index on
  \<open>username\<close> when the name is taken.
\<close>

definition insert_user :: "string \<Rightarrow> string \<Rightarrow> db \<Rightarrow> exc + db" where
  "insert_user un hs d =
     (if users_named d un \<noteq> [] then Inl IntegrityError
      else Inr (d\<lparr>users := users d @ [\<lparr>u_id = next_id d, u_username = un, u_hash = hs,
                                        u_cash = starting_cash\<rparr>],
                  next_id := Suc (next_id d)\<rparr>))"

text \<open>
  The cs50 library's \<open>SQL.execute(sql, *args)\<close> binds its positional arguments
  one to each \<open>?\<close> of the statement, and raises \<open>RuntimeError\<close> (more or fewer
  placeholders than values) before the statement runs when the counts differ; a
  tuple passed as one argument is one value.  \<open>stmt\<close> is the statement with its
  placeholders bound as the call site intends.
\<close>

definition cs50_execute :: "nat \<Rightarrow> 'a list \<Rightarrow> (db \<Rightarrow> exc + db) \<Rightarrow> db \<Rightarrow> exc + db" where
  "cs50_execute placeholders args stmt d =
     (if length args \<noteq> placeholders then Inl RuntimeError else stmt d)"

subsection \<open>Abstractions of the tables\<close>

text \<open>Shares of \<open>symb\<close> that \<open>un\<close> holds according to the portfolio table.\<close>

definition held :: "portfolio_row list \<Rightarrow> string \<Rightarrow> string \<Rightarrow> int" where
  "held rs un symb = sum_list (map p_shares (holding_rows rs un symb))"

text \<open>Shares of \<open>symb\<close> that \<open>un\<close> holds according to the ledger: bought minus sold.\<close>

definition ledger_shares :: "history_row list \<Rightarrow> string \<Rightarrow> string \<Rightarrow> int" where
  "ledger_shares hs un symb =
     sum_list (map h_shares (filter (\<lambda>h. h_username h = un \<and> h_symbol h = symb) hs))"

text \<open>Net cash \<open>un\<close> has paid for trades: shares times price, sales negative.\<close>

definition spent :: "history_row list \<Rightarrow> string \<Rightarrow> money" where
  "spent hs un = sum_list (map (\<lambda>h. of_int (h_shares h) * h_price h) (filter (\<lambda>h. h_username h = un) hs))"

text \<open>
  The credentials of the users table: id, name and password hash of each row,
  in rowid order (everything of a user but the cash).
\<close>

definition accounts :: "db \<Rightarrow> (uid \<times> string \<times> string) list" where
  "accounts d = map (\<lambda>u. (u_id u, u_username u, u_hash u)) (users d)"

text \<open>The cash column of the user with id \<open>i\<close>, if there is one.\<close>

definition cash_of :: "db \<Rightarrow> uid \<Rightarrow> money option" where
  "cash_of d i = (case users_with_id d i of [] \<Rightarrow> None | u # _ \<Rightarrow> Some (u_cash u))"


subsection \<open>Well-formed tables\<close>

text \<open>
  What the handlers keep true of the database: ids and usernames are unique and
  below the id counter, there is at most one portfolio row per user and symbol,
  every row holds a positive number of shares, and every portfolio row and ledger
  entry belongs to a registered user (\<open>wf_portfolio\<close> is the part about the
  portfolio table, given the registered names).
\<close>

definition wf_portfolio :: "portfolio_row list \<Rightarrow> string list \<Rightarrow> bool" where
  "wf_portfolio rs names \<longleftrightarrow>
     distinct (map (\<lambda>r. (p_username r, p_symbol r)) rs) \<and>
     (\<forall>r\<in>set rs. 0 < p_shares r) \<and>
     (\<forall>r\<in>set rs. p_username r \<in> set names)"

definition wf_db :: "db \<Rightarrow> bool" where
  "wf_db d \<longleftrightarrow>
     distinct (map u_id (users d)) \<and>
     distinct (map u_username (users d)) \<and>
     (\<forall>x\<in>set (map u_id (users d)). x < next_id d) \<and>
     wf_portfolio (portfolio d) (map u_username (users d)) \<and>
     (\<forall>h\<in>set (history d). h_username h \<in> set (map u_username (users d)))"

text \<open>
  The books balance: every user's cash is the starting cash less what the ledger
  says the user has paid, and every position in the portfolio table is what the
  ledger says it is.  The second part ranges over the keys that occur in either
  table; every other key has no shares in both.
\<close>

definition cash_balances :: "db \<Rightarrow> bool" where
  "cash_balances d \<longleftrightarrow>
     (\<forall>u\<in>set (users d). u_cash u = starting_cash - spent (history d) (u_username u))"

definition trade_keys :: "db \<Rightarrow> (string \<times> string) list" where
  "trade_keys d = map (\<lambda>r. (p_username r, p_symbol r)) (portfolio d) @
                  map (\<lambda>h. (h_username h, h_symbol h)) (history d)"

definition positions_match :: "db \<Rightarrow> bool" where
  "positions_match d \<longleftrightarrow>
     (\<forall>(un, symb)\<in>set (trade_keys d). held (portfolio d) un symb = ledger_shares (history d) un symb)"


text \<open>The invariant of the database that every request keeps.\<close>

definition db_inv :: "db \<Rightarrow> bool" where
  "db_inv d \<longleftrightarrow> wf_db d \<and> cash_balances d \<and> positions_match d"

text \<open>No account's cash is negative.\<close>

definition cash_nonneg :: "db \<Rightarrow> bool" where
  "cash_nonneg d \<longleftrightarrow> (\<forall>u\<in>set (users d). 0 \<le> u_cash u)"

subsection \<open>How each statement changes the abstractions\<close>

lemma held_append [store_simps]:
  "held (rs @ [r]) un symb = held rs un symb + (if p_username r = un \<and> p_symbol r = symb then p_shares r else 0)"
  by (simp add: held_def holding_rows_def)

lemma held_insert_portfolio [store_simps]:
  "held (portfolio (insert_portfolio r d)) un symb =
     held (portfolio d) un symb + (if p_username r = un \<and> p_symbol r = symb then p_shares r else 0)"
  by (simp add: insert_portfolio_def held_append)

lemma holding_rows_update [store_simps]:
  "holding_rows (portfolio (update_holding un symb n t d)) un' symb' =
     (if un' = un \<and> symb' = symb
      then map (\<lambda>r. r\<lparr>p_shares := n, p_total := p_total r + t\<rparr>) (holding_rows (portfolio d) un symb)
      else holding_rows (portfolio d) un' symb')"
proof -
  have h: "filter (\<lambda>r. p_username r = un' \<and> p_symbol r = symb')
          (map (\<lambda>r. if p_symbol r = symb \<and> p_username r = un
                    then r\<lparr>p_shares := n, p_total := p_total r + t\<rparr> else r) rs) =
        (if un' = un \<and> symb' = symb
         then map (\<lambda>r. r\<lparr>p_shares := n, p_total := p_total r + t\<rparr>)
                (filter (\<lambda>r. p_username r = un \<and> p_symbol r = symb) rs)
         else filter (\<lambda>r. p_username r = un' \<and> p_symbol r = symb') rs)" for rs :: "portfolio_row list"
    by (induction rs) auto
  have "portfolio (update_holding un symb n t d) =
      map (\<lambda>r. if p_symbol r = symb \<and> p_username r = un
                then r\<lparr>p_shares := n, p_total := p_total r + t\<rparr> else r) (portfolio d)"
    by (simp add: update_holding_def)
  then show ?thesis by (simp only: holding_rows_def h)
qed

lemma held_update_holding [store_simps]:
  "held (portfolio (update_holding un symb n t d)) un' symb' =
     (if un' = un \<and> symb' = symb then n * int (length (holding_rows (portfolio d) un symb))
      else held (portfolio d) un' symb')"
proof -
  have "sum_list (map (\<lambda>r. n) xs) = n * int (length xs)" for xs :: "portfolio_row list"
    by (induction xs) (auto simp: algebra_simps)
  then show ?thesis
    by (simp add: held_def holding_rows_update comp_def)
qed

lemma held_delete_empty [store_simps]:
  "held (portfolio (delete_empty d)) = held (portfolio d)"
proof (intro ext)
  fix un symb
  show "held (portfolio (delete_empty d)) un symb = held (portfolio d) un symb"
    using sum_list_map_filter_neg [of p_shares "\<lambda>r. p_username r = un \<and> p_symbol r = symb" "portfolio d"]
    by (simp add: held_def holding_rows_def delete_empty_def conj_commute conj_left_commute)
qed

lemma ledger_shares_append [store_simps]:
  "ledger_shares (hs @ [h]) un symb =
     ledger_shares hs un symb + (if h_username h = un \<and> h_symbol h = symb then h_shares h else 0)"
  by (simp add: ledger_shares_def)

lemma spent_append [store_simps]:
  "spent (hs @ [h]) un = spent hs un + (if h_username h = un then of_int (h_shares h) * h_price h else 0)"
  by (simp add: spent_def)

lemma users_with_id_update_cash [store_simps]:
  "users_with_id (update_cash i c d) j =
     (if j = i then map (\<lambda>u. u\<lparr>u_cash := c\<rparr>) (users_with_id d j) else users_with_id d j)"
proof -
  have h: "filter (\<lambda>u. u_id u = j) (map (\<lambda>u. if u_id u = i then u\<lparr>u_cash := c\<rparr> else u) us) =
        (if j = i then map (\<lambda>u. u\<lparr>u_cash := c\<rparr>) (filter (\<lambda>u. u_id u = j) us)
         else filter (\<lambda>u. u_id u = j) us)" for us :: "user_row list"
    by (induction us) auto
  have "users (update_cash i c d) = map (\<lambda>u. if u_id u = i then u\<lparr>u_cash := c\<rparr> else u) (users d)"
    by (simp add: update_cash_def)
  then show ?thesis by (simp only: users_with_id_def h)
qed

lemma cash_of_update_cash [store_simps]:
  "cash_of (update_cash i c d) j =
     (if j = i \<and> cash_of d j \<noteq> None then Some c else cash_of d j)"
  by (simp add: cash_of_def users_with_id_update_cash split: list.split)

lemma select_cash_cash_of:
  "select_cash d i = (case cash_of d i of None \<Rightarrow> Inl IndexError | Some c \<Rightarrow> Inr c)"
  by (simp add: select_cash_def cash_of_def first_row_def split: list.split)

lemma sum_shares_held:
  "sum_shares d un symb =
     (if holding_rows (portfolio d) un symb = [] then None else Some (held (portfolio d) un symb))"
  by (simp add: sum_shares_def held_def Let_def)

lemma holding_rows_at_most_one:
  assumes "distinct (map (\<lambda>r. (p_username r, p_symbol r)) rs)"
  shows "holding_rows rs un symb = [] \<or> (\<exists>r. holding_rows rs un symb = [r])"
proof -
  have "holding_rows rs un symb = filter (\<lambda>r. (p_username r, p_symbol r) = (un, symb)) rs"
    by (simp add: holding_rows_def)
  then show ?thesis
    using distinct_map_filter_key [OF assms, of "(un, symb)"] by simp
qed

subsection \<open>Frame equations\<close>

text \<open>Each statement writes one table; the other tables read as before.\<close>

lemma users_with_id_frames [store_simps]:
  "users_with_id (insert_history symb n pr un d) j = users_with_id d j"
  "users_with_id (insert_portfolio r d) j = users_with_id d j"
  "users_with_id (update_holding un symb n t d) j = users_with_id d j"
  "users_with_id (delete_empty d) j = users_with_id d j"
  by (simp_all add: users_with_id_def insert_history_def insert_portfolio_def
                    update_holding_def delete_empty_def)

lemma history_frames [store_simps]:
  "history (update_cash i c d) = history d"
  "history (insert_portfolio r d) = history d"
  "history (update_holding un symb n t d) = history d"
  "history (delete_empty d) = history d"
  "history (insert_history symb n pr un d) =
     history d @ [\<lparr>h_symbol = symb, h_shares = n, h_price = pr, h_username = un\<rparr>]"
  by (simp_all add: update_cash_def insert_history_def insert_portfolio_def
                    update_holding_def delete_empty_def)

lemma portfolio_frames [store_simps]:
  "portfolio (update_cash i c d) = portfolio d"
  "portfolio (insert_history symb n pr un d) = portfolio d"
  by (simp_all add: update_cash_def insert_history_def)

lemma users_frames [store_simps]:
  "users (insert_history symb n pr un d) = users d"
  "users (insert_portfolio r d) = users d"
  "users (update_holding un symb n t d) = users d"
  "users (delete_empty d) = users d"
  "map u_id (users (update_cash i c d)) = map u_id (users d)"
  "map u_username (users (update_cash i c d)) = map u_username (users d)"
  by (simp_all add: insert_history_def insert_portfolio_def update_holding_def delete_empty_def
                    update_cash_def)

lemma accounts_frames [store_simps]:
  "accounts (update_cash i c d) = accounts d"
  "accounts (insert_history symb n pr un d) = accounts d"
  "accounts (insert_portfolio r d) = accounts d"
  "accounts (update_holding un symb n t d) = accounts d"
  "accounts (delete_empty d) = accounts d"
  by (simp_all add: accounts_def update_cash_def insert_history_def insert_portfolio_def
                    update_holding_def delete_empty_def)

lemma users_named_accounts:
  assumes "users_named d un = [row]"
  shows "(u_id row, un, u_hash row) \<in> set (accounts d)"
proof -
  have "row \<in> set (filter (\<lambda>u. u_username u = un) (users d))"
    using assms by (simp add: users_named_def)
  then show ?thesis by (force simp: accounts_def)
qed

lemma select_username_subquery:
  "select_username d i = Inr un \<Longrightarrow> username_subquery d i = Some un"
  by (auto simp: select_username_def username_subquery_def first_row_def split: list.splits)

lemma next_id_frames [store_simps]:
  "next_id (update_cash i c d) = next_id d"
  "next_id (insert_history symb n pr un d) = next_id d"
  "next_id (insert_portfolio r d) = next_id d"
  "next_id (update_holding un symb n t d) = next_id d"
  "next_id (delete_empty d) = next_id d"
  by (simp_all add: insert_history_def insert_portfolio_def update_holding_def delete_empty_def
                    update_cash_def)

lemma cash_of_frames [store_simps]:
  "cash_of (insert_history symb n pr un d) j = cash_of d j"
  "cash_of (insert_portfolio r d) j = cash_of d j"
  "cash_of (update_holding un symb n t d) j = cash_of d j"
  "cash_of (delete_empty d) j = cash_of d j"
  by (simp_all add: cash_of_def users_with_id_frames)

lemma held_single:
  assumes "distinct (map (\<lambda>r. (p_username r, p_symbol r)) rs)" "holding_rows rs un symb \<noteq> []"
  shows "int (length (holding_rows rs un symb)) = 1"
  using holding_rows_at_most_one [OF assms(1), of un symb] assms(2) by auto


subsection \<open>Well-formedness and the books\<close>

lemma held_pos_of_rows:
  assumes "\<forall>r\<in>set rs. 0 < p_shares r" "holding_rows rs un symb \<noteq> []"
  shows "0 < held rs un symb"
  using assms sum_list_map_pos [of "holding_rows rs un symb" p_shares]
  by (simp add: held_def holding_rows_def)

lemma holding_rows_Nil_iff:
  "holding_rows rs un symb = [] \<longleftrightarrow> (un, symb) \<notin> set (map (\<lambda>r. (p_username r, p_symbol r)) rs)"
  by (auto simp: holding_rows_def filter_empty_conv)

lemma keys_update_holding [store_simps]:
  "map (\<lambda>r. (p_username r, p_symbol r)) (portfolio (update_holding un symb v t d)) =
   map (\<lambda>r. (p_username r, p_symbol r)) (portfolio d)"
  by (simp add: update_holding_def)

lemma shares_update_holding:
  "r \<in> set (portfolio (update_holding un symb v t d)) \<Longrightarrow>
     (p_shares r = v \<and> p_username r = un \<and> p_symbol r = symb) \<or> r \<in> set (portfolio d)"
  by (auto simp: update_holding_def)

lemma portfolio_delete_empty:
  "portfolio (delete_empty d) = filter (\<lambda>r. p_shares r \<noteq> 0) (portfolio d)"
  by (simp add: delete_empty_def)

lemma select_username_registered:
  assumes "select_username d i = Inr un"
  shows "un \<in> set (map u_username (users d))"
proof -
  obtain u us where u: "users_with_id d i = u # us" "un = u_username u"
    using assms by (auto simp: select_username_def first_row_def split: list.splits)
  then have "u \<in> set (users d)"
    by (auto simp: users_with_id_def dest: filter_Cons_mem)
  with u(2) show ?thesis by simp
qed

lemma first_user:
  assumes "select_cash d i = Inr c" "select_username d i = Inr un"
  obtains u0 where "u0 \<in> set (users d)" "u_id u0 = i" "u_cash u0 = c" "u_username u0 = un"
proof -
  obtain u0 us where u0: "users_with_id d i = u0 # us" "c = u_cash u0" "un = u_username u0"
    using assms by (auto simp: select_cash_def select_username_def first_row_def split: list.splits)
  then have "u0 \<in> set (users_with_id d i)" by simp
  then have "u0 \<in> set (users d)" "u_id u0 = i" by (simp_all add: users_with_id_def)
  with u0 that show ?thesis by simp
qed

lemma users_update_cash:
  "users (update_cash i c d) = map (\<lambda>u. if u_id u = i then u\<lparr>u_cash := c\<rparr> else u) (users d)"
  by (simp add: update_cash_def)

lemma cash_balances_trade:
  assumes wf: "wf_db d" and cb: "cash_balances d"
    and c: "select_cash d i = Inr c" and un: "select_username d i = Inr un"
  shows "cash_balances (insert_history symb n pr un (update_cash i (c - pr * of_int n) d))"
proof -
  obtain u0 where u0: "u0 \<in> set (users d)" "u_id u0 = i" "u_cash u0 = c" "u_username u0 = un"
    using first_user [OF c un] by blast
  have inj: "inj_on u_id (set (users d))" "inj_on u_username (set (users d))"
    using wf by (simp_all add: wf_db_def distinct_map)
  have c0: "c = starting_cash - spent (history d) un"
    using cb u0 by (auto simp: cash_balances_def)
  show ?thesis unfolding cash_balances_def
  proof
    fix u' assume "u' \<in> set (users (insert_history symb n pr un (update_cash i (c - pr * of_int n) d)))"
    then obtain u where u: "u \<in> set (users d)"
      and u': "u' = (if u_id u = i then u\<lparr>u_cash := c - pr * of_int n\<rparr> else u)"
      by (auto simp: store_simps users_update_cash)
    show "u_cash u' = starting_cash - spent (history (insert_history symb n pr un (update_cash i (c - pr * of_int n) d))) (u_username u')"
    proof (cases "u_id u = i")
      case True
      then have "u = u0" using inj(1) u u0 by (auto dest: inj_onD)
      then show ?thesis using True u' u0 c0 by (simp add: store_simps algebra_simps)
    next
      case False
      then have "u_username u \<noteq> un" using inj(2) u u0 by (auto dest: inj_onD)
      then show ?thesis using False u' u cb by (simp add: store_simps cash_balances_def)
    qed
  qed
qed

lemma cash_balances_frame:
  "users d' = users d \<Longrightarrow> history d' = history d \<Longrightarrow> cash_balances d' = cash_balances d"
  by (simp add: cash_balances_def)

lemma positions_match_iff:
  "positions_match d \<longleftrightarrow> (\<forall>un symb. held (portfolio d) un symb = ledger_shares (history d) un symb)"
proof
  assume pm: "positions_match d"
  show "\<forall>un symb. held (portfolio d) un symb = ledger_shares (history d) un symb"
  proof (intro allI)
    fix un symb
    show "held (portfolio d) un symb = ledger_shares (history d) un symb"
    proof (cases "(un, symb) \<in> set (trade_keys d)")
      case True
      then show ?thesis using pm by (auto simp: positions_match_def)
    next
      case False
      then have "holding_rows (portfolio d) un symb = []"
        and "filter (\<lambda>h. h_username h = un \<and> h_symbol h = symb) (history d) = []"
        by (auto simp: trade_keys_def holding_rows_def filter_empty_conv)
      then show ?thesis by (simp add: held_def ledger_shares_def)
    qed
  qed
next
  assume "\<forall>un symb. held (portfolio d) un symb = ledger_shares (history d) un symb"
  then show "positions_match d" by (auto simp: positions_match_def)
qed


lemma wf_portfolio_more_names:
  "wf_portfolio rs names \<Longrightarrow> set names \<subseteq> set names' \<Longrightarrow> wf_portfolio rs names'"
  by (auto simp: wf_portfolio_def)


lemma cash_nonneg_update_cash:
  "cash_nonneg d \<Longrightarrow> 0 \<le> c \<Longrightarrow> cash_nonneg (update_cash i c d)"
  by (auto simp: cash_nonneg_def update_cash_def)

lemma select_cash_nonneg:
  "cash_nonneg d \<Longrightarrow> select_cash d i = Inr c \<Longrightarrow> 0 \<le> c"
  by (auto simp: cash_nonneg_def select_cash_def first_row_def users_with_id_def
           split: list.splits dest!: filter_Cons_mem)


lemma sum_total_update_holding:
  "sum_list (map p_total (filter (\<lambda>r. p_username r = un') (portfolio (update_holding un symb v t d)))) =
   sum_list (map p_total (filter (\<lambda>r. p_username r = un') (portfolio d))) +
   (if un' = un then t * of_nat (length (holding_rows (portfolio d) un symb)) else 0)"
proof -
  have "sum_list (map p_total (filter (\<lambda>r. p_username r = un')
          (map (\<lambda>r. if p_symbol r = symb \<and> p_username r = un then r\<lparr>p_shares := v, p_total := p_total r + t\<rparr> else r) rs))) =
        sum_list (map p_total (filter (\<lambda>r. p_username r = un') rs)) +
        (if un' = un then t * of_nat (length (filter (\<lambda>r. p_username r = un \<and> p_symbol r = symb) rs)) else 0)"
    for rs :: "portfolio_row list"
    by (induction rs) (auto simp: algebra_simps)
  then show ?thesis by (simp add: update_holding_def holding_rows_def)
qed

lemma username_subquery_update_cash [store_simps]:
  "username_subquery (update_cash i c d) j = username_subquery d j"
  by (simp add: username_subquery_def users_with_id_update_cash split: list.split)

lemma username_subquery_insert_history [store_simps]:
  "username_subquery (insert_history symb n pr un d) j = username_subquery d j"
  by (simp add: username_subquery_def users_with_id_frames)

lemma portfolio_of_user:
  "username_subquery d i = Some un \<Longrightarrow> portfolio_of d i = filter (\<lambda>r. p_username r = un) (portfolio d)"
  unfolding portfolio_of_def by (rule filter_cong) auto

text \<open>
  C16. The global delete is the per-holding delete of the specification: on a
  well-formed database, where every stored row holds a positive number of
  shares, \<open>DELETE FROM portfolio WHERE shares = 0\<close> after a sale's update of
  one holding removes exactly that holding if it reached 0 and no row of any
  other user or symbol.
\<close>

theorem delete_empty_is_delete_holding:
  assumes "wf_db d"
  shows "delete_empty (update_holding un symb n t d) = delete_holding un symb (update_holding un symb n t d)"
proof -
  have pos: "p_shares r \<noteq> 0" if "r \<in> set (portfolio d)" for r
    using assms that by (auto simp: wf_db_def wf_portfolio_def)
  have "filter (\<lambda>r. p_shares r \<noteq> 0) (portfolio (update_holding un symb n t d)) =
        filter (\<lambda>r. \<not> (p_username r = un \<and> p_symbol r = symb \<and> p_shares r = 0)) (portfolio (update_holding un symb n t d))"
    using pos by (auto simp: update_holding_def intro!: filter_cong)
  then show ?thesis by (simp add: delete_empty_def delete_holding_def)
qed

end
