(* ===== verification/Services.thy ===== *)
theory Services
  imports Prelude
begin

text \<open>
  The two external collaborators of the application, modelled as interfaces:
  the quote service behind \<open>helpers.lookup\<close> and Werkzeug's password hashing
  (\<open>generate_password_hash\<close>, \<open>check_password_hash\<close>).  Neither is under
  \<open>src/\<close>; both are parameters of the handlers, and what the handlers' theorems
  need of them is stated as a predicate (\<open>hasher_sound\<close>, \<open>prices_nonneg\<close>)
  that the theorems assume and that the concrete instance \<open>tagged_hasher\<close>
  satisfies.
\<close>

subsection \<open>Quote lookup\<close>

text \<open>
  The dictionary \<open>lookup\<close> returns: \<open>{"name": ..., "price": ..., "symbol": ...}\<close>.
  The symbol it returns is the service's canonical spelling, which the handlers
  store instead of the submitted text.
\<close>

record quote =
  q_name :: string
  q_price :: money
  q_symbol :: string

text \<open>The market at the moment of a request: symbol to quote, \<open>None\<close> for unknown.\<close>

type_synonym market = "string \<Rightarrow> quote option"

text \<open>
  \<open>lookup(symbol)\<close> on the value of a form field; a missing field (\<open>None\<close>) has
  no quote, the not-found signal of the specification.
\<close>

definition lookup :: "market \<Rightarrow> string option \<Rightarrow> quote option" where
  "lookup mk s = (case s of None \<Rightarrow> None | Some x \<Rightarrow> mk x)"

definition prices_nonneg :: "market \<Rightarrow> bool" where
  "prices_nonneg mk \<longleftrightarrow> (\<forall>s q. mk s = Some q \<longrightarrow> 0 \<le> q_price q)"

subsection \<open>Password hashing\<close>

text \<open>
  \<open>generate_password_hash(password)\<close> draws a random salt; the salt is an input
  of the model.  \<open>check_password_hash(hash, password)\<close> verifies a password
  against a stored hash.
\<close>

record hasher =
  gen_hash :: "string \<Rightarrow> string \<Rightarrow> string"  \<comment> \<open>salt, password\<close>
  check_hash :: "string \<Rightarrow> string \<Rightarrow> bool"  \<comment> \<open>stored hash, candidate password\<close>

text \<open>
  What the application relies on: a hash verifies exactly the password it was
  made from, and it is never the password itself.
\<close>

definition hasher_sound :: "hasher \<Rightarrow> bool" where
  "hasher_sound h \<longleftrightarrow>
     (\<forall>salt p q. check_hash h (gen_hash h salt p) q \<longleftrightarrow> q = p) \<and>
     (\<forall>salt p. gen_hash h salt p \<noteq> p)"

text \<open>
  A concrete instance used to evaluate examples: the hash is the password behind
  a method tag, as in Werkzeug's \<open>method$salt$digest\<close> format with an
  identity digest and no salt.
\<close>

definition tagged_hasher :: hasher where
  "tagged_hasher = \<lparr>gen_hash = (\<lambda>salt p. ''plain$'' @ p), check_hash = (\<lambda>hs q. hs = ''plain$'' @ q)\<rparr>"

lemma tagged_hasher_sound: "hasher_sound tagged_hasher"
proof -
  have "''plain$'' @ p \<noteq> p" for p :: string
    using arg_cong [of "''plain$'' @ p" p length] by auto
  then show ?thesis by (auto simp: hasher_sound_def tagged_hasher_def)
qed

end
