(* ===== verification/Web.thy ===== *)
theory Web
  imports Store Services
begin

text \<open>
  The Flask layer of \<open>src/finance/application.py\<close>: requests and responses,
  the templates a handler renders, the \<open>apology\<close> error page, the
  \<open>after_request\<close> hook (lines 19--24), the \<open>errorhandler\<close> that turns every
  escaping exception into an apology (lines 265--274), and the per-client session
  (\<open>session["user_id"]\<close>) with the \<open>login_required\<close> guard of \<open>helpers.py\<close>.
\<close>

datatype http_method = GET | POST

text \<open>
  A request: method, path and submitted form, plus the salt that
  \<open>generate_password_hash\<close> draws while serving it.
\<close>

record request =
  req_method :: http_method
  req_path :: string
  req_form :: form
  req_salt :: string

text \<open>The templates of \<open>templates/\<close>, with the context each handler passes.\<close>

datatype page =
    IndexPage money money "portfolio_row list"  \<comment> \<open>\<open>index.html\<close>: total, cash, portfolio\<close>
  | BuyForm
  | HistoryPage "history_row list"
  | LoginForm
  | QuoteForm
  | QuotedPage quote
  | RegisterForm
  | RegisteredPage
  | SellForm "string list"

text \<open>\<open>render_template(...)\<close>, \<open>redirect(url)\<close>, and \<open>apology(message, code)\<close> of \<open>helpers.py\<close>, whose default code is 400.\<close>

datatype response =
    Render page
  | Redirect string
  | Apology string nat

record http_response =
  resp_body :: response
  resp_headers :: "(string \<times> string) list"

text \<open>\<open>response.headers[k] = v\<close>: Werkzeug's \<open>Headers.__setitem__\<close> replaces every header named \<open>k\<close>.\<close>

definition set_header :: "string \<Rightarrow> string \<Rightarrow> http_response \<Rightarrow> http_response" where
  "set_header k v r = r\<lparr>resp_headers := filter (\<lambda>(k', _). k' \<noteq> k) (resp_headers r) @ [(k, v)]\<rparr>"

definition after_request :: "http_response \<Rightarrow> http_response" where
  "after_request r =
     set_header ''Pragma'' ''no-cache''
       (set_header ''Expires'' ''0''
         (set_header ''Cache-Control'' ''no-cache, no-store, must-revalidate'' r))"

text \<open>
  \<open>errorhandler(e)\<close>: an \<open>HTTPException\<close> keeps its name and code, anything else
  becomes \<open>InternalServerError\<close>.
\<close>

definition errorhandler :: "exc \<Rightarrow> response" where
  "errorhandler e =
     (case e of
        HTTPException code name \<Rightarrow> Apology name code
      | _ \<Rightarrow> Apology ''Internal Server Error'' 500)"

text \<open>The server-side state: the database and this client's session.\<close>

record app_state =
  st_db :: db
  st_session :: "uid option"

text \<open>
  \<open>login_required\<close> of \<open>helpers.py\<close>: without \<open>session["user_id"]\<close> the view is
  not run and the client is sent to \<open>/login\<close>.
\<close>

definition login_required ::
  "(uid \<Rightarrow> app_state \<Rightarrow> (exc + response) \<times> app_state) \<Rightarrow> app_state \<Rightarrow> (exc + response) \<times> app_state" where
  "login_required view s =
     (case st_session s of None \<Rightarrow> (Inr (Redirect ''/login''), s) | Some i \<Rightarrow> view i s)"

text \<open>A handler that works on the database only, run on the application state.\<close>

definition on_db ::
  "(db \<Rightarrow> (exc + response) \<times> db) \<Rightarrow> app_state \<Rightarrow> (exc + response) \<times> app_state" where
  "on_db h s = (let (r, d) = h (st_db s) in (r, s\<lparr>st_db := d\<rparr>))"

end
