(* ===== verification/Trade.thy ===== *)
theory Trade
  imports Web
begin

text \<open>
  The two handlers that move money and shares, \<open>buy\<close> (lines 57--103) and
  \<open>sell\<close> (lines 212--262) of \<open>src/finance/application.py\<close>.  Each POST is one
  definition that follows the source statement by statement: the quote lookup,
  the \<open>int()\<close> of the shares field, the guards with their apologies, and then
  the sequence of SQL statements, each a function of \<open>Store\<close> applied to the
  database left by the one before.  An exception that escapes is an \<open>Inl\<close>
  result together with the database as it was when it was raised.
\<close>

text \<open>
  Lines 89--99, ``Adding to Portfolio'': the first purchase of a symbol inserts a
  row; a later one sets the row's shares to the old sum plus the new shares and
  adds the cost to its total.  \<open>if not portfolio_shares\<close> treats a sum of 0
  like no row at all.
\<close>

definition add_to_portfolio :: "string \<Rightarrow> quote \<Rightarrow> int \<Rightarrow> money \<Rightarrow> db \<Rightarrow> db" where
  "add_to_portfolio un q n total_price d =
     (case sum_shares d un (q_symbol q) of
        Some portfolio_shares \<Rightarrow>
          if portfolio_shares = 0
          then insert_portfolio \<lparr>p_username = un, p_symbol = q_symbol q, p_name = q_name q,
                                 p_shares = n, p_price = q_price q, p_total = total_price\<rparr> d
          else update_holding un (q_symbol q) (portfolio_shares + n) total_price d
      | None \<Rightarrow>
          insert_portfolio \<lparr>p_username = un, p_symbol = q_symbol q, p_name = q_name q,
                             p_shares = n, p_price = q_price q, p_total = total_price\<rparr> d)"

definition buy_post :: "market \<Rightarrow> form \<Rightarrow> uid \<Rightarrow> db \<Rightarrow> (exc + response) \<times> db" where
  "buy_post mk f i d =
     (let symbol = form_get f ''symbol'';
          symbol_data = lookup mk symbol
      in case int_field (form_get f ''shares'') of
           Inl e \<Rightarrow> (Inl e, d)
         | Inr user_shares \<Rightarrow>
            (case (truthy symbol, symbol_data) of
               (True, Some q) \<Rightarrow>
                 if user_shares < 1 then (Inr (Apology ''MISSING SHARES'' 400), d)
                 else
                   (let total_price = q_price q * of_int user_shares in
                    case select_cash d i of
                      Inl e \<Rightarrow> (Inl e, d)
                    | Inr cash \<Rightarrow>
                        if total_price > cash then (Inr (Apology ''NO ENOUGH CASH'' 400), d)
                        else
                          (case select_username d i of
                             Inl e \<Rightarrow> (Inl e, d)
                           | Inr un \<Rightarrow>
                               (let d1 = update_cash i (cash - total_price) d;
                                    d2 = insert_history (q_symbol q) user_shares (q_price q) un d1;
                                    d3 = add_to_portfolio un q user_shares total_price d2
                                in (Inr (Redirect ''/''), d3))))
             | _ \<Rightarrow> (Inr (Apology ''MISSING SYMBOL'' 400), d)))"

definition buy :: "market \<Rightarrow> http_method \<Rightarrow> form \<Rightarrow> uid \<Rightarrow> db \<Rightarrow> (exc + response) \<times> db" where
  "buy mk m f i d = (case m of POST \<Rightarrow> buy_post mk f i d | GET \<Rightarrow> (Inr (Render BuyForm), d))"

text \<open>
  Lines 250--258 of \<open>sell\<close>: the new share count is the old sum less the shares
  sold (a \<open>None\<close> sum would make the subtraction raise \<open>TypeError\<close>), the
  proceeds are taken off the row's total, and then every row of the table whose
  shares reached 0 is deleted.
\<close>

definition take_from_portfolio :: "string \<Rightarrow> quote \<Rightarrow> int \<Rightarrow> money \<Rightarrow> db \<Rightarrow> exc + db" where
  "take_from_portfolio un q n total_price d =
     (case sum_shares d un (q_symbol q) of
        None \<Rightarrow> Inl TypeError
      | Some portfolio_shares \<Rightarrow>
          Inr (delete_empty (update_holding un (q_symbol q) (portfolio_shares - n) (- total_price) d)))"

definition sell_post :: "market \<Rightarrow> form \<Rightarrow> uid \<Rightarrow> db \<Rightarrow> (exc + response) \<times> db" where
  "sell_post mk f i d =
     (let symbol = form_get f ''symbol'';
          symbol_data = lookup mk symbol
      in case int_field (form_get f ''shares'') of
           Inl e \<Rightarrow> (Inl e, d)
         | Inr shares_to_sell \<Rightarrow>
            (case (truthy symbol, symbol_data) of
               (True, Some q) \<Rightarrow>
                 if shares_to_sell < 1 then (Inr (Apology ''MISSING SHARES'' 400), d)
                 else
                   (case select_shares d i (q_symbol q) of
                      Inl e \<Rightarrow> (Inl e, d)
                    | Inr current_shares \<Rightarrow>
                        if shares_to_sell > current_shares
                        then (Inr (Apology ''YOU DON'T OWN THESE SHARES'' 400), d)
                        else
                          (let total_price = q_price q * of_int shares_to_sell in
                           case select_cash d i of
                             Inl e \<Rightarrow> (Inl e, d)
                           | Inr cash \<Rightarrow>
                               (case select_username d i of
                                  Inl e \<Rightarrow> (Inl e, d)
                                | Inr un \<Rightarrow>
                                    (let d1 = update_cash i (cash + total_price) d;
                                         d2 = insert_history (q_symbol q) ((-1) * shares_to_sell) (q_price q) un d1
                                     in case take_from_portfolio un q shares_to_sell total_price d2 of
                                          Inl e \<Rightarrow> (Inl e, d2)
                                        | Inr d3 \<Rightarrow> (Inr (Redirect ''/''), d3)))))
             | _ \<Rightarrow> (Inr (Apology ''MISSING SYMBOL'' 400), d)))"

definition sell :: "market \<Rightarrow> http_method \<Rightarrow> form \<Rightarrow> uid \<Rightarrow> db \<Rightarrow> (exc + response) \<times> db" where
  "sell mk m f i d =
     (let user_symbols = symbols_of d i in
      case m of POST \<Rightarrow> sell_post mk f i d | GET \<Rightarrow> (Inr (Render (SellForm user_symbols)), d))"

subsection \<open>The contract of a trade\<close>

text \<open>
  What a user can observe of the database: the cash of each account, the
  position in each symbol according to the portfolio table, and the ledger.
  A trade of \<open>n\<close> shares (negative for a sale) at price \<open>pr\<close> moves
  \<open>pr * n\<close> out of the trader's cash, \<open>n\<close> shares into the position, and
  appends one ledger entry; nothing else changes.
\<close>

record account_view =
  av_cash :: "uid \<Rightarrow> money option"
  av_held :: "string \<Rightarrow> string \<Rightarrow> int"
  av_ledger :: "history_row list"

definition view :: "db \<Rightarrow> account_view" where
  "view d = \<lparr>av_cash = cash_of d, av_held = held (portfolio d), av_ledger = history d\<rparr>"

definition trade_spec :: "uid \<Rightarrow> string \<Rightarrow> string \<Rightarrow> int \<Rightarrow> money \<Rightarrow> account_view \<Rightarrow> account_view" where
  "trade_spec i un symb n pr v =
     v\<lparr>av_cash := (av_cash v)(i := map_option (\<lambda>c. c - pr * of_int n) (av_cash v i)),
       av_held := (\<lambda>u s. av_held v u s + (if u = un \<and> s = symb then n else 0)),
       av_ledger := av_ledger v @ [\<lparr>h_symbol = symb, h_shares = n, h_price = pr, h_username = un\<rparr>]\<rparr>"

text \<open>The guards of a POST to \<open>/buy\<close> or \<open>/sell\<close> on the submitted form.\<close>

definition order_ok :: "market \<Rightarrow> form \<Rightarrow> quote \<Rightarrow> int \<Rightarrow> bool" where
  "order_ok mk f q n \<longleftrightarrow>
     truthy (form_get f ''symbol'') \<and> lookup mk (form_get f ''symbol'') = Some q \<and>
     int_field (form_get f ''shares'') = Inr n \<and> 1 \<le> n"


subsection \<open>Behaviour of the handlers\<close>

lemma add_to_portfolio_frames [store_simps]:
  "cash_of (add_to_portfolio un q n t d) j = cash_of d j"
  "history (add_to_portfolio un q n t d) = history d"
  by (simp_all add: add_to_portfolio_def store_simps split: option.split)

lemma take_from_portfolio_frames:
  assumes "take_from_portfolio un q n t d = Inr d'"
  shows "cash_of d' j = cash_of d j" "history d' = history d"
  using assms by (auto simp: take_from_portfolio_def store_simps split: option.splits)

lemma held_add_to_portfolio:
  assumes keys: "distinct (map (\<lambda>r. (p_username r, p_symbol r)) (portfolio d))"
  shows "held (portfolio (add_to_portfolio un q n t d)) u s =
           held (portfolio d) u s + (if u = un \<and> s = q_symbol q then n else 0)"
proof (cases "holding_rows (portfolio d) un (q_symbol q) = []")
  case True
  then show ?thesis by (simp add: add_to_portfolio_def sum_shares_held store_simps)
next
  case False
  then have "int (length (holding_rows (portfolio d) un (q_symbol q))) = 1"
    by (rule held_single [OF keys])
  then show ?thesis
    using False by (auto simp: add_to_portfolio_def sum_shares_held store_simps)
qed

lemma held_take_from_portfolio:
  assumes keys: "distinct (map (\<lambda>r. (p_username r, p_symbol r)) (portfolio d))"
    and rows: "holding_rows (portfolio d) un (q_symbol q) \<noteq> []"
  shows "\<exists>d'. take_from_portfolio un q n t d = Inr d' \<and>
           held (portfolio d') = (\<lambda>u s. held (portfolio d) u s - (if u = un \<and> s = q_symbol q then n else 0))"
proof -
  have "int (length (holding_rows (portfolio d) un (q_symbol q))) = 1"
    by (rule held_single [OF keys rows])
  then show ?thesis
    using rows by (auto simp: take_from_portfolio_def sum_shares_held store_simps fun_eq_iff)
qed

lemma cash_of_Some_select:
  "cash_of d i = Some c \<Longrightarrow> select_cash d i = Inr c"
  "username_subquery d i = Some un \<Longrightarrow> select_username d i = Inr un"
  by (auto simp: select_cash_def select_username_def cash_of_def username_subquery_def first_row_def
           split: list.splits)

text \<open>A purchase that passes its guards: the response and the database afterwards.\<close>

lemma buy_post_run:
  assumes ok: "order_ok mk f q n"
    and cash: "cash_of d i = Some c" "q_price q * of_int n \<le> c"
    and user: "username_subquery d i = Some un"
  shows "buy_post mk f i d =
           (Inr (Redirect ''/''),
            add_to_portfolio un q n (q_price q * of_int n)
              (insert_history (q_symbol q) n (q_price q) un (update_cash i (c - q_price q * of_int n) d)))"
  using ok cash cash_of_Some_select(1) [OF cash(1)] cash_of_Some_select(2) [OF user]
  by (simp add: buy_post_def order_ok_def Let_def)

text \<open>
  C1. A purchase that passes the handler's checks (a known symbol, a whole number of at
  least one share, enough cash, a registered user) redirects to / and changes the
  account exactly as the abstract trade says: cash falls by price times shares, the
  position in the quoted symbol grows by the shares, and one ledger entry (symbol,
  shares, price) is appended to the user's history.
\<close>

lemma buy_post_refines:
  assumes ok: "order_ok mk f q n"
    and cash: "cash_of d i = Some c" "q_price q * of_int n \<le> c"
    and user: "username_subquery d i = Some un"
    and keys: "distinct (map (\<lambda>r. (p_username r, p_symbol r)) (portfolio d))"
  shows "fst (buy_post mk f i d) = Inr (Redirect ''/'') \<and>
         view (snd (buy_post mk f i d)) = trade_spec i un (q_symbol q) n (q_price q) (view d)"
  using keys cash(1)
  by (auto simp: buy_post_run [OF ok cash user] view_def trade_spec_def store_simps fun_eq_iff
                 held_add_to_portfolio)

lemma select_shares_rows:
  assumes "username_subquery d i = Some un"
  shows "select_shares d i symb = (case holding_rows (portfolio d) un symb of [] \<Rightarrow> Inl IndexError | r # _ \<Rightarrow> Inr (p_shares r))"
proof -
  have "filter (\<lambda>r. username_subquery d i = Some (p_username r) \<and> p_symbol r = symb) (portfolio d) =
        holding_rows (portfolio d) un symb"
    using assms by (auto simp: holding_rows_def intro: filter_cong)
  then show ?thesis by (simp add: select_shares_def first_row_def split: list.split)
qed

lemma select_shares_held:
  assumes "username_subquery d i = Some un"
    and keys: "distinct (map (\<lambda>r. (p_username r, p_symbol r)) (portfolio d))"
    and rows: "holding_rows (portfolio d) un symb \<noteq> []"
  shows "select_shares d i symb = Inr (held (portfolio d) un symb)"
proof -
  obtain r where "holding_rows (portfolio d) un symb = [r]"
    using holding_rows_at_most_one [OF keys, of un symb] rows by blast
  then show ?thesis using assms(1) by (simp add: select_shares_rows held_def)
qed

lemma held_pos_rows:
  "0 < held rs un symb \<Longrightarrow> holding_rows rs un symb \<noteq> []"
  by (auto simp: held_def)

text \<open>
  A sale that passes its guards: the response and the three tables afterwards.
\<close>

lemma sell_post_run:
  assumes ok: "order_ok mk f q n"
    and cash: "cash_of d i = Some c"
    and user: "username_subquery d i = Some un"
    and owned: "n \<le> held (portfolio d) un (q_symbol q)"
    and keys: "distinct (map (\<lambda>r. (p_username r, p_symbol r)) (portfolio d))"
  obtains d3 where "sell_post mk f i d = (Inr (Redirect ''/''), d3)"
    and "cash_of d3 = (cash_of d)(i := Some (c + q_price q * of_int n))"
    and "history d3 = history d @ [\<lparr>h_symbol = q_symbol q, h_shares = - n, h_price = q_price q,
                                     h_username = un\<rparr>]"
    and "held (portfolio d3) = (\<lambda>u s. held (portfolio d) u s - (if u = un \<and> s = q_symbol q then n else 0))"
proof -
  have rows: "holding_rows (portfolio d) un (q_symbol q) \<noteq> []"
    using ok owned by (intro held_pos_rows) (simp add: order_ok_def)
  let ?d2 = "insert_history (q_symbol q) ((-1) * n) (q_price q) un (update_cash i (c + q_price q * of_int n) d)"
  have keys2: "distinct (map (\<lambda>r. (p_username r, p_symbol r)) (portfolio ?d2))"
    and rows2: "holding_rows (portfolio ?d2) un (q_symbol q) \<noteq> []"
    using keys rows by (simp_all add: store_simps)
  obtain d3 where d3: "take_from_portfolio un q n (q_price q * of_int n) ?d2 = Inr d3"
    and h3: "held (portfolio d3) = (\<lambda>u s. held (portfolio d) u s - (if u = un \<and> s = q_symbol q then n else 0))"
    using held_take_from_portfolio [OF keys2 rows2] by (auto simp: store_simps)
  have "select_shares d i (q_symbol q) = Inr (held (portfolio d) un (q_symbol q))"
    by (rule select_shares_held [OF user keys rows])
  then have "sell_post mk f i d = (Inr (Redirect ''/''), d3)"
    using ok owned d3 cash_of_Some_select(1) [OF cash] cash_of_Some_select(2) [OF user]
    by (simp add: sell_post_def order_ok_def Let_def split: bool.split)
  moreover have "cash_of d3 = (cash_of d)(i := Some (c + q_price q * of_int n))"
    using take_from_portfolio_frames(1) [OF d3] cash by (simp add: store_simps fun_eq_iff)
  moreover have "history d3 = history d @ [\<lparr>h_symbol = q_symbol q, h_shares = - n, h_price = q_price q,
                                              h_username = un\<rparr>]"
    using take_from_portfolio_frames(2) [OF d3] by (simp add: store_simps)
  ultimately show ?thesis using h3 that by blast
qed

text \<open>
  C2. A sale that passes the handler's checks (a known symbol, a whole number of at
  least one share, no more than the user holds) redirects to / and changes the account
  exactly as the abstract trade with the negated share count says: cash rises by price
  times shares, the position falls by the shares, and one ledger entry with negative
  shares is appended.
\<close>

lemma sell_post_refines:
  assumes ok: "order_ok mk f q n"
    and cash: "cash_of d i = Some c"
    and user: "username_subquery d i = Some un"
    and owned: "n \<le> held (portfolio d) un (q_symbol q)"
    and keys: "distinct (map (\<lambda>r. (p_username r, p_symbol r)) (portfolio d))"
  shows "fst (sell_post mk f i d) = Inr (Redirect ''/'') \<and>
         view (snd (sell_post mk f i d)) = trade_spec i un (q_symbol q) (- n) (q_price q) (view d)"
proof -
  obtain d3 where "sell_post mk f i d = (Inr (Redirect ''/''), d3)"
    and "cash_of d3 = (cash_of d)(i := Some (c + q_price q * of_int n))"
    and "history d3 = history d @ [\<lparr>h_symbol = q_symbol q, h_shares = - n, h_price = q_price q,
                                     h_username = un\<rparr>]"
    and "held (portfolio d3) = (\<lambda>u s. held (portfolio d) u s - (if u = un \<and> s = q_symbol q then n else 0))"
    by (rule sell_post_run [OF ok cash user owned keys])
  then show ?thesis
    using cash by (simp add: view_def trade_spec_def fun_eq_iff)
qed

text \<open>
  C13. A purchase that does not end in the redirect to / (any apology or exception)
  leaves the database exactly as it was: every check of buy comes before its first
  write.
\<close>

lemma buy_post_failure_unchanged:
  "fst (buy_post mk f i d) \<noteq> Inr (Redirect ''/'') \<Longrightarrow> snd (buy_post mk f i d) = d"
  by (auto simp: buy_post_def Let_def split: sum.splits option.splits bool.splits if_splits)

lemma sell_rows_exist:
  assumes "select_shares d i symb = Inr x" "select_username d i = Inr un"
  shows "holding_rows (portfolio d) un symb \<noteq> []"
proof -
  have "username_subquery d i = Some un"
    using assms(2) by (auto simp: select_username_def username_subquery_def first_row_def split: list.splits)
  then show ?thesis using assms(1) by (auto simp: select_shares_rows split: list.splits)
qed

lemma take_from_portfolio_Inl:
  "take_from_portfolio un q n t d = Inl e \<Longrightarrow> holding_rows (portfolio d) un (q_symbol q) = []"
  by (simp add: take_from_portfolio_def sum_shares_held split: if_splits)

text \<open>
  C14. A sale that does not end in the redirect to / (any apology or exception) leaves
  the database exactly as it was: every check of sell comes before its first write.
\<close>

lemma sell_post_failure_unchanged:
  "fst (sell_post mk f i d) \<noteq> Inr (Redirect ''/'') \<Longrightarrow> snd (sell_post mk f i d) = d"
  by (auto simp: sell_post_def Let_def store_simps dest!: sell_rows_exist take_from_portfolio_Inl
           split: sum.splits option.splits bool.splits if_splits)

text \<open>The outcomes of the guards, each with the database untouched.\<close>

text \<open>
  C11. A valid order whose cost, price times shares, exceeds the user's cash is refused
  with the apology NO ENOUGH CASH (400), and nothing is written.
\<close>

lemma buy_post_insufficient_cash:
  assumes "order_ok mk f q n" "cash_of d i = Some c" "c < q_price q * of_int n"
  shows "buy_post mk f i d = (Inr (Apology ''NO ENOUGH CASH'' 400), d)"
  using assms cash_of_Some_select(1) [OF assms(2)]
  by (simp add: buy_post_def order_ok_def Let_def)

text \<open>
  C12. Selling more shares of a held symbol than the user holds is refused with the
  apology YOU DON'T OWN THESE SHARES (400), and nothing is written.
\<close>

lemma sell_post_oversell:
  assumes "order_ok mk f q n" "username_subquery d i = Some un"
    and "distinct (map (\<lambda>r. (p_username r, p_symbol r)) (portfolio d))"
    and "holding_rows (portfolio d) un (q_symbol q) \<noteq> []" "held (portfolio d) un (q_symbol q) < n"
  shows "sell_post mk f i d = (Inr (Apology ''YOU DON'T OWN THESE SHARES'' 400), d)"
  using assms select_shares_held [OF assms(2-4)]
  by (simp add: sell_post_def order_ok_def Let_def)

text \<open>
  C19. Selling a symbol of which the user has no portfolio row raises IndexError (the
  query for the held shares returns no row and the code takes its first element), before
  anything is written; the client sees an internal server error, not the apology for
  insufficient shares.
\<close>

lemma sell_post_not_held:
  assumes "order_ok mk f q n" "username_subquery d i = Some un"
    and "holding_rows (portfolio d) un (q_symbol q) = []"
  shows "sell_post mk f i d = (Inl IndexError, d)"
  using assms select_shares_rows [OF assms(2), of "q_symbol q"]
  by (simp add: sell_post_def order_ok_def Let_def)


subsection \<open>The handlers keep the tables well-formed\<close>

lemma wf_portfolio_add:
  assumes wf: "wf_portfolio (portfolio d) names" and un: "un \<in> set names" and n: "0 < n"
  shows "wf_portfolio (portfolio (add_to_portfolio un q n t d)) names"
proof (cases "holding_rows (portfolio d) un (q_symbol q) = []")
  case True
  then show ?thesis
    using wf un n by (simp add: add_to_portfolio_def sum_shares_held wf_portfolio_def insert_portfolio_def
                                holding_rows_Nil_iff)
next
  case False
  have pos: "0 < held (portfolio d) un (q_symbol q)"
    using wf False by (intro held_pos_of_rows) (simp_all add: wf_portfolio_def)
  then have "add_to_portfolio un q n t d =
             update_holding un (q_symbol q) (held (portfolio d) un (q_symbol q) + n) t d"
    using False by (simp add: add_to_portfolio_def sum_shares_held)
  moreover have "wf_portfolio (portfolio (update_holding un (q_symbol q) (held (portfolio d) un (q_symbol q) + n) t d)) names"
    using wf un n pos unfolding wf_portfolio_def
    by (auto simp: store_simps dest!: shares_update_holding)
  ultimately show ?thesis by simp
qed

lemma wf_portfolio_take:
  assumes wf: "wf_portfolio (portfolio d) names"
    and owned: "n \<le> held (portfolio d) un (q_symbol q)"
    and take: "take_from_portfolio un q n t d = Inr d'"
  shows "wf_portfolio (portfolio d') names"
proof -
  have rows: "holding_rows (portfolio d) un (q_symbol q) \<noteq> []"
    using take by (auto simp: take_from_portfolio_def sum_shares_held split: if_splits)
  let ?u = "update_holding un (q_symbol q) (held (portfolio d) un (q_symbol q) - n) (- t) d"
  have d': "d' = delete_empty ?u"
    using take rows by (simp add: take_from_portfolio_def sum_shares_held)
  have nonneg: "\<forall>r\<in>set (portfolio ?u). 0 \<le> p_shares r"
    using wf owned by (auto simp: wf_portfolio_def dest!: shares_update_holding)
  have "distinct (map (\<lambda>r. (p_username r, p_symbol r)) (portfolio ?u))"
    using wf by (simp add: wf_portfolio_def store_simps)
  moreover have "un \<in> set names"
    using rows wf by (auto simp: holding_rows_def wf_portfolio_def filter_empty_conv)
  then have "\<forall>r\<in>set (portfolio ?u). p_username r \<in> set names"
    using wf by (auto simp: wf_portfolio_def dest!: shares_update_holding)
  ultimately show ?thesis
    using nonneg by (auto simp: d' portfolio_delete_empty wf_portfolio_def distinct_map_filter
                          order_less_le)
qed

lemma add_to_portfolio_frames2 [store_simps]:
  "users (add_to_portfolio un q n t d) = users d"
  "next_id (add_to_portfolio un q n t d) = next_id d"
  by (simp_all add: add_to_portfolio_def store_simps split: option.split)

lemma take_from_portfolio_frames2:
  assumes "take_from_portfolio un q n t d = Inr d'"
  shows "users d' = users d" "next_id d' = next_id d"
  using assms by (auto simp: take_from_portfolio_def store_simps split: option.splits)

lemma buy_post_cases:
  "snd (buy_post mk f i d) = d \<or>
   (\<exists>q n c un. order_ok mk f q n \<and> select_cash d i = Inr c \<and> q_price q * of_int n \<le> c \<and>
      select_username d i = Inr un \<and> fst (buy_post mk f i d) = Inr (Redirect ''/'') \<and>
      snd (buy_post mk f i d) =
        add_to_portfolio un q n (q_price q * of_int n)
          (insert_history (q_symbol q) n (q_price q) un (update_cash i (c - q_price q * of_int n) d)))"
  by (auto simp: buy_post_def order_ok_def Let_def split: sum.splits option.splits bool.splits if_splits)

lemma sell_post_cases:
  "snd (sell_post mk f i d) = d \<or>
   (\<exists>q n cur un c. order_ok mk f q n \<and> select_shares d i (q_symbol q) = Inr cur \<and> n \<le> cur \<and>
      select_username d i = Inr un \<and> select_cash d i = Inr c \<and>
      (take_from_portfolio un q n (q_price q * of_int n)
         (insert_history (q_symbol q) (- n) (q_price q) un (update_cash i (c + q_price q * of_int n) d))
       = Inr (snd (sell_post mk f i d)) \<or>
       (take_from_portfolio un q n (q_price q * of_int n)
         (insert_history (q_symbol q) (- n) (q_price q) un (update_cash i (c + q_price q * of_int n) d))
         = Inl TypeError \<and>
        snd (sell_post mk f i d) =
          insert_history (q_symbol q) (- n) (q_price q) un (update_cash i (c + q_price q * of_int n) d))))"
  by (auto simp: sell_post_def order_ok_def Let_def take_from_portfolio_def
           split: sum.splits option.splits bool.splits if_splits)

lemma buy_post_wf:
  assumes wf: "wf_db d"
  shows "wf_db (snd (buy_post mk f i d))"
  using buy_post_cases [of mk f i d]
proof
  assume "snd (buy_post mk f i d) = d"
  with wf show ?thesis by simp
next
  assume "\<exists>q n c un. order_ok mk f q n \<and> select_cash d i = Inr c \<and> q_price q * of_int n \<le> c \<and>
      select_username d i = Inr un \<and> fst (buy_post mk f i d) = Inr (Redirect ''/'') \<and>
      snd (buy_post mk f i d) =
        add_to_portfolio un q n (q_price q * of_int n)
          (insert_history (q_symbol q) n (q_price q) un (update_cash i (c - q_price q * of_int n) d))"
  then obtain q n c un where ok: "order_ok mk f q n" and un: "select_username d i = Inr un"
    and res: "snd (buy_post mk f i d) =
        add_to_portfolio un q n (q_price q * of_int n)
          (insert_history (q_symbol q) n (q_price q) un (update_cash i (c - q_price q * of_int n) d))"
    by blast
  let ?d2 = "insert_history (q_symbol q) n (q_price q) un (update_cash i (c - q_price q * of_int n) d)"
  have names: "un \<in> set (map u_username (users d))"
    by (rule select_username_registered [OF un])
  have "wf_portfolio (portfolio ?d2) (map u_username (users d))"
    using wf by (simp add: wf_db_def store_simps)
  then have "wf_portfolio (portfolio (add_to_portfolio un q n (q_price q * of_int n) ?d2)) (map u_username (users d))"
    using names ok by (intro wf_portfolio_add) (simp_all add: order_ok_def)
  then show ?thesis
    using wf names by (simp add: res wf_db_def store_simps)
qed

lemma sell_post_wf:
  assumes wf: "wf_db d"
  shows "wf_db (snd (sell_post mk f i d))"
  using sell_post_cases [of mk f i d]
proof
  assume "snd (sell_post mk f i d) = d"
  with wf show ?thesis by simp
next
  assume "\<exists>q n cur un c. order_ok mk f q n \<and> select_shares d i (q_symbol q) = Inr cur \<and> n \<le> cur \<and>
      select_username d i = Inr un \<and> select_cash d i = Inr c \<and>
      (take_from_portfolio un q n (q_price q * of_int n)
         (insert_history (q_symbol q) (- n) (q_price q) un (update_cash i (c + q_price q * of_int n) d))
       = Inr (snd (sell_post mk f i d)) \<or>
       (take_from_portfolio un q n (q_price q * of_int n)
         (insert_history (q_symbol q) (- n) (q_price q) un (update_cash i (c + q_price q * of_int n) d))
         = Inl TypeError \<and>
        snd (sell_post mk f i d) =
          insert_history (q_symbol q) (- n) (q_price q) un (update_cash i (c + q_price q * of_int n) d)))"
  then obtain q n cur un c where ok: "order_ok mk f q n" and cur: "select_shares d i (q_symbol q) = Inr cur"
    and le: "n \<le> cur" and un: "select_username d i = Inr un"
    and res: "take_from_portfolio un q n (q_price q * of_int n)
         (insert_history (q_symbol q) (- n) (q_price q) un (update_cash i (c + q_price q * of_int n) d))
       = Inr (snd (sell_post mk f i d)) \<or>
       snd (sell_post mk f i d) =
          insert_history (q_symbol q) (- n) (q_price q) un (update_cash i (c + q_price q * of_int n) d)"
    by blast
  let ?d2 = "insert_history (q_symbol q) (- n) (q_price q) un (update_cash i (c + q_price q * of_int n) d)"
  have names: "un \<in> set (map u_username (users d))"
    by (rule select_username_registered [OF un])
  have wf2: "wf_db ?d2"
    using wf names by (simp add: wf_db_def store_simps)
  have rows: "holding_rows (portfolio d) un (q_symbol q) \<noteq> []"
    by (rule sell_rows_exist [OF cur un])
  have keys: "distinct (map (\<lambda>r. (p_username r, p_symbol r)) (portfolio d))"
    using wf by (simp add: wf_db_def wf_portfolio_def)
  have "cur = held (portfolio d) un (q_symbol q)"
    using cur select_shares_held [OF _ keys rows] un
    by (auto simp: select_username_def username_subquery_def first_row_def split: list.splits)
  with le have owned: "n \<le> held (portfolio ?d2) un (q_symbol q)"
    by (simp add: store_simps)
  show ?thesis
    using res
  proof
    assume take: "take_from_portfolio un q n (q_price q * of_int n) ?d2 = Inr (snd (sell_post mk f i d))"
    have "wf_portfolio (portfolio (snd (sell_post mk f i d))) (map u_username (users d))"
      using wf2 by (intro wf_portfolio_take [OF _ owned take]) (simp add: wf_db_def store_simps)
    then show ?thesis
      using wf2 take_from_portfolio_frames2 [OF take] take_from_portfolio_frames(2) [OF take]
      by (simp add: wf_db_def store_simps)
  next
    assume "snd (sell_post mk f i d) = ?d2"
    with wf2 show ?thesis by simp
  qed
qed


lemma buy_post_inv:
  assumes inv: "db_inv d"
  shows "db_inv (snd (buy_post mk f i d))"
  using buy_post_cases [of mk f i d]
proof
  assume "snd (buy_post mk f i d) = d"
  with inv show ?thesis by simp
next
  assume "\<exists>q n c un. order_ok mk f q n \<and> select_cash d i = Inr c \<and> q_price q * of_int n \<le> c \<and>
      select_username d i = Inr un \<and> fst (buy_post mk f i d) = Inr (Redirect ''/'') \<and>
      snd (buy_post mk f i d) =
        add_to_portfolio un q n (q_price q * of_int n)
          (insert_history (q_symbol q) n (q_price q) un (update_cash i (c - q_price q * of_int n) d))"
  then obtain q n c un where c: "select_cash d i = Inr c" and un: "select_username d i = Inr un"
    and res: "snd (buy_post mk f i d) =
        add_to_portfolio un q n (q_price q * of_int n)
          (insert_history (q_symbol q) n (q_price q) un (update_cash i (c - q_price q * of_int n) d))"
    by blast
  let ?d2 = "insert_history (q_symbol q) n (q_price q) un (update_cash i (c - q_price q * of_int n) d)"
  have wf: "wf_db d" and cb: "cash_balances d" and pm: "positions_match d"
    using inv by (simp_all add: db_inv_def)
  have "cash_balances ?d2" by (rule cash_balances_trade [OF wf cb c un])
  moreover have "cash_balances (add_to_portfolio un q n (q_price q * of_int n) ?d2) = cash_balances ?d2"
    by (rule cash_balances_frame) (simp_all add: store_simps)
  ultimately have cb': "cash_balances (snd (buy_post mk f i d))"
    by (simp add: res)
  have keys: "distinct (map (\<lambda>r. (p_username r, p_symbol r)) (portfolio ?d2))"
    using wf by (simp add: wf_db_def wf_portfolio_def store_simps)
  have "positions_match (snd (buy_post mk f i d))"
    using pm by (simp add: res positions_match_iff held_add_to_portfolio [OF keys] store_simps)
  with cb' show ?thesis
    using buy_post_wf [OF wf] by (simp add: db_inv_def)
qed

lemma sell_post_inv:
  assumes inv: "db_inv d"
  shows "db_inv (snd (sell_post mk f i d))"
  using sell_post_cases [of mk f i d]
proof
  assume "snd (sell_post mk f i d) = d"
  with inv show ?thesis by simp
next
  assume "\<exists>q n cur un c. order_ok mk f q n \<and> select_shares d i (q_symbol q) = Inr cur \<and> n \<le> cur \<and>
      select_username d i = Inr un \<and> select_cash d i = Inr c \<and>
      (take_from_portfolio un q n (q_price q * of_int n)
         (insert_history (q_symbol q) (- n) (q_price q) un (update_cash i (c + q_price q * of_int n) d))
       = Inr (snd (sell_post mk f i d)) \<or>
       (take_from_portfolio un q n (q_price q * of_int n)
         (insert_history (q_symbol q) (- n) (q_price q) un (update_cash i (c + q_price q * of_int n) d))
         = Inl TypeError \<and>
        snd (sell_post mk f i d) =
          insert_history (q_symbol q) (- n) (q_price q) un (update_cash i (c + q_price q * of_int n) d)))"
  then obtain q n cur un c where cur: "select_shares d i (q_symbol q) = Inr cur"
    and un: "select_username d i = Inr un" and c: "select_cash d i = Inr c"
    and res: "take_from_portfolio un q n (q_price q * of_int n)
         (insert_history (q_symbol q) (- n) (q_price q) un (update_cash i (c + q_price q * of_int n) d))
       = Inr (snd (sell_post mk f i d)) \<or>
       take_from_portfolio un q n (q_price q * of_int n)
         (insert_history (q_symbol q) (- n) (q_price q) un (update_cash i (c + q_price q * of_int n) d))
         = Inl TypeError"
    by blast
  let ?d2 = "insert_history (q_symbol q) (- n) (q_price q) un (update_cash i (c + q_price q * of_int n) d)"
  have wf: "wf_db d" and cb: "cash_balances d" and pm: "positions_match d"
    using inv by (simp_all add: db_inv_def)
  have rows: "holding_rows (portfolio ?d2) un (q_symbol q) \<noteq> []"
    using sell_rows_exist [OF cur un] by (simp add: store_simps)
  then have take: "take_from_portfolio un q n (q_price q * of_int n) ?d2 = Inr (snd (sell_post mk f i d))"
    using res take_from_portfolio_Inl [of un q n "q_price q * of_int n" ?d2 TypeError] by auto
  have "c + q_price q * of_int n = c - q_price q * of_int (- n)" by simp
  then have "cash_balances ?d2"
    using cash_balances_trade [OF wf cb c un, of "q_symbol q" "- n" "q_price q"] by simp
  moreover have "cash_balances (snd (sell_post mk f i d)) = cash_balances ?d2"
    using take_from_portfolio_frames2(1) [OF take] take_from_portfolio_frames(2) [OF take]
    by (rule cash_balances_frame)
  ultimately have cb': "cash_balances (snd (sell_post mk f i d))" by simp
  have keys: "distinct (map (\<lambda>r. (p_username r, p_symbol r)) (portfolio ?d2))"
    using wf by (simp add: wf_db_def wf_portfolio_def store_simps)
  obtain d' where d': "take_from_portfolio un q n (q_price q * of_int n) ?d2 = Inr d'"
    and h': "held (portfolio d') = (\<lambda>u s. held (portfolio ?d2) u s - (if u = un \<and> s = q_symbol q then n else 0))"
    using held_take_from_portfolio [OF keys rows] by blast
  have "d' = snd (sell_post mk f i d)" using take d' by simp
  then have "positions_match (snd (sell_post mk f i d))"
    using pm h' take_from_portfolio_frames(2) [OF d']
    by (simp add: positions_match_iff store_simps)
  with cb' show ?thesis
    using sell_post_wf [OF wf] by (simp add: db_inv_def)
qed


lemma cash_nonneg_frames:
  "cash_nonneg (insert_history s n pr un d) = cash_nonneg d"
  "cash_nonneg (add_to_portfolio un q n t d) = cash_nonneg d"
  by (simp_all add: cash_nonneg_def store_simps)

lemma buy_post_ids: "map u_id (users (snd (buy_post mk f i d))) = map u_id (users d)"
  using buy_post_cases [of mk f i d] by (auto simp: store_simps)

lemma sell_post_ids: "map u_id (users (snd (sell_post mk f i d))) = map u_id (users d)"
  using sell_post_cases [of mk f i d] by (auto simp: store_simps dest: take_from_portfolio_frames2)

lemma take_from_portfolio_accounts:
  "take_from_portfolio un q n t d = Inr d' \<Longrightarrow> accounts d' = accounts d"
  by (simp add: accounts_def take_from_portfolio_frames2(1))

lemma accounts_add_to_portfolio [store_simps]: "accounts (add_to_portfolio un q n t d) = accounts d"
  by (simp add: accounts_def add_to_portfolio_frames2(1))

lemma buy_post_accounts: "accounts (snd (buy_post mk f i d)) = accounts d"
  using buy_post_cases [of mk f i d] by (auto simp: store_simps)

lemma sell_post_accounts: "accounts (snd (sell_post mk f i d)) = accounts d"
  using sell_post_cases [of mk f i d] by (auto simp: store_simps dest: take_from_portfolio_accounts)

text \<open>
  The ledger under one trade: unchanged, or one entry appended for the trader's
  own name, with positive shares for a purchase and negative for a sale.
\<close>

lemma buy_post_history:
  "history (snd (buy_post mk f i d)) = history d \<or>
   (\<exists>e. history (snd (buy_post mk f i d)) = history d @ [e] \<and>
        username_subquery d i = Some (h_username e) \<and> 0 < h_shares e)"
  using buy_post_cases [of mk f i d]
  by (auto simp: store_simps order_ok_def dest: select_username_subquery)

lemma sell_post_history:
  "history (snd (sell_post mk f i d)) = history d \<or>
   (\<exists>e. history (snd (sell_post mk f i d)) = history d @ [e] \<and>
        username_subquery d i = Some (h_username e) \<and> h_shares e < 0)"
proof (cases "snd (sell_post mk f i d) = d")
  case False
  then obtain q n un c where ok: "order_ok mk f q n" and u: "select_username d i = Inr un"
    and h: "history (snd (sell_post mk f i d)) =
              history (insert_history (q_symbol q) (- n) (q_price q) un (update_cash i (c + q_price q * of_int n) d))"
    using sell_post_cases [of mk f i d] by (force dest: take_from_portfolio_frames(2))
  then show ?thesis
    using select_username_subquery [OF u] by (auto simp: store_simps order_ok_def)
qed simp

lemma buy_post_cash_nonneg:
  "cash_nonneg d \<Longrightarrow> cash_nonneg (snd (buy_post mk f i d))"
  using buy_post_cases [of mk f i d]
  by (auto simp: cash_nonneg_frames intro!: cash_nonneg_update_cash)

lemma order_ok_price:
  "prices_nonneg mk \<Longrightarrow> order_ok mk f q n \<Longrightarrow> 0 \<le> q_price q \<and> 1 \<le> n"
  by (auto simp: prices_nonneg_def order_ok_def lookup_def split: option.splits)

lemma take_from_portfolio_cash_nonneg:
  "take_from_portfolio un q n t d = Inr d' \<Longrightarrow> cash_nonneg d' = cash_nonneg d"
  by (auto simp: cash_nonneg_def dest!: take_from_portfolio_frames2(1))

lemma sell_post_cash_nonneg:
  assumes "prices_nonneg mk" "cash_nonneg d"
  shows "cash_nonneg (snd (sell_post mk f i d))"
proof -
  have step: "cash_nonneg (insert_history s (- n) (q_price q) un (update_cash i (c + q_price q * of_int n) d))"
    if "order_ok mk f q n" "select_cash d i = Inr c" for s n q un c
  proof -
    have "0 \<le> c" using select_cash_nonneg [OF assms(2) that(2)] .
    moreover have "0 \<le> q_price q * of_int n" using order_ok_price [OF assms(1) that(1)] by simp
    ultimately show ?thesis
      using assms(2) by (simp add: cash_nonneg_frames cash_nonneg_update_cash)
  qed
  show ?thesis
    using sell_post_cases [of mk f i d] assms(2)
    by (auto dest: step take_from_portfolio_cash_nonneg)
qed


text \<open>
  C28. Selling every held share of a symbol removes the user's portfolio row for it and
  credits the proceeds, price times shares, to the user's cash.
\<close>

lemma sell_post_closes_position:
  assumes ok: "order_ok mk f q n"
    and cash: "cash_of d i = Some c"
    and user: "username_subquery d i = Some un"
    and all: "n = held (portfolio d) un (q_symbol q)"
    and wf: "wf_db d"
  shows "holding_rows (portfolio (snd (sell_post mk f i d))) un (q_symbol q) = [] \<and>
         cash_of (snd (sell_post mk f i d)) i = Some (c + q_price q * of_int n)"
proof -
  have keys: "distinct (map (\<lambda>r. (p_username r, p_symbol r)) (portfolio d))"
    using wf by (simp add: wf_db_def wf_portfolio_def)
  obtain d3 where run: "sell_post mk f i d = (Inr (Redirect ''/''), d3)"
    and c3: "cash_of d3 = (cash_of d)(i := Some (c + q_price q * of_int n))"
    and h3: "held (portfolio d3) = (\<lambda>u s. held (portfolio d) u s - (if u = un \<and> s = q_symbol q then n else 0))"
    using sell_post_run [OF ok cash user _ keys] all by blast
  have "wf_db d3" using sell_post_wf [OF wf, of mk f i] run by simp
  then have "\<forall>r\<in>set (portfolio d3). 0 < p_shares r" by (simp add: wf_db_def wf_portfolio_def)
  moreover have "held (portfolio d3) un (q_symbol q) = 0" using h3 all by simp
  ultimately have "holding_rows (portfolio d3) un (q_symbol q) = []"
    using held_pos_of_rows by fastforce
  with run c3 show ?thesis by simp
qed

lemma sum_total_add_to_portfolio:
  assumes keys: "distinct (map (\<lambda>r. (p_username r, p_symbol r)) (portfolio d))"
  shows "sum_list (map p_total (filter (\<lambda>r. p_username r = un) (portfolio (add_to_portfolio un q n t d)))) =
         sum_list (map p_total (filter (\<lambda>r. p_username r = un) (portfolio d))) + t"
proof (cases "holding_rows (portfolio d) un (q_symbol q) = []")
  case True
  then show ?thesis by (simp add: add_to_portfolio_def sum_shares_held insert_portfolio_def)
next
  case False
  have "int (length (holding_rows (portfolio d) un (q_symbol q))) = 1"
    by (rule held_single [OF keys False])
  then have "length (holding_rows (portfolio d) un (q_symbol q)) = 1" by simp
  then show ?thesis
    using False by (simp add: add_to_portfolio_def sum_shares_held insert_portfolio_def sum_total_update_holding)
qed

lemma username_subquery_add_to_portfolio [store_simps]:
  "username_subquery (add_to_portfolio un q n t d) j = username_subquery d j"
  by (simp add: username_subquery_def users_with_id_def add_to_portfolio_frames2)

text \<open>
  C29. Buying and selling back restores the account: a user who buys \<open>n\<close>
  shares of a symbol they did not hold and then sells the same \<open>n\<close> at the
  same price gets both redirects, ends with the cash they started with and the
  portfolio table exactly as it was, and the ledger keeps both entries.
\<close>

theorem buy_then_sell_roundtrip:
  assumes buy: "order_ok mk1 f1 q n" and sell: "order_ok mk2 f2 q n"
    and cash: "cash_of d i = Some c" "q_price q * of_int n \<le> c"
    and user: "username_subquery d i = Some un"
    and none: "holding_rows (portfolio d) un (q_symbol q) = []"
    and wf: "wf_db d"
  shows "fst (sell_post mk2 f2 i (snd (buy_post mk1 f1 i d))) = Inr (Redirect ''/'') \<and>
         cash_of (snd (sell_post mk2 f2 i (snd (buy_post mk1 f1 i d)))) i = Some c \<and>
         portfolio (snd (sell_post mk2 f2 i (snd (buy_post mk1 f1 i d)))) = portfolio d \<and>
         history (snd (sell_post mk2 f2 i (snd (buy_post mk1 f1 i d)))) =
           history d @ [\<lparr>h_symbol = q_symbol q, h_shares = n, h_price = q_price q, h_username = un\<rparr>,
                        \<lparr>h_symbol = q_symbol q, h_shares = - n, h_price = q_price q, h_username = un\<rparr>]"
proof -
  let ?t = "q_price q * of_int n"
  let ?row = "\<lparr>p_username = un, p_symbol = q_symbol q, p_name = q_name q, p_shares = n, p_price = q_price q,
               p_total = ?t\<rparr>"
  let ?d1 = "insert_portfolio ?row (insert_history (q_symbol q) n (q_price q) un (update_cash i (c - ?t) d))"
  have nomatch: "\<forall>r\<in>set (portfolio d). \<not> (p_symbol r = q_symbol q \<and> p_username r = un)"
    using none by (auto simp: holding_rows_def filter_empty_conv)
  have pos: "p_shares r \<noteq> 0" if "r \<in> set (portfolio d)" for r
    using wf that by (auto simp: wf_db_def wf_portfolio_def)
  have n1: "1 \<le> n" using buy by (simp add: order_ok_def)
  have d1: "snd (buy_post mk1 f1 i d) = ?d1"
    using none by (simp add: buy_post_run [OF buy cash user] add_to_portfolio_def sum_shares_def store_simps)
  have rows1: "holding_rows (portfolio ?d1) un (q_symbol q) = [?row]"
    using none by (simp add: store_simps insert_portfolio_def holding_rows_def)
  have "username_subquery (insert_portfolio r d') j = username_subquery d' j" for r d' j
    by (simp add: username_subquery_def store_simps)
  then have user1: "username_subquery ?d1 i = Some un"
    using user by (simp add: store_simps)
  have cash1: "cash_of ?d1 i = Some (c - ?t)"
    using cash(1) by (simp add: store_simps)
  have sh1: "select_shares ?d1 i (q_symbol q) = Inr n"
    by (simp add: select_shares_rows [OF user1] rows1)
  have sellrun: "sell_post mk2 f2 i ?d1 =
      (Inr (Redirect ''/''),
       delete_empty (update_holding un (q_symbol q) (n - n) (- ?t)
         (insert_history (q_symbol q) ((-1) * n) (q_price q) un (update_cash i (c - ?t + ?t) ?d1))))"
    using sell sh1 cash_of_Some_select(1) [OF cash1] cash_of_Some_select(2) [OF user1] rows1
    by (simp add: sell_post_def order_ok_def take_from_portfolio_def sum_shares_def store_simps Let_def)
  have "portfolio (delete_empty (update_holding un (q_symbol q) (n - n) (- ?t)
          (insert_history (q_symbol q) ((-1) * n) (q_price q) un (update_cash i (c - ?t + ?t) ?d1)))) =
        portfolio d"
    using nomatch pos n1
    by (simp add: delete_empty_def update_holding_def insert_portfolio_def store_simps filter_id_conv)
  then show ?thesis
    using cash(1) by (simp add: d1 sellrun store_simps)
qed

end
