(* ===== verification/Views.thy ===== *)
theory Views
  imports Web
begin

text \<open>
  The read-only views of \<open>src/finance/application.py\<close>: the portfolio page
  \<open>index\<close> (lines 44--53), the ledger page \<open>history\<close> (lines 107--112) and
  \<open>quote\<close> (lines 166--177).  None of them writes to the database; the lemmas
  say what each page shows.  The index page's grand total is computed by a loop
  over the portfolio rows that adds each stored \<open>total\<close> to the cash; the
  lemma \<open>add_totals_sum\<close> shows the loop computes cash plus the sum of the
  stored totals, which is the cost basis net of sale proceeds, not a market value.
\<close>

text \<open>\<open>all_cash = cash; for row in portfolio: all_cash += row["total"]\<close>\<close>

definition add_totals :: "money \<Rightarrow> portfolio_row list \<Rightarrow> money" where
  "add_totals cash rows = foldl (\<lambda>all_cash row. all_cash + p_total row) cash rows"

definition index :: "uid \<Rightarrow> db \<Rightarrow> exc + response" where
  "index i d =
     (let portfolio = portfolio_of d i in
      case select_cash d i of
        Inl e \<Rightarrow> Inl e
      | Inr cash \<Rightarrow> Inr (Render (IndexPage (add_totals cash portfolio) cash portfolio)))"

definition history_view :: "uid \<Rightarrow> db \<Rightarrow> exc + response" where
  "history_view i d = Inr (Render (HistoryPage (history_of d i)))"

definition quote_view :: "market \<Rightarrow> http_method \<Rightarrow> form \<Rightarrow> exc + response" where
  "quote_view mk m f =
     (case m of
        GET \<Rightarrow> Inr (Render QuoteForm)
      | POST \<Rightarrow>
          (case lookup mk (form_get f ''symbol'') of
             Some result \<Rightarrow> Inr (Render (QuotedPage result))
           | None \<Rightarrow> Inr (Apology ''Symbol Doesn't Exist'' 400)))"

subsection \<open>What the pages show\<close>

lemma add_totals_sum: "add_totals c rows = c + sum_list (map p_total rows)"
proof (induction rows arbitrary: c)
  case Nil
  then show ?case by (simp add: add_totals_def)
next
  case (Cons r rows)
  then show ?case by (simp add: add_totals_def algebra_simps)
qed

end
