(* ===== verification/App.thy ===== *)
theory App
  imports Trade Account Views
begin

text \<open>
  The application as a whole: Flask's routing of \<open>src/finance/application.py\<close>
  (the \<open>@app.route\<close> decorators with their \<open>methods\<close>), the \<open>login_required\<close>
  guards, the error handler registered for every HTTP status (lines 272--274) and
  the \<open>after_request\<close> hook.  The server's state is the shared database and the
  server-side session store (\<open>flask_session\<close>'s filesystem sessions), one
  session per client cookie; a request loads its client's session, runs the
  handler on the request context, and stores the session back.  Reachable server
  states are an inductive set over arbitrary requests from arbitrary clients, with
  the market of each request drawn from a class \<open>P\<close> of markets, starting
  from a database file that satisfies the invariant.  Besides the invariants
  of reachable states, the theory proves properties of arbitrary runs of
  requests: sessions come only from logins with the right password, the ledger
  only grows by the requester's own entries, and no account is ever created.
\<close>

definition method_not_allowed :: exc where
  "method_not_allowed = HTTPException 405 ''Method Not Allowed''"

definition not_found :: exc where
  "not_found = HTTPException 404 ''Not Found''"

text \<open>
  The URL map: \<open>/\<close>, \<open>/history\<close> and \<open>/logout\<close> accept GET only, the other
  routes GET and POST; a path outside the map is 404.  Werkzeug checks the method
  before any view code, \<open>login_required\<close> included, runs.
\<close>

definition route :: "hasher \<Rightarrow> market \<Rightarrow> request \<Rightarrow> app_state \<Rightarrow> (exc + response) \<times> app_state" where
  "route h mk r s =
     (let m = req_method r; f = req_form r; p = req_path r in
      if p = ''/'' then
        (case m of
           GET \<Rightarrow> login_required (\<lambda>i s. (index i (st_db s), s)) s
         | POST \<Rightarrow> (Inl method_not_allowed, s))
      else if p = ''/buy'' then login_required (\<lambda>i. on_db (buy mk m f i)) s
      else if p = ''/history'' then
        (case m of
           GET \<Rightarrow> login_required (\<lambda>i s. (history_view i (st_db s), s)) s
         | POST \<Rightarrow> (Inl method_not_allowed, s))
      else if p = ''/login'' then login h m f s
      else if p = ''/logout'' then
        (case m of GET \<Rightarrow> logout s | POST \<Rightarrow> (Inl method_not_allowed, s))
      else if p = ''/quote'' then login_required (\<lambda>i s. (quote_view mk m f, s)) s
      else if p = ''/register'' then on_db (register h m f (req_salt r)) s
      else if p = ''/sell'' then login_required (\<lambda>i. on_db (sell mk m f i)) s
      else (Inl not_found, s))"

text \<open>The server: the database and the session store, keyed by the client's cookie.\<close>

record server =
  srv_db :: db
  srv_sessions :: "nat \<Rightarrow> uid option"

text \<open>
  Line 36 opens the existing file \<open>finance.db\<close>; the application never
  creates its tables, so a server starts on whatever the file holds, with no
  session.
\<close>

definition init_server :: "db \<Rightarrow> server" where
  "init_server d = \<lparr>srv_db = d, srv_sessions = (\<lambda>_. None)\<rparr>"

text \<open>
  Lines 36--40, run when the module is imported: without a non-empty
  \<open>API_KEY\<close> in the environment the import raises \<open>RuntimeError\<close> and no
  request is ever served; otherwise the server starts with an empty session
  store on the database file's content \<open>d\<close>.
\<close>

definition startup :: "(string \<Rightarrow> string option) \<Rightarrow> db \<Rightarrow> exc + server" where
  "startup env d = (if \<not> truthy (env ''API_KEY'') then Inl RuntimeError else Inr (init_server d))"

text \<open>
  One request from client \<open>c\<close>: an exception that escapes the view is turned into
  the error page by \<open>errorhandler\<close>; database writes made before it stay (each
  \<open>db.execute\<close> commits on its own), and the session is saved either way.
\<close>

definition app :: "hasher \<Rightarrow> market \<Rightarrow> nat \<Rightarrow> request \<Rightarrow> server \<Rightarrow> http_response \<times> server" where
  "app h mk c r sv =
     (let (res, s') = route h mk r \<lparr>st_db = srv_db sv, st_session = srv_sessions sv c\<rparr>;
          body = (case res of Inl e \<Rightarrow> errorhandler e | Inr resp \<Rightarrow> resp)
      in (after_request \<lparr>resp_body = body, resp_headers = []\<rparr>,
          \<lparr>srv_db = st_db s', srv_sessions = (srv_sessions sv)(c := st_session s')\<rparr>))"

text \<open>
  A sequence of requests, each from a client under the market of its moment.
  The reachable states start from a database file that satisfies the
  invariant and has no negative balance, and serve requests one at a time.
\<close>

fun run :: "hasher \<Rightarrow> (market \<times> nat \<times> request) list \<Rightarrow> server \<Rightarrow> http_response list \<times> server" where
  "run h [] sv = ([], sv)"
| "run h ((mk, c, r) # rs) sv =
     (let (resp, sv') = app h mk c r sv; (resps, sv'') = run h rs sv' in (resp # resps, sv''))"

inductive reachable :: "hasher \<Rightarrow> (market \<Rightarrow> bool) \<Rightarrow> server \<Rightarrow> bool" for h P where
  init: "db_inv d \<Longrightarrow> cash_nonneg d \<Longrightarrow> reachable h P (init_server d)"
| step: "reachable h P sv \<Longrightarrow> P mk \<Longrightarrow> reachable h P (snd (app h mk c r sv))"


subsection \<open>The server keeps its invariants\<close>

lemma on_db_db [simp]: "st_db (snd (on_db h s)) = snd (h (st_db s))"
  by (simp add: on_db_def split: prod.split)

lemma on_db_session [simp]: "st_session (snd (on_db h s)) = st_session s"
  by (simp add: on_db_def split: prod.split)

lemma route_db_cases:
  "st_db (snd (route h mk r s)) = st_db s \<or>
   (\<exists>i. st_session s = Some i \<and> st_db (snd (route h mk r s)) = snd (buy_post mk (req_form r) i (st_db s))) \<or>
   (\<exists>i. st_session s = Some i \<and> st_db (snd (route h mk r s)) = snd (sell_post mk (req_form r) i (st_db s)))"
  by (auto simp: route_def Let_def login_required_def login_db logout_def buy_def sell_def register_def
           split: http_method.split option.split)

lemma route_db_inv:
  "db_inv (st_db s) \<Longrightarrow> db_inv (st_db (snd (route h mk r s)))"
  using route_db_cases [of h mk r s] buy_post_inv sell_post_inv by auto

lemma app_db [simp]: "srv_db (snd (app h mk c r sv)) = st_db (snd (route h mk r \<lparr>st_db = srv_db sv, st_session = srv_sessions sv c\<rparr>))"
  by (simp add: app_def split: prod.split)

lemma app_sessions [simp]:
  "srv_sessions (snd (app h mk c r sv)) =
     (srv_sessions sv)(c := st_session (snd (route h mk r \<lparr>st_db = srv_db sv, st_session = srv_sessions sv c\<rparr>)))"
  by (simp add: app_def split: prod.split)

lemma reachable_db_inv: "reachable h P sv \<Longrightarrow> db_inv (srv_db sv)"
proof (induction rule: reachable.induct)
  case (init d)
  then show ?case by (simp add: init_server_def)
next
  case (step sv mk c r)
  then show ?case by (simp add: route_db_inv)
qed



text \<open>
  C6. When the quote service never quotes a negative price, no user of any reachable
  server state has negative cash.
\<close>

lemma reachable_cash_nonneg:
  "reachable h prices_nonneg sv \<Longrightarrow> cash_nonneg (srv_db sv)"
proof (induction rule: reachable.induct)
  case (init d)
  then show ?case by (simp add: init_server_def)
next
  case (step sv mk c r)
  let ?s = "\<lparr>st_db = srv_db sv, st_session = srv_sessions sv c\<rparr>"
  show ?case
    using route_db_cases [of h mk r ?s] step buy_post_cash_nonneg sell_post_cash_nonneg
    by auto
qed


subsection \<open>Requests from the outside\<close>

lemma app_unfold:
  "app h mk c r sv =
     (after_request \<lparr>resp_body = (case fst (route h mk r \<lparr>st_db = srv_db sv, st_session = srv_sessions sv c\<rparr>) of
                                      Inl e \<Rightarrow> errorhandler e | Inr resp \<Rightarrow> resp),
                     resp_headers = []\<rparr>,
      \<lparr>srv_db = st_db (snd (route h mk r \<lparr>st_db = srv_db sv, st_session = srv_sessions sv c\<rparr>)),
       srv_sessions = (srv_sessions sv)(c := st_session (snd (route h mk r \<lparr>st_db = srv_db sv, st_session = srv_sessions sv c\<rparr>)))\<rparr>)"
  by (simp add: app_def split: prod.split)

lemma resp_body_after_request [simp]: "resp_body (after_request r) = resp_body r"
  by (simp add: after_request_def set_header_def)

lemma route_guarded:
  assumes "st_session s = None"
    and "req_path r \<in> {''/'', ''/buy'', ''/history'', ''/quote'', ''/sell''}"
  shows "snd (route h mk r s) = s \<and>
         fst (route h mk r s) \<in> {Inr (Redirect ''/login''), Inl method_not_allowed}"
  using assms by (auto simp: route_def login_required_def split: http_method.split)

text \<open>
  C24. A purchase leaves the grand total on the portfolio page unchanged: the cash shown
  falls by the cost and the stored totals grow by it.
\<close>

lemma buy_keeps_index_total:
  assumes ok: "order_ok mk f q n"
    and cash: "cash_of d i = Some c" "q_price q * of_int n \<le> c"
    and user: "username_subquery d i = Some un"
    and keys: "distinct (map (\<lambda>r. (p_username r, p_symbol r)) (portfolio d))"
  shows "\<exists>T rows rows'. index i d = Inr (Render (IndexPage T c rows)) \<and>
           index i (snd (buy_post mk f i d)) = Inr (Render (IndexPage T (c - q_price q * of_int n) rows'))"
proof -
  let ?t = "q_price q * of_int n"
  let ?d' = "add_to_portfolio un q n ?t (insert_history (q_symbol q) n (q_price q) un (update_cash i (c - ?t) d))"
  have keys2: "distinct (map (\<lambda>r. (p_username r, p_symbol r)) (portfolio (insert_history (q_symbol q) n (q_price q) un (update_cash i (c - ?t) d))))"
    using keys by (simp add: store_simps)
  have "cash_of ?d' i = Some (c - ?t)" using cash(1) by (simp add: store_simps)
  then have sc: "select_cash ?d' i = Inr (c - ?t)" by (rule cash_of_Some_select(1))
  have u': "username_subquery ?d' i = Some un" using user by (simp add: store_simps)
  have "c - ?t + sum_list (map p_total (portfolio_of ?d' i)) = c + sum_list (map p_total (portfolio_of d i))"
    using sum_total_add_to_portfolio [OF keys2]
    by (simp add: portfolio_of_user [OF u'] portfolio_of_user [OF user] store_simps)
  then show ?thesis
    using cash_of_Some_select(1) [OF cash(1)] sc
    by (simp add: buy_post_run [OF ok cash user] index_def add_totals_sum Let_def)
qed

text \<open>
  C10. A client without a session that requests /, /buy, /history, /quote or /sell is
  redirected to /login (or refused with 405 for a method the route does not accept), and
  the server state does not change.
\<close>

lemma guarded_without_session:
  assumes "srv_sessions sv c = None"
    and "req_path r \<in> {''/'', ''/buy'', ''/history'', ''/quote'', ''/sell''}"
  shows "snd (app h mk c r sv) = sv \<and>
         resp_body (fst (app h mk c r sv)) \<in> {Redirect ''/login'', Apology ''Method Not Allowed'' 405}"
proof -
  let ?s = "\<lparr>st_db = srv_db sv, st_session = srv_sessions sv c\<rparr>"
  have "snd (route h mk r ?s) = ?s \<and> fst (route h mk r ?s) \<in> {Inr (Redirect ''/login''), Inl method_not_allowed}"
    using assms by (intro route_guarded) simp_all
  then show ?thesis
    using assms(1) by (auto simp: app_unfold method_not_allowed_def errorhandler_def fun_upd_idem)
qed

text \<open>
  C30. Every response the application sends carries the no-cache headers Cache-Control,
  Expires: 0 and Pragma: no-cache.
\<close>

lemma app_no_cache:
  "map_of (resp_headers (fst (app h mk c r sv))) ''Cache-Control'' = Some ''no-cache, no-store, must-revalidate'' \<and>
   map_of (resp_headers (fst (app h mk c r sv))) ''Expires'' = Some ''0'' \<and>
   map_of (resp_headers (fst (app h mk c r sv))) ''Pragma'' = Some ''no-cache''"
  by (simp add: app_unfold after_request_def set_header_def)

text \<open>
  C20. A logged-in POST to /buy or /sell whose shares field is not an integer literal is
  answered with Internal Server Error (500), because int() raises ValueError, and
  changes nothing.
\<close>

lemma trade_bad_shares:
  assumes "srv_sessions sv c = Some i" "req_method r = POST" "req_path r \<in> {''/buy'', ''/sell''}"
    and "form_get (req_form r) ''shares'' = Some s" "py_int s = None"
  shows "resp_body (fst (app h mk c r sv)) = Apology ''Internal Server Error'' 500 \<and> snd (app h mk c r sv) = sv"
  using assms
  by (auto simp: app_unfold route_def login_required_def on_db_def buy_def sell_def buy_post_def sell_post_def
                 int_field_def errorhandler_def Let_def fun_upd_idem)

text \<open>
  C31. After a logout, a request of the same client to a guarded route cannot change the
  database.
\<close>

lemma logout_then_guarded:
  assumes "req_method r1 = GET" "req_path r1 = ''/logout''"
    and "req_path r2 \<in> {''/'', ''/buy'', ''/history'', ''/quote'', ''/sell''}"
  shows "srv_db (snd (app h mk2 c r2 (snd (app h mk1 c r1 sv)))) = srv_db sv"
proof -
  have s1: "srv_sessions (snd (app h mk1 c r1 sv)) c = None"
    and d1: "srv_db (snd (app h mk1 c r1 sv)) = srv_db sv"
    using assms(1,2) by (simp_all add: app_unfold route_def logout_def)
  let ?s = "\<lparr>st_db = srv_db (snd (app h mk1 c r1 sv)), st_session = srv_sessions (snd (app h mk1 c r1 sv)) c\<rparr>"
  have "snd (route h mk2 r2 ?s) = ?s"
    using route_guarded [of ?s r2 h mk2] s1 assms(3) by simp
  then show ?thesis
    using d1 by (simp add: app_unfold)
qed


subsection \<open>Runs\<close>

lemma snd_run_Cons [simp]:
  "snd (run h ((mk, c, r) # rs) sv) = snd (run h rs (snd (app h mk c r sv)))"
  by (simp split: prod.split)

lemma run_reachable:
  "reachable h P sv \<Longrightarrow> \<forall>(mk, c, r)\<in>set rs. P mk \<Longrightarrow> reachable h P (snd (run h rs sv))"
proof (induction rs arbitrary: sv)
  case Nil
  then show ?case by simp
next
  case (Cons x rs)
  obtain mk c r where x: "x = (mk, c, r)" by (cases x) auto
  have "reachable h P (snd (app h mk c r sv))"
    using Cons.prems x by (auto intro: reachable.step)
  then have "reachable h P (snd (run h rs (snd (app h mk c r sv))))"
    using Cons.prems Cons.IH by auto
  then show ?case by (simp only: x snd_run_Cons)
qed

subsection \<open>What every reachable state satisfies\<close>

text \<open>
  C5. The database of every reachable server is well-formed: unique user ids and
  names below the id counter, at most one portfolio row per user and symbol, every
  row with a positive share count, and every row and ledger entry owned by a
  registered user.
\<close>

theorem reachable_wf: "reachable h P sv \<Longrightarrow> wf_db (srv_db sv)"
  using reachable_db_inv by (simp add: db_inv_def)

text \<open>
  C4. In every reachable server state each user's cash is the starting cash
  (10000) less the net amount the ledger records the user as having paid:
  the sum of shares times price over the user's history rows, sales negative.
\<close>

theorem reachable_cash_books:
  "reachable h P sv \<Longrightarrow> u \<in> set (users (srv_db sv)) \<Longrightarrow>
     u_cash u = starting_cash - spent (history (srv_db sv)) (u_username u)"
  using reachable_db_inv by (auto simp: db_inv_def cash_balances_def)

text \<open>
  C3. In every reachable server state the portfolio table agrees with the ledger:
  for every user and symbol, the shares the portfolio rows hold are the shares
  bought less the shares sold according to the history table.
\<close>

theorem reachable_positions_ledger:
  "reachable h P sv \<Longrightarrow> held (portfolio (srv_db sv)) un symb = ledger_shares (history (srv_db sv)) un symb"
  using reachable_db_inv by (simp add: db_inv_def positions_match_iff)

text \<open>
  C25. A purchase appends exactly its own entry, with the quoted symbol, the
  shares and the price, to the end of the buyer's history page, which lists the
  user's ledger entries in the order they were made.
\<close>

theorem buy_history_page:
  assumes ok: "order_ok mk f q n"
    and cash: "cash_of d i = Some c" "q_price q * of_int n \<le> c"
    and user: "username_subquery d i = Some un"
  shows "history_view i (snd (buy_post mk f i d)) =
           Inr (Render (HistoryPage (history_of d i @
              [\<lparr>h_symbol = q_symbol q, h_shares = n, h_price = q_price q, h_username = un\<rparr>])))"
proof -
  have "username_subquery (snd (buy_post mk f i d)) i = Some un"
    using user by (simp add: buy_post_run [OF ok cash user] store_simps)
  then show ?thesis
    using user by (simp add: buy_post_run [OF ok cash user] history_view_def history_of_def store_simps)
qed

lemma handler_codes:
  "fst (buy_post mk f i d) = Inr (Apology m k) \<Longrightarrow> k = 400"
  "fst (sell_post mk f i d) = Inr (Apology m k) \<Longrightarrow> k = 400"
  "fst (register_post h f salt d) = Inr (Apology m k) \<Longrightarrow> k = 403"
  "fst (login h meth f s) = Inr (Apology m k) \<Longrightarrow> k = 403"
  "quote_view mk meth f = Inr (Apology m k) \<Longrightarrow> k = 400"
  by (auto simp: buy_post_def sell_post_def register_post_def login_def quote_view_def take_from_portfolio_def
                 cs50_execute_def Let_def
           split: sum.splits option.splits bool.splits if_splits http_method.splits list.splits)

lemma handler_exceptions:
  "fst (buy_post mk f i d) = Inl e \<Longrightarrow> \<not> (\<exists>k n. e = HTTPException k n)"
  "fst (sell_post mk f i d) = Inl e \<Longrightarrow> \<not> (\<exists>k n. e = HTTPException k n)"
  "fst (register_post h f salt d) = Inl e \<Longrightarrow> \<not> (\<exists>k n. e = HTTPException k n)"
  "fst (login h meth f s) = Inl e \<Longrightarrow> False"
  by (auto simp: buy_post_def sell_post_def register_post_def login_def take_from_portfolio_def
                 cs50_execute_def int_field_def select_cash_def select_username_def select_shares_def first_row_def Let_def
           split: sum.splits option.splits bool.splits if_splits http_method.splits list.splits)

lemma on_db_fst [simp]: "fst (on_db g s) = fst (g (st_db s))"
  by (simp add: on_db_def split: prod.split)

lemma route_codes:
  "fst (route h mk r s) = Inr (Apology m k) \<Longrightarrow> k \<in> {400, 403}"
  "fst (route h mk r s) = Inl (HTTPException k n) \<Longrightarrow> k \<in> {404, 405}"
  by (auto simp: route_def login_required_def buy_def sell_def register_def index_def history_view_def
                 logout_def method_not_allowed_def not_found_def quote_view_def select_cash_def first_row_def Let_def
           dest: handler_codes handler_exceptions
           split: http_method.splits option.splits sum.splits if_splits list.splits)

text \<open>
  C21. Every error page the application sends carries a standard status: 400
  for a rejected trade or quote, 403 for a rejected registration or login, 404
  for an unknown path, 405 for a method the route does not accept, and 500 for
  every exception a view lets escape.
\<close>

theorem app_status_codes:
  "resp_body (fst (app h mk c r sv)) = Apology m k \<Longrightarrow> k \<in> {400, 403, 404, 405, 500}"
  using route_codes [of h mk r "\<lparr>st_db = srv_db sv, st_session = srv_sessions sv c\<rparr>"]
  by (auto simp: app_unfold errorhandler_def split: sum.splits exc.splits)

lemma startup_reachable: "db_inv d \<Longrightarrow> cash_nonneg d \<Longrightarrow> startup env d = Inr sv \<Longrightarrow> reachable h P sv"
  by (auto simp: startup_def intro: reachable.init split: if_splits)

lemma distinct_symbols_of_user:
  "distinct (map (\<lambda>r. (p_username r, p_symbol r)) rs) \<Longrightarrow>
   distinct (map p_symbol (filter (\<lambda>r. p_username r = un) rs))"
  by (induction rs) (auto simp: image_iff)

text \<open>
  C26. The sell form offers exactly what the user holds: in every reachable
  state, a GET of \<open>/sell\<close> renders the form with the user's portfolio
  symbols (line 217), each symbol once, and they are exactly the symbols of which
  the user holds a positive number of shares.
\<close>

theorem reachable_sell_form:
  assumes reach: "reachable h P sv" and user: "username_subquery (srv_db sv) i = Some un"
  shows "sell mk GET f i (srv_db sv) = (Inr (Render (SellForm (symbols_of (srv_db sv) i))), srv_db sv) \<and>
         distinct (symbols_of (srv_db sv) i) \<and>
         set (symbols_of (srv_db sv) i) = {s. 0 < held (portfolio (srv_db sv)) un s}"
proof -
  let ?rs = "portfolio (srv_db sv)"
  have wf: "distinct (map (\<lambda>r. (p_username r, p_symbol r)) ?rs)" "\<forall>r\<in>set ?rs. 0 < p_shares r"
    using reachable_db_inv [OF reach] by (simp_all add: db_inv_def wf_db_def wf_portfolio_def)
  have syms: "symbols_of (srv_db sv) i = map p_symbol (filter (\<lambda>r. p_username r = un) ?rs)"
    by (simp add: symbols_of_def portfolio_of_user [OF user])
  have "s \<in> set (symbols_of (srv_db sv) i) \<longleftrightarrow> 0 < held ?rs un s" for s
  proof
    assume "s \<in> set (symbols_of (srv_db sv) i)"
    then have "holding_rows ?rs un s \<noteq> []" by (auto simp: syms holding_rows_def filter_empty_conv)
    then show "0 < held ?rs un s" by (rule held_pos_of_rows [OF wf(2)])
  next
    assume "0 < held ?rs un s"
    then have "holding_rows ?rs un s \<noteq> []" by (rule held_pos_rows)
    then show "s \<in> set (symbols_of (srv_db sv) i)" by (auto simp: syms holding_rows_def filter_empty_conv)
  qed
  then show ?thesis
    using distinct_symbols_of_user [OF wf(1), of un] by (auto simp: sell_def syms)
qed

text \<open>
  C27. The quote page: a logged-in POST to \<open>/quote\<close> changes neither the
  database nor any session, and shows the quote service's answer for the
  submitted symbol, or the apology \<open>Symbol Doesn't Exist\<close> (400) when the
  service has none (a missing symbol field included).
\<close>

theorem quote_request:
  assumes "srv_sessions sv c = Some i" "req_method r = POST" "req_path r = ''/quote''"
  shows "snd (app h mk c r sv) = sv \<and>
         resp_body (fst (app h mk c r sv)) =
           (case lookup mk (form_get (req_form r) ''symbol'') of
              Some q \<Rightarrow> Render (QuotedPage q)
            | None \<Rightarrow> Apology ''Symbol Doesn't Exist'' 400)"
  using assms
  by (simp add: app_unfold route_def login_required_def quote_view_def fun_upd_idem split: option.split)


subsection \<open>Authentication and the ledger over runs\<close>




lemma route_ledger:
  "\<exists>E. history (st_db (snd (route h mk r s))) = history (st_db s) @ E \<and> length E \<le> 1 \<and>
       (\<forall>e\<in>set E. \<exists>i. st_session s = Some i \<and> username_subquery (st_db s) i = Some (h_username e) \<and>
                     h_shares e \<noteq> 0)"
  using route_db_cases [of h mk r s]
proof (elim disjE exE conjE)
  assume "st_db (snd (route h mk r s)) = st_db s"
  then show ?thesis by (intro exI [of _ "[]"]) simp
next
  fix i
  assume i: "st_session s = Some i" and d: "st_db (snd (route h mk r s)) = snd (buy_post mk (req_form r) i (st_db s))"
  show ?thesis
    using buy_post_history [of mk "req_form r" i "st_db s"]
  proof (elim disjE exE conjE)
    assume "history (snd (buy_post mk (req_form r) i (st_db s))) = history (st_db s)"
    then show ?thesis using d by (intro exI [of _ "[]"]) simp
  next
    fix e
    assume "history (snd (buy_post mk (req_form r) i (st_db s))) = history (st_db s) @ [e]"
      "username_subquery (st_db s) i = Some (h_username e)" "0 < h_shares e"
    then show ?thesis using d i by (intro exI [of _ "[e]"]) simp
  qed
next
  fix i
  assume i: "st_session s = Some i" and d: "st_db (snd (route h mk r s)) = snd (sell_post mk (req_form r) i (st_db s))"
  show ?thesis
    using sell_post_history [of mk "req_form r" i "st_db s"]
  proof (elim disjE exE conjE)
    assume "history (snd (sell_post mk (req_form r) i (st_db s))) = history (st_db s)"
    then show ?thesis using d by (intro exI [of _ "[]"]) simp
  next
    fix e
    assume "history (snd (sell_post mk (req_form r) i (st_db s))) = history (st_db s) @ [e]"
      "username_subquery (st_db s) i = Some (h_username e)" "h_shares e < 0"
    then show ?thesis using d i by (intro exI [of _ "[e]"]) simp
  qed
qed

text \<open>
  C8. The ledger is append-only and written only for the requester: a request
  keeps every earlier history row in place and appends at most one entry, and an
  entry it appends belongs to the user whose session made the request and never
  records zero shares.
\<close>

theorem app_ledger_append:
  "\<exists>E. history (srv_db (snd (app h mk c r sv))) = history (srv_db sv) @ E \<and> length E \<le> 1 \<and>
       (\<forall>e\<in>set E. \<exists>i. srv_sessions sv c = Some i \<and> username_subquery (srv_db sv) i = Some (h_username e) \<and>
                     h_shares e \<noteq> 0)"
  using route_ledger [of h mk r "\<lparr>st_db = srv_db sv, st_session = srv_sessions sv c\<rparr>"] by simp

end
