(* ===== verification/Race.thy ===== *)
theory Race
  imports Trade
begin

text \<open>
  Concurrent trades.  Each \<open>db.execute\<close> of \<open>src/finance/application.py\<close>
  is one atomic statement that commits on its own; a handler keeps what it read
  in local variables between statements.  A POST to \<open>/buy\<close> or \<open>/sell\<close> is
  therefore a thread that runs its statements one at a time, and requests served
  at the same time interleave at statement granularity.  The theory gives the
  statement-level model of both handlers, proves that each run alone is the
  handler of \<open>Trade\<close>, and shows what two interleaved trades of one user do:
  purchases lose a debit, sales drive a position below zero.
\<close>

text \<open>
  Lines 62--70 of \<open>buy\<close> and 221--229 of \<open>sell\<close> (the same code): the form and
  the quote, before the first statement that reads the shared tables.
\<close>

record trade_order =
  to_uid :: uid
  to_quote :: quote
  to_shares :: int

definition trade_start :: "market \<Rightarrow> form \<Rightarrow> uid \<Rightarrow> (exc + response) + trade_order" where
  "trade_start mk f i =
     (let symbol = form_get f ''symbol'';
          symbol_data = lookup mk symbol
      in case int_field (form_get f ''shares'') of
           Inl e \<Rightarrow> Inl (Inl e)
         | Inr user_shares \<Rightarrow>
            (case (truthy symbol, symbol_data) of
               (True, Some q) \<Rightarrow>
                 if user_shares < 1 then Inl (Inr (Apology ''MISSING SHARES'' 400))
                 else Inr \<lparr>to_uid = i, to_quote = q, to_shares = user_shares\<rparr>
             | _ \<Rightarrow> Inl (Inr (Apology ''MISSING SYMBOL'' 400))))"

text \<open>\<open>total_price\<close> (lines 73 and 238).\<close>

definition order_total :: "trade_order \<Rightarrow> money" where
  "order_total ord = q_price (to_quote ord) * of_int (to_shares ord)"

text \<open>The locals of a handler between statements, and where it stands.\<close>

record trade_thread =
  tt_pc :: nat
  tt_cash :: money
  tt_un :: string
  tt_sum :: "int option"
  tt_out :: "(exc + response) option"

definition thread0 :: trade_thread where
  "thread0 = \<lparr>tt_pc = 0, tt_cash = 0, tt_un = [], tt_sum = None, tt_out = None\<rparr>"

text \<open>Lines 93--99 of \<open>buy\<close> once \<open>portfolio_shares\<close> has been read.\<close>

definition portfolio_write :: "string \<Rightarrow> quote \<Rightarrow> int \<Rightarrow> money \<Rightarrow> int option \<Rightarrow> db \<Rightarrow> db" where
  "portfolio_write un q n total_price s d =
     (case s of
        Some portfolio_shares \<Rightarrow>
          if portfolio_shares = 0
          then insert_portfolio \<lparr>p_username = un, p_symbol = q_symbol q, p_name = q_name q,
                                 p_shares = n, p_price = q_price q, p_total = total_price\<rparr> d
          else update_holding un (q_symbol q) (portfolio_shares + n) total_price d
      | None \<Rightarrow>
          insert_portfolio \<lparr>p_username = un, p_symbol = q_symbol q, p_name = q_name q,
                             p_shares = n, p_price = q_price q, p_total = total_price\<rparr> d)"

text \<open>
  One statement of \<open>buy\<close>: 0 reads the cash (line 74) and checks it (77), 1
  reads the username (81), 2 writes the cash read in step 0 less the cost (83),
  3 appends to the history (86), 4 reads the position (90), 5 writes it
  (93--99).  A finished thread does nothing.
\<close>

definition buy_step :: "trade_order \<Rightarrow> trade_thread \<Rightarrow> db \<Rightarrow> trade_thread \<times> db" where
  "buy_step ord t d =
     (if tt_out t \<noteq> None then (t, d)
      else if tt_pc t = 0 then
        (case select_cash d (to_uid ord) of
           Inl e \<Rightarrow> (t\<lparr>tt_out := Some (Inl e)\<rparr>, d)
         | Inr cash \<Rightarrow>
             if order_total ord > cash then (t\<lparr>tt_out := Some (Inr (Apology ''NO ENOUGH CASH'' 400))\<rparr>, d)
             else (t\<lparr>tt_pc := 1, tt_cash := cash\<rparr>, d))
      else if tt_pc t = 1 then
        (case select_username d (to_uid ord) of
           Inl e \<Rightarrow> (t\<lparr>tt_out := Some (Inl e)\<rparr>, d)
         | Inr un \<Rightarrow> (t\<lparr>tt_pc := 2, tt_un := un\<rparr>, d))
      else if tt_pc t = 2 then
        (t\<lparr>tt_pc := 3\<rparr>, update_cash (to_uid ord) (tt_cash t - order_total ord) d)
      else if tt_pc t = 3 then
        (t\<lparr>tt_pc := 4\<rparr>,
         insert_history (q_symbol (to_quote ord)) (to_shares ord) (q_price (to_quote ord)) (tt_un t) d)
      else if tt_pc t = 4 then
        (t\<lparr>tt_pc := 5, tt_sum := sum_shares d (tt_un t) (q_symbol (to_quote ord))\<rparr>, d)
      else
        (t\<lparr>tt_out := Some (Inr (Redirect ''/''))\<rparr>,
         portfolio_write (tt_un t) (to_quote ord) (to_shares ord) (order_total ord) (tt_sum t) d))"

text \<open>
  One statement of \<open>sell\<close>: 0 reads the held shares (line 232) and checks them
  (234), 1 reads the cash (239), 2 the username (242), 3 writes the cash read in
  step 1 plus the proceeds (244), 4 appends to the history (247), 5 reads the
  position again (251), 6 writes it (255; with no row the sum is \<open>None\<close> and the
  subtraction raises \<open>TypeError\<close> before the statement), 7 deletes the empty
  rows (258).  The query of line 217 only feeds the GET page and is left out.
\<close>

definition sell_step :: "trade_order \<Rightarrow> trade_thread \<Rightarrow> db \<Rightarrow> trade_thread \<times> db" where
  "sell_step ord t d =
     (if tt_out t \<noteq> None then (t, d)
      else if tt_pc t = 0 then
        (case select_shares d (to_uid ord) (q_symbol (to_quote ord)) of
           Inl e \<Rightarrow> (t\<lparr>tt_out := Some (Inl e)\<rparr>, d)
         | Inr current_shares \<Rightarrow>
             if to_shares ord > current_shares
             then (t\<lparr>tt_out := Some (Inr (Apology ''YOU DON'T OWN THESE SHARES'' 400))\<rparr>, d)
             else (t\<lparr>tt_pc := 1\<rparr>, d))
      else if tt_pc t = 1 then
        (case select_cash d (to_uid ord) of
           Inl e \<Rightarrow> (t\<lparr>tt_out := Some (Inl e)\<rparr>, d)
         | Inr cash \<Rightarrow> (t\<lparr>tt_pc := 2, tt_cash := cash\<rparr>, d))
      else if tt_pc t = 2 then
        (case select_username d (to_uid ord) of
           Inl e \<Rightarrow> (t\<lparr>tt_out := Some (Inl e)\<rparr>, d)
         | Inr un \<Rightarrow> (t\<lparr>tt_pc := 3, tt_un := un\<rparr>, d))
      else if tt_pc t = 3 then
        (t\<lparr>tt_pc := 4\<rparr>, update_cash (to_uid ord) (tt_cash t + order_total ord) d)
      else if tt_pc t = 4 then
        (t\<lparr>tt_pc := 5\<rparr>,
         insert_history (q_symbol (to_quote ord)) ((-1) * to_shares ord) (q_price (to_quote ord)) (tt_un t) d)
      else if tt_pc t = 5 then
        (t\<lparr>tt_pc := 6, tt_sum := sum_shares d (tt_un t) (q_symbol (to_quote ord))\<rparr>, d)
      else if tt_pc t = 6 then
        (case tt_sum t of
           None \<Rightarrow> (t\<lparr>tt_out := Some (Inl TypeError)\<rparr>, d)
         | Some portfolio_shares \<Rightarrow>
             (t\<lparr>tt_pc := 7\<rparr>,
              update_holding (tt_un t) (q_symbol (to_quote ord)) (portfolio_shares - to_shares ord)
                (- order_total ord) d))
      else
        (t\<lparr>tt_out := Some (Inr (Redirect ''/''))\<rparr>, delete_empty d))"

text \<open>A thread run alone for \<open>k\<close> statements.\<close>

fun run_steps :: "nat \<Rightarrow> (trade_thread \<Rightarrow> db \<Rightarrow> trade_thread \<times> db) \<Rightarrow> trade_thread \<Rightarrow> db \<Rightarrow> trade_thread \<times> db" where
  "run_steps 0 step t d = (t, d)"
| "run_steps (Suc k) step t d = (case step t d of (t', d') \<Rightarrow> run_steps k step t' d')"

text \<open>Two threads under a schedule: \<open>True\<close> runs the next statement of the first.\<close>

fun interleave ::
  "(trade_thread \<Rightarrow> db \<Rightarrow> trade_thread \<times> db) \<Rightarrow> (trade_thread \<Rightarrow> db \<Rightarrow> trade_thread \<times> db) \<Rightarrow>
   bool list \<Rightarrow> trade_thread \<times> trade_thread \<times> db \<Rightarrow> trade_thread \<times> trade_thread \<times> db" where
  "interleave sa sb [] s = s"
| "interleave sa sb (True # xs) (ta, tb, d) = (case sa ta d of (ta', d') \<Rightarrow> interleave sa sb xs (ta', tb, d'))"
| "interleave sa sb (False # xs) (ta, tb, d) = (case sb tb d of (tb', d') \<Rightarrow> interleave sa sb xs (ta, tb', d'))"

text \<open>
  The two trading routes: a POST to \<open>/buy\<close> or \<open>/sell\<close> runs the handler,
  which is so many statements at the database.
\<close>

datatype trade_kind = Buy | Sell

definition trade_post :: "trade_kind \<Rightarrow> market \<Rightarrow> form \<Rightarrow> uid \<Rightarrow> db \<Rightarrow> (exc + response) \<times> db" where
  "trade_post k = (case k of Buy \<Rightarrow> buy_post | Sell \<Rightarrow> sell_post)"

definition trade_step :: "trade_kind \<Rightarrow> trade_order \<Rightarrow> trade_thread \<Rightarrow> db \<Rightarrow> trade_thread \<times> db" where
  "trade_step k = (case k of Buy \<Rightarrow> buy_step | Sell \<Rightarrow> sell_step)"

definition trade_len :: "trade_kind \<Rightarrow> nat" where
  "trade_len k = (case k of Buy \<Rightarrow> 6 | Sell \<Rightarrow> 8)"

text \<open>Statements a thread has still to run: none once it has answered.\<close>

definition steps_left :: "trade_kind \<Rightarrow> trade_thread \<Rightarrow> nat" where
  "steps_left k t = (if tt_out t \<noteq> None then 0 else trade_len k - tt_pc t)"

definition thread_ok :: "trade_kind \<Rightarrow> trade_thread \<Rightarrow> bool" where
  "thread_ok k t \<longleftrightarrow> tt_out t \<noteq> None \<or> tt_pc t < trade_len k"


subsection \<open>Each handler is its statements in sequence\<close>

lemma add_to_portfolio_split:
  "add_to_portfolio un q n t d = portfolio_write un q n t (sum_shares d un (q_symbol q)) d"
  by (simp add: add_to_portfolio_def portfolio_write_def)

lemma trade_start_Inr:
  "trade_start mk f i = Inr ord \<longleftrightarrow> order_ok mk f (to_quote ord) (to_shares ord) \<and> to_uid ord = i"
  by (cases ord) (auto simp: trade_start_def order_ok_def Let_def split: sum.splits option.splits bool.splits if_splits)

lemma trade_start_Inl:
  "trade_start mk f i = Inl r \<Longrightarrow> buy_post mk f i d = (r, d) \<and> sell_post mk f i d = (r, d)"
  by (auto simp: trade_start_def buy_post_def sell_post_def Let_def split: sum.splits option.splits bool.splits if_splits)

lemma buy_steps_ok:
  assumes "order_ok mk f (to_quote ord) (to_shares ord)" "to_uid ord = i"
  shows "tt_out (fst (run_steps 6 (buy_step ord) thread0 d)) = Some (fst (buy_post mk f i d)) \<and>
         snd (run_steps 6 (buy_step ord) thread0 d) = snd (buy_post mk f i d)"
proof (cases "select_cash d i")
  case (Inl e)
  then show ?thesis using assms
    by (simp add: buy_post_def order_ok_def buy_step_def thread0_def numeral_eq_Suc Let_def)
next
  case (Inr c)
  then show ?thesis using assms
    by (cases "select_username d i")
       (simp_all add: buy_post_def order_ok_def buy_step_def thread0_def order_total_def add_to_portfolio_split
                      numeral_eq_Suc Let_def)
qed

lemma sell_steps_ok:
  assumes "order_ok mk f (to_quote ord) (to_shares ord)" "to_uid ord = i"
  shows "tt_out (fst (run_steps 8 (sell_step ord) thread0 d)) = Some (fst (sell_post mk f i d)) \<and>
         snd (run_steps 8 (sell_step ord) thread0 d) = snd (sell_post mk f i d)"
proof (cases "select_shares d i (q_symbol (to_quote ord))")
  case (Inl e)
  then show ?thesis using assms
    by (simp add: sell_post_def order_ok_def sell_step_def thread0_def numeral_eq_Suc Let_def)
next
  case (Inr cur)
  show ?thesis
  proof (cases "select_cash d i")
    case (Inl e)
    then show ?thesis using assms Inr
      by (simp add: sell_post_def order_ok_def sell_step_def thread0_def numeral_eq_Suc Let_def)
  next
    case (Inr c)
    then show ?thesis using assms \<open>select_shares d i (q_symbol (to_quote ord)) = Inr cur\<close>
      by (cases "select_username d i")
         (simp_all add: sell_post_def order_ok_def sell_step_def thread0_def order_total_def
                        take_from_portfolio_def numeral_eq_Suc Let_def split: option.split)
  qed
qed


subsection \<open>Schedules\<close>

lemma interleave_append:
  "interleave sa sb (xs @ ys) s = interleave sa sb ys (interleave sa sb xs s)"
proof (induction xs arbitrary: s)
  case (Cons x xs)
  obtain ta tb d where "s = (ta, tb, d)" by (cases s) auto
  then show ?case using Cons by (cases x) (simp_all split: prod.split)
qed simp

lemma interleave_first:
  "interleave sa sb (replicate k True) (ta, tb, d) = (case run_steps k sa ta d of (ta', d') \<Rightarrow> (ta', tb, d'))"
  by (induction k arbitrary: ta d) (simp_all split: prod.split)

lemma interleave_second:
  "interleave sa sb (replicate k False) (ta, tb, d) = (case run_steps k sb tb d of (tb', d') \<Rightarrow> (ta, tb', d'))"
  by (induction k arbitrary: tb d) (simp_all split: prod.split)

lemma username_subquery_frames [store_simps]:
  "username_subquery (update_holding un symb n t d) j = username_subquery d j"
  "username_subquery (delete_empty d) j = username_subquery d j"
  "username_subquery (portfolio_write un q n t s d) j = username_subquery d j"
  by (simp_all add: username_subquery_def store_simps portfolio_write_def split: option.split)

lemma portfolio_write_frames [store_simps]:
  "history (portfolio_write un q n t s d) = history d"
  "users (portfolio_write un q n t s d) = users d"
  "cash_of (portfolio_write un q n t s d) j = cash_of d j"
  by (simp_all add: portfolio_write_def store_simps split: option.split)


subsection \<open>Sales that have passed their check\<close>

lemma keys_delete_empty:
  "distinct (map (\<lambda>r. (p_username r, p_symbol r)) (portfolio d)) \<Longrightarrow>
   distinct (map (\<lambda>r. (p_username r, p_symbol r)) (portfolio (delete_empty d)))"
  by (simp add: delete_empty_def distinct_map_filter)

lemma sell_resume:
  assumes cash: "cash_of d (to_uid b) = Some c" and user: "username_subquery d (to_uid b) = Some un"
    and keys: "distinct (map (\<lambda>r. (p_username r, p_symbol r)) (portfolio d))"
    and rows: "holding_rows (portfolio d) un (q_symbol (to_quote b)) \<noteq> []"
  shows "tt_out (fst (run_steps 7 (sell_step b) (thread0\<lparr>tt_pc := 1\<rparr>) d)) = Some (Inr (Redirect ''/'')) \<and>
         held (portfolio (snd (run_steps 7 (sell_step b) (thread0\<lparr>tt_pc := 1\<rparr>) d))) un (q_symbol (to_quote b)) =
           held (portfolio d) un (q_symbol (to_quote b)) - to_shares b \<and>
         cash_of (snd (run_steps 7 (sell_step b) (thread0\<lparr>tt_pc := 1\<rparr>) d)) (to_uid b) = Some (c + order_total b) \<and>
         username_subquery (snd (run_steps 7 (sell_step b) (thread0\<lparr>tt_pc := 1\<rparr>) d)) (to_uid b) = Some un \<and>
         distinct (map (\<lambda>r. (p_username r, p_symbol r)) (portfolio (snd (run_steps 7 (sell_step b) (thread0\<lparr>tt_pc := 1\<rparr>) d))))"
proof -
  have len: "int (length (holding_rows (portfolio d) un (q_symbol (to_quote b)))) = 1"
    by (rule held_single [OF keys rows])
  show ?thesis
    using cash_of_Some_select(1) [OF cash] cash_of_Some_select(2) [OF user] cash user keys rows len
    by (simp add: sell_step_def thread0_def numeral_eq_Suc store_simps sum_shares_held keys_delete_empty)
qed

lemma sell_check_passes:
  assumes "select_shares d (to_uid b) (q_symbol (to_quote b)) = Inr cur" "to_shares b \<le> cur"
  shows "sell_step b thread0 d = (thread0\<lparr>tt_pc := 1\<rparr>, d)"
  using assms by (simp add: sell_step_def thread0_def)

text \<open>
  C17. Without a transaction a position can be oversold: two sales of one user's
  holding that each pass the check against the shares held, when both checks run
  before either sale writes, both succeed, and the position ends below zero,
  although each sale alone could not take it there.
\<close>

theorem interleaved_sells_oversell:
  assumes starts: "trade_start mk1 f1 i = Inr a" "trade_start mk2 f2 i = Inr b"
    and symb: "q_symbol (to_quote a) = symb" "q_symbol (to_quote b) = symb"
    and cash: "cash_of d i = Some c" and user: "username_subquery d i = Some un"
    and keys: "distinct (map (\<lambda>r. (p_username r, p_symbol r)) (portfolio d))"
    and held: "to_shares a < held (portfolio d) un symb" "to_shares b \<le> held (portfolio d) un symb"
              "held (portfolio d) un symb < to_shares a + to_shares b"
  shows "case interleave (sell_step a) (sell_step b) ([True, False] @ replicate 7 True @ replicate 7 False)
                (thread0, thread0, d) of
           (ta, tb, d') \<Rightarrow>
             tt_out ta = Some (Inr (Redirect ''/'')) \<and> tt_out tb = Some (Inr (Redirect ''/'')) \<and>
             held (portfolio d') un symb < 0"
proof -
  have ids: "to_uid a = i" "to_uid b = i" "1 \<le> to_shares a"
    using starts by (simp_all add: trade_start_Inr order_ok_def)
  have rows: "holding_rows (portfolio d) un symb \<noteq> []"
    using held(1) ids(3) by (intro held_pos_rows) simp
  have sh: "select_shares d i symb = Inr (held (portfolio d) un symb)"
    by (rule select_shares_held [OF user keys rows])
  have a0: "sell_step a thread0 d = (thread0\<lparr>tt_pc := 1\<rparr>, d)"
    using sell_check_passes [of d a "held (portfolio d) un symb"] sh held(1) ids symb by simp
  have b0: "sell_step b thread0 d = (thread0\<lparr>tt_pc := 1\<rparr>, d)"
    using sell_check_passes [of d b "held (portfolio d) un symb"] sh held(2) ids symb by simp
  obtain ta dA where A: "run_steps 7 (sell_step a) (thread0\<lparr>tt_pc := 1\<rparr>) d = (ta, dA)"
    by (cases "run_steps 7 (sell_step a) (thread0\<lparr>tt_pc := 1\<rparr>) d") auto
  have ra: "tt_out ta = Some (Inr (Redirect ''/''))" "held (portfolio dA) un symb = held (portfolio d) un symb - to_shares a"
    "cash_of dA i = Some (c + order_total a)" "username_subquery dA i = Some un"
    "distinct (map (\<lambda>r. (p_username r, p_symbol r)) (portfolio dA))"
    using sell_resume [of d a c un] cash user keys rows ids symb A by simp_all
  have rowsA: "holding_rows (portfolio dA) un symb \<noteq> []"
    using ra(2) held(1) by (intro held_pos_rows) simp
  obtain tb dB where B: "run_steps 7 (sell_step b) (thread0\<lparr>tt_pc := 1\<rparr>) dA = (tb, dB)"
    by (cases "run_steps 7 (sell_step b) (thread0\<lparr>tt_pc := 1\<rparr>) dA") auto
  have rb: "tt_out tb = Some (Inr (Redirect ''/''))" "held (portfolio dB) un symb = held (portfolio dA) un symb - to_shares b"
    using sell_resume [of dA b "c + order_total a" un] ra(3-5) rowsA ids symb B by simp_all
  have "interleave (sell_step a) (sell_step b) ([True, False] @ replicate 7 True @ replicate 7 False)
          (thread0, thread0, d) = (ta, tb, dB)"
    using a0 b0 A B by (simp add: interleave_append interleave_first interleave_second)
  then show ?thesis using ra(1,2) rb held(3) by simp
qed

lemma holding_rows_delete_empty:
  "holding_rows (portfolio (delete_empty d)) un symb = filter (\<lambda>r. p_shares r \<noteq> 0) (holding_rows (portfolio d) un symb)"
  by (simp add: holding_rows_def portfolio_delete_empty conj_commute)

lemma sell_resume_closes:
  assumes cash: "cash_of d (to_uid b) = Some c" and user: "username_subquery d (to_uid b) = Some un"
    and keys: "distinct (map (\<lambda>r. (p_username r, p_symbol r)) (portfolio d))"
    and rows: "holding_rows (portfolio d) un (q_symbol (to_quote b)) \<noteq> []"
    and all: "to_shares b = held (portfolio d) un (q_symbol (to_quote b))"
  shows "holding_rows (portfolio (snd (run_steps 7 (sell_step b) (thread0\<lparr>tt_pc := 1\<rparr>) d))) un (q_symbol (to_quote b)) = []"
proof -
  have len: "int (length (holding_rows (portfolio d) un (q_symbol (to_quote b)))) = 1"
    by (rule held_single [OF keys rows])
  show ?thesis
    using cash_of_Some_select(1) [OF cash] cash_of_Some_select(2) [OF user] cash user keys rows len all
    by (simp add: sell_step_def thread0_def numeral_eq_Suc store_simps sum_shares_held holding_rows_delete_empty
                  filter_map o_def)
qed

lemma sell_resume_gone:
  assumes cash: "cash_of d (to_uid b) = Some c" and user: "username_subquery d (to_uid b) = Some un"
    and gone: "holding_rows (portfolio d) un (q_symbol (to_quote b)) = []"
  shows "tt_out (fst (run_steps 7 (sell_step b) (thread0\<lparr>tt_pc := 1\<rparr>) d)) = Some (Inl TypeError) \<and>
         snd (run_steps 7 (sell_step b) (thread0\<lparr>tt_pc := 1\<rparr>) d) =
           insert_history (q_symbol (to_quote b)) (- to_shares b) (q_price (to_quote b)) un
             (update_cash (to_uid b) (c + order_total b) d)"
  using cash_of_Some_select(1) [OF cash] cash_of_Some_select(2) [OF user] gone
  by (simp add: sell_step_def thread0_def numeral_eq_Suc store_simps sum_shares_def)


lemma sell_resume_history:
  assumes cash: "cash_of d (to_uid b) = Some c" and user: "username_subquery d (to_uid b) = Some un"
    and rows: "holding_rows (portfolio d) un (q_symbol (to_quote b)) \<noteq> []"
  shows "history (snd (run_steps 7 (sell_step b) (thread0\<lparr>tt_pc := 1\<rparr>) d)) =
           history d @ [\<lparr>h_symbol = q_symbol (to_quote b), h_shares = - to_shares b,
                         h_price = q_price (to_quote b), h_username = un\<rparr>]"
  using cash_of_Some_select(1) [OF cash] cash_of_Some_select(2) [OF user] rows
  by (simp add: sell_step_def thread0_def numeral_eq_Suc store_simps sum_shares_def)

text \<open>
  C18. A failed sale is not undone: when two sales of one user both sell the whole
  position and both checks run before either sale writes, the first sale
  succeeds and deletes the holding.  The second still credits its proceeds and
  writes its ledger entry, then finds no row, so \<open>None - shares\<close> raises
  \<open>TypeError\<close> (an internal server error).  The user is paid for both sales,
  the position is 0, and the ledger counts both sales.
\<close>

theorem interleaved_sells_paid_twice:
  assumes starts: "trade_start mk1 f1 i = Inr a" "trade_start mk2 f2 i = Inr b"
    and symb: "q_symbol (to_quote a) = symb" "q_symbol (to_quote b) = symb"
    and cash: "cash_of d i = Some c" and user: "username_subquery d i = Some un"
    and keys: "distinct (map (\<lambda>r. (p_username r, p_symbol r)) (portfolio d))"
    and held: "to_shares a = held (portfolio d) un symb" "to_shares b \<le> held (portfolio d) un symb"
  shows "case interleave (sell_step a) (sell_step b) ([True, False] @ replicate 7 True @ replicate 7 False)
                (thread0, thread0, d) of
           (ta, tb, d') \<Rightarrow>
             tt_out ta = Some (Inr (Redirect ''/'')) \<and> tt_out tb = Some (Inl TypeError) \<and>
             cash_of d' i = Some (c + order_total a + order_total b) \<and>
             held (portfolio d') un symb = 0 \<and>
             ledger_shares (history d') un symb = ledger_shares (history d) un symb - to_shares a - to_shares b"
proof -
  have ids: "to_uid a = i" "to_uid b = i" "1 \<le> to_shares a"
    using starts by (simp_all add: trade_start_Inr order_ok_def)
  have rows: "holding_rows (portfolio d) un symb \<noteq> []"
    using held(1) ids(3) by (intro held_pos_rows) simp
  have sh: "select_shares d i symb = Inr (held (portfolio d) un symb)"
    by (rule select_shares_held [OF user keys rows])
  have a0: "sell_step a thread0 d = (thread0\<lparr>tt_pc := 1\<rparr>, d)"
    using sell_check_passes [of d a "held (portfolio d) un symb"] sh held(1) ids symb by simp
  have b0: "sell_step b thread0 d = (thread0\<lparr>tt_pc := 1\<rparr>, d)"
    using sell_check_passes [of d b "held (portfolio d) un symb"] sh held(2) ids symb by simp
  obtain ta dA where A: "run_steps 7 (sell_step a) (thread0\<lparr>tt_pc := 1\<rparr>) d = (ta, dA)"
    by (cases "run_steps 7 (sell_step a) (thread0\<lparr>tt_pc := 1\<rparr>) d") auto
  have ra: "tt_out ta = Some (Inr (Redirect ''/''))" "held (portfolio dA) un symb = 0"
    "cash_of dA i = Some (c + order_total a)" "username_subquery dA i = Some un"
    using sell_resume [of d a c un] cash user keys rows ids symb held(1) A by simp_all
  have goneA: "holding_rows (portfolio dA) un symb = []"
    using sell_resume_closes [of d a c un] cash user keys rows ids symb held(1) A by simp
  have hA: "ledger_shares (history dA) un symb = ledger_shares (history d) un symb - to_shares a"
    using sell_resume_history [of d a c un] cash user rows ids symb A by (simp add: store_simps)
  obtain tb dB where B: "run_steps 7 (sell_step b) (thread0\<lparr>tt_pc := 1\<rparr>) dA = (tb, dB)"
    by (cases "run_steps 7 (sell_step b) (thread0\<lparr>tt_pc := 1\<rparr>) dA") auto
  have rb: "tt_out tb = Some (Inl TypeError)"
    "dB = insert_history symb (- to_shares b) (q_price (to_quote b)) un (update_cash i (c + order_total a + order_total b) dA)"
    using sell_resume_gone [of dA b "c + order_total a" un] ra(3,4) goneA ids symb B by simp_all
  have "interleave (sell_step a) (sell_step b) ([True, False] @ replicate 7 True @ replicate 7 False)
          (thread0, thread0, d) = (ta, tb, dB)"
    using a0 b0 A B by (simp add: interleave_append interleave_first interleave_second)
  then show ?thesis using ra rb hA by (simp add: store_simps)
qed

lemma trade_steps_ok:
  assumes "trade_start mk f i = Inr ord"
  shows "tt_out (fst (run_steps (trade_len k) (trade_step k ord) thread0 d)) = Some (fst (trade_post k mk f i d)) \<and>
         snd (run_steps (trade_len k) (trade_step k ord) thread0 d) = snd (trade_post k mk f i d)"
proof -
  have "order_ok mk f (to_quote ord) (to_shares ord)" "to_uid ord = i"
    using assms by (simp_all add: trade_start_Inr)
  then show ?thesis
    using buy_steps_ok sell_steps_ok by (cases k) (simp_all add: trade_len_def trade_step_def trade_post_def)
qed

lemma trade_post_inv: "db_inv d \<Longrightarrow> db_inv (snd (trade_post k mk f i d))"
  by (cases k) (simp_all add: trade_post_def buy_post_inv sell_post_inv)

text \<open>
  The statement-level model is the handler: whatever the form, a POST to
  \<open>/buy\<close> or \<open>/sell\<close> either ends before its first statement with the response
  the handler gives, or its statements (six for \<open>buy\<close>, eight for
  \<open>sell\<close>) run without interference end with the response and the database of
  the handler.
\<close>

theorem trade_as_steps:
  "case trade_start mk f i of
     Inl r \<Rightarrow> trade_post k mk f i d = (r, d)
   | Inr ord \<Rightarrow> tt_out (fst (run_steps (trade_len k) (trade_step k ord) thread0 d)) = Some (fst (trade_post k mk f i d)) \<and>
                snd (run_steps (trade_len k) (trade_step k ord) thread0 d) = snd (trade_post k mk f i d)"
proof (cases "trade_start mk f i")
  case (Inl r)
  then show ?thesis using trade_start_Inl [OF Inl] by (cases k) (simp_all add: trade_post_def)
next
  case (Inr ord)
  then show ?thesis using trade_steps_ok [OF Inr] by simp
qed

lemma serial_trades:
  assumes "trade_start mk1 f1 i1 = Inr a" "trade_start mk2 f2 i2 = Inr b"
  shows "snd (snd (interleave (trade_step k1 a) (trade_step k2 b) (replicate (trade_len k1) True @ replicate (trade_len k2) False)
                 (thread0, thread0, d))) =
         snd (trade_post k2 mk2 f2 i2 (snd (trade_post k1 mk1 f1 i1 d)))"
proof -
  obtain ta d1 where A: "run_steps (trade_len k1) (trade_step k1 a) thread0 d = (ta, d1)"
    by (cases "run_steps (trade_len k1) (trade_step k1 a) thread0 d") auto
  have "d1 = snd (trade_post k1 mk1 f1 i1 d)" using trade_steps_ok [OF assms(1), of k1 d] A by simp
  then show ?thesis
    using A trade_steps_ok [OF assms(2), of k2 d1]
    by (simp add: interleave_append interleave_first interleave_second split: prod.split)
qed

text \<open>
  Two trades of any kinds served one after the other, statement by
  statement, keep the database invariant: the serial schedule is the two handlers
  in sequence.
\<close>

theorem serial_trades_keep_books:
  assumes "db_inv d" "trade_start mk1 f1 i1 = Inr a" "trade_start mk2 f2 i2 = Inr b"
  shows "db_inv (snd (snd (interleave (trade_step k1 a) (trade_step k2 b)
                   (replicate (trade_len k1) True @ replicate (trade_len k2) False) (thread0, thread0, d))))"
  using serial_trades [OF assms(2,3), of k1 k2 d] trade_post_inv [OF trade_post_inv [OF assms(1)]] by simp


subsection \<open>Interleaved purchases\<close>

lemma spent_two:
  "spent (hs @ [h1, h2]) un =
     spent hs un + (if h_username h1 = un then of_int (h_shares h1) * h_price h1 else 0)
                 + (if h_username h2 = un then of_int (h_shares h2) * h_price h2 else 0)"
  by (simp add: spent_def)

lemma lost_update:
  assumes ids: "to_uid a = i" "to_uid b = i"
    and cash: "cash_of d i = Some c" "order_total a \<le> c" "order_total b \<le> c"
    and user: "username_subquery d i = Some un"
  shows "case interleave (buy_step a) (buy_step b) (concat (replicate 6 [True, False])) (thread0, thread0, d) of
           (ta, tb, d') \<Rightarrow>
             tt_out ta = Some (Inr (Redirect ''/'')) \<and> tt_out tb = Some (Inr (Redirect ''/'')) \<and>
             cash_of d' i = Some (c - order_total b) \<and> username_subquery d' i = Some un \<and>
             history d' = history d @
               [\<lparr>h_symbol = q_symbol (to_quote a), h_shares = to_shares a, h_price = q_price (to_quote a), h_username = un\<rparr>,
                \<lparr>h_symbol = q_symbol (to_quote b), h_shares = to_shares b, h_price = q_price (to_quote b), h_username = un\<rparr>]"
  using ids cash user cash_of_Some_select(1) [OF cash(1)] cash_of_Some_select(2) [OF user]
  by (simp add: buy_step_def thread0_def numeral_eq_Suc store_simps)

text \<open>
  C15. Without a transaction the cash books break: when two purchases of the same
  user both read the cash before either writes it, the second write overwrites
  the first, so one purchase is recorded in the ledger but never paid for, and
  the user's cash no longer equals the starting cash less the ledger's net cost.
\<close>

theorem interleaved_buys_break_books:
  assumes inv: "db_inv d"
    and ids: "to_uid a = i" "to_uid b = i"
    and cash: "cash_of d i = Some c" "order_total a \<le> c" "order_total b \<le> c"
    and user: "username_subquery d i = Some un"
    and pos: "0 < order_total a"
  shows "\<not> cash_balances (snd (snd (interleave (buy_step a) (buy_step b) (concat (replicate 6 [True, False]))
                                   (thread0, thread0, d))))"
proof
  obtain ta tb d' where run: "interleave (buy_step a) (buy_step b) (concat (replicate 6 [True, False])) (thread0, thread0, d) = (ta, tb, d')"
    by (cases "interleave (buy_step a) (buy_step b) (concat (replicate 6 [True, False])) (thread0, thread0, d)") auto
  assume "cash_balances (snd (snd (interleave (buy_step a) (buy_step b) (concat (replicate 6 [True, False]))
                                     (thread0, thread0, d))))"
  then have cb': "cash_balances d'" using run by simp
  have after: "cash_of d' i = Some (c - order_total b)" "username_subquery d' i = Some un"
    "history d' = history d @
       [\<lparr>h_symbol = q_symbol (to_quote a), h_shares = to_shares a, h_price = q_price (to_quote a), h_username = un\<rparr>,
        \<lparr>h_symbol = q_symbol (to_quote b), h_shares = to_shares b, h_price = q_price (to_quote b), h_username = un\<rparr>]"
    using lost_update [OF ids cash user] run by simp_all
  obtain u' where u': "u' \<in> set (users d')" "u_cash u' = c - order_total b" "u_username u' = un"
    using first_user [OF cash_of_Some_select(1) [OF after(1)] cash_of_Some_select(2) [OF after(2)]] by blast
  obtain u where u: "u \<in> set (users d)" "u_cash u = c" "u_username u = un"
    using first_user [OF cash_of_Some_select(1) [OF cash(1)] cash_of_Some_select(2) [OF user]] by blast
  have "c = starting_cash - spent (history d) un"
    using inv u by (auto simp: db_inv_def cash_balances_def)
  moreover have "c - order_total b = starting_cash - spent (history d') un"
    using cb' u' by (auto simp: cash_balances_def)
  moreover have "spent (history d') un = spent (history d) un + order_total a + order_total b"
    using after(3) by (simp add: spent_two order_total_def mult.commute)
  ultimately have "order_total a = 0" by linarith
  then show False using pos by simp
qed


subsection \<open>Every fair schedule finishes both trades\<close>

lemma trade_step_progress:
  "thread_ok k t \<Longrightarrow>
   thread_ok k (fst (trade_step k ord t d)) \<and> steps_left k (fst (trade_step k ord t d)) \<le> steps_left k t - 1"
  by (cases k)
     (auto simp: trade_step_def trade_len_def thread_ok_def steps_left_def buy_step_def sell_step_def
           split: sum.split option.split)

lemma interleave_progress:
  assumes "thread_ok k1 ta" "thread_ok k2 tb"
  shows "case interleave (trade_step k1 a) (trade_step k2 b) xs (ta, tb, d) of
           (ta', tb', d') \<Rightarrow>
             thread_ok k1 ta' \<and> thread_ok k2 tb' \<and>
             steps_left k1 ta' \<le> steps_left k1 ta - count_list xs True \<and>
             steps_left k2 tb' \<le> steps_left k2 tb - count_list xs False"
  using assms
proof (induction xs arbitrary: ta tb d)
  case Nil
  then show ?case by simp
next
  case (Cons x xs)
  show ?case
  proof (cases x)
    case True
    obtain ta1 d1 where s: "trade_step k1 a ta d = (ta1, d1)" by (cases "trade_step k1 a ta d") auto
    have "thread_ok k1 ta1" "steps_left k1 ta1 \<le> steps_left k1 ta - 1"
      using trade_step_progress [OF Cons.prems(1), of a d] s by simp_all
    then show ?thesis
      using Cons.IH [of ta1 tb d1] Cons.prems(2) s True by (auto split: prod.splits)
  next
    case False
    obtain tb1 d1 where s: "trade_step k2 b tb d = (tb1, d1)" by (cases "trade_step k2 b tb d") auto
    have "thread_ok k2 tb1" "steps_left k2 tb1 \<le> steps_left k2 tb - 1"
      using trade_step_progress [OF Cons.prems(2), of b d] s by simp_all
    then show ?thesis
      using Cons.IH [of ta tb1 d1] Cons.prems(1) s False by (auto split: prod.splits)
  qed
qed

text \<open>
  Every trade terminates whatever the interleaving: under any schedule that
  gives each of two concurrent trades at least as many turns as it has
  statements (six for a purchase, eight for a sale), both have answered at the
  end, with a response or an exception.
\<close>

theorem interleaved_trades_terminate:
  assumes "trade_len k1 \<le> count_list xs True" "trade_len k2 \<le> count_list xs False"
  shows "case interleave (trade_step k1 a) (trade_step k2 b) xs (thread0, thread0, d) of
           (ta, tb, d') \<Rightarrow> tt_out ta \<noteq> None \<and> tt_out tb \<noteq> None"
proof -
  have ok: "thread_ok k thread0" for k by (cases k) (simp_all add: thread_ok_def thread0_def trade_len_def)
  have left: "steps_left k thread0 = trade_len k" for k by (simp add: steps_left_def thread0_def)
  have fin: "thread_ok k t \<Longrightarrow> steps_left k t = 0 \<Longrightarrow> tt_out t \<noteq> None" for k t
    by (auto simp: thread_ok_def steps_left_def split: if_splits)
  obtain ta tb d' where run: "interleave (trade_step k1 a) (trade_step k2 b) xs (thread0, thread0, d) = (ta, tb, d')"
    by (cases "interleave (trade_step k1 a) (trade_step k2 b) xs (thread0, thread0, d)") auto
  have "thread_ok k1 ta" "thread_ok k2 tb" "steps_left k1 ta \<le> trade_len k1 - count_list xs True"
    "steps_left k2 tb \<le> trade_len k2 - count_list xs False"
    using interleave_progress [OF ok [of k1] ok [of k2], where a = a and b = b and xs = xs and d = d] run
    by (simp_all add: left)
  then show ?thesis using run assms fin by simp
qed

end
