(* ===== verification/Spec2Isabelle.thy ===== *)
theory Spec2Isabelle
  imports App Race
begin

text \<open>
  \<^bold>\<open>A verification library for the CS50 Finance application\<close>
  (\<open>src/finance/application.py\<close>, a Flask application that lets users register,
  log in, look up stock quotes and buy and sell simulated shares against a cash
  balance kept in SQLite).

  \<^bold>\<open>The program and how its parts interact.\<close>
  Every request is served by one view function.  The view reads the client's
  server-side session (\<open>session["user_id"]\<close>), checks the submitted form, asks
  the quote service (\<open>helpers.lookup\<close>) for a price, and issues SQL statements
  against three tables: \<open>users\<close> (id, name, password hash, cash), \<open>portfolio\<close>
  (one row per user and symbol with shares, price and a running \<open>total\<close>) and
  \<open>history\<close> (the ledger of trades).  Every statement commits on its own; there
  is no transaction around a trade.  An exception that escapes a view is turned
  into an error page by \<open>errorhandler\<close>, and \<open>after_request\<close> adds no-cache
  headers to every response.

  \<^bold>\<open>Theories and what each models.\<close>
  \<^item> \<open>Prelude\<close>: the types \<open>money\<close> (currency, modelled as exact rationals),
    \<open>uid\<close>, \<open>form\<close> and \<open>form_get\<close> (Werkzeug's \<open>request.form.get\<close>), the fact
    collections \<open>store_simps\<close> and \<open>handler_defs\<close>, and generic list and sum
    lemmas.
  \<^item> \<open>Python\<close>: the exceptions that can escape a view (\<open>exc\<close>), truthiness
    (\<open>truthy\<close>), and CPython's \<open>int()\<close> on ASCII strings (\<open>py_int\<close>,
    \<open>int_field\<close>) used on the shares field at lines 64 and 223, with a
    round-trip lemma against \<open>str()\<close> (\<open>py_str_int\<close>) that checks the parser.
  \<^item> \<open>Store\<close>: the three tables as records and lists in rowid order
    (\<open>user_row\<close>, \<open>portfolio_row\<close>, \<open>history_row\<close>, \<open>db\<close>), one definition
    per SQL statement the source issues (\<open>select_cash\<close>, \<open>select_username\<close>,
    \<open>username_subquery\<close>, \<open>portfolio_of\<close>, \<open>history_of\<close>, \<open>sum_shares\<close>,
    \<open>select_shares\<close>, \<open>users_named\<close>, \<open>update_cash\<close>, \<open>insert_history\<close>,
    \<open>insert_portfolio\<close>, \<open>update_holding\<close>, \<open>delete_empty\<close>,
    \<open>insert_user\<close>), the cs50 library's binding of positional arguments to
    \<open>?\<close> placeholders (\<open>cs50_execute\<close>), Python's \<open>rows[0]\<close> as
    \<open>first_row\<close> (IndexError on an empty result), the abstractions \<open>held\<close>
    (shares per user and symbol in the portfolio table), \<open>ledger_shares\<close> and
    \<open>spent\<close> (the same read from the ledger) and \<open>accounts\<close> (id, name and
    hash of each user), and the invariant \<open>db_inv\<close> = \<open>wf_db\<close> \<open>\<and>\<close>
    \<open>cash_balances\<close> \<open>\<and>\<close> \<open>positions_match\<close>, with one lemma per statement
    saying how it changes each abstraction.
  \<^item> \<open>Services\<close>: the quote service (\<open>quote\<close>, \<open>market\<close>, \<open>lookup\<close>) and
    password hashing (\<open>hasher\<close>, with the assumption \<open>hasher_sound\<close> and the
    concrete instance \<open>tagged_hasher\<close>).  Both are outside \<open>src/\<close> and are
    parameters of the model.
  \<^item> \<open>Web\<close>: requests, responses and templates (\<open>page\<close>), \<open>after_request\<close>,
    \<open>errorhandler\<close>, the request context \<open>app_state\<close> (database and this
    client's session) and \<open>login_required\<close>.
  \<^item> \<open>Trade\<close>: \<open>buy\<close>/\<open>buy_post\<close> (lines 57--103) with
    \<open>add_to_portfolio\<close> (lines 89--99) and \<open>sell\<close>/\<open>sell_post\<close>
    (lines 212--262) with \<open>take_from_portfolio\<close> (lines 250--258); the contract of
    a trade (\<open>view\<close>, \<open>trade_spec\<close>) and the guards (\<open>order_ok\<close>).
  \<^item> \<open>Account\<close>: \<open>register\<close>/\<open>register_post\<close> (lines 181--208),
    \<open>login\<close> (116--150), \<open>logout\<close> (154--162).  Line 206 calls
    \<open>db.execute\<close> with one argument, the tuple \<open>(username, pass_hash)\<close>, for
    the two placeholders of the \<open>INSERT\<close>; \<open>register_post\<close> runs it through
    \<open>cs50_execute\<close>, which raises \<open>RuntimeError\<close> there.
  \<^item> \<open>Views\<close>: \<open>index\<close> with its summing loop \<open>add_totals\<close> (44--53),
    \<open>history_view\<close> (107--112), \<open>quote_view\<close> (166--177).
  \<^item> \<open>App\<close>: the URL map \<open>route\<close> (the \<open>@app.route\<close> decorators and their
    methods), the server state \<open>server\<close> (database and the session store keyed
    by client cookie), one request \<open>app\<close>, runs of requests \<open>run\<close>, and the
    reachable states \<open>reachable\<close>, an inductive set over arbitrary requests from
    arbitrary clients, each under a market drawn from a class \<open>P\<close>.  Line 36
    opens the existing file \<open>finance.db\<close>, whose tables the application never
    creates: a server starts (\<open>init_server\<close>, \<open>startup\<close> with the
    \<open>API_KEY\<close> check of lines 38--40) on the file's content with no session,
    and \<open>reachable\<close> starts from every content that satisfies \<open>db_inv\<close> and
    has no negative balance.
  \<^item> \<open>Race\<close>: the trading handlers at the granularity the database sees
    them.  The part before the first statement (lines 61--70 and 220--229) is
    \<open>trade_start\<close>; each \<open>db.execute\<close> is one atomic step on the shared
    database (\<open>buy_step\<close>: the six statements of lines 74--99;
    \<open>sell_step\<close>: the eight of lines 232--258), with the handler's locals
    (\<open>user_cash\<close>, \<open>username\<close>, \<open>portfolio_shares\<close>) in
    \<open>trade_thread\<close>; \<open>interleave\<close> runs two trades under a schedule of
    which one moves next.  Supporting lemmas check this model against the
    handlers: run alone, the statements are the handler (\<open>trade_as_steps\<close>),
    and every schedule that gives each trade as many turns as it has statements
    finishes both (\<open>interleaved_trades_terminate\<close>).

  \<^bold>\<open>What is proved.\<close>
  \<^item> Refinement: a purchase or sale that passes its guards changes the
    observable state exactly as the abstract trade \<open>trade_spec\<close> says: cash
    moves by price times shares, the position by the shares, and one ledger entry
    is appended (\<open>Trade.buy_post_refines\<close>, \<open>Trade.sell_post_refines\<close>).
  \<^item> Invariants of every reachable server state, by rule induction over
    \<open>reachable\<close> from one preservation lemma per handler: the tables are
    well-formed, every user's cash is 10000 less the net amount the ledger
    records, every position in the portfolio table equals the ledger's
    bought-minus-sold count, and no cash balance is negative when quotes are
    non-negative (\<open>App.reachable_*\<close>).
  \<^item> Properties of arbitrary runs of requests from arbitrary clients:
    authentication, i.e. a client holds a session for user \<open>i\<close> only after
    it sent a login with user \<open>i\<close>'s name and a password that \<open>i\<close>'s stored
    hash verifies (\<open>App.session_authenticated\<close>, traced back to the request as
    in the inductive protocol proofs); the ledger is append-only and every entry
    a request appends belongs to the requester's own user and has non-zero shares
    (\<open>App.app_ledger_append\<close>); no run changes the id, name or hash of any
    account, so no account is ever created (\<open>App.run_keeps_accounts\<close>).
  \<^item> Error paths: every guard's outcome, and that a request that does not
    succeed leaves the database as it was; requests without a session to guarded
    routes change nothing; a non-numeric share count is an internal server error;
    a registration past its guards raises \<open>RuntimeError\<close> without writing
    (\<open>Account.register_post_fails\<close>); every error page has status 400, 403,
    404, 405 or 500 (\<open>App.app_status_codes\<close>).
  \<^item> Concurrency: two purchases whose cash reads both come before the cash
    writes lose one debit, so the books break
    (\<open>Race.interleaved_buys_break_books\<close>); two sales whose checks both run
    first can sell more than is held (\<open>Race.interleaved_sells_oversell\<close>), and
    when both sell the whole position the second raises \<open>TypeError\<close> after it
    has been paid and has written its ledger entry
    (\<open>Race.interleaved_sells_paid_twice\<close>).  The lemma \<open>race_example\<close> evaluates the
    first on concrete data.
  \<^item> Composition and equivalence: buying and selling back the same shares at
    the same price restores the cash and the portfolio table
    (\<open>Trade.buy_then_sell_roundtrip\<close>); the global
    \<open>DELETE ... WHERE shares = 0\<close> equals the specification's deletion of
    the one emptied holding on a well-formed database
    (\<open>Store.delete_empty_is_delete_holding\<close>); the sell form lists each held
    symbol once (\<open>App.reachable_sell_form\<close>); the quote page shows the
    service's answer or the 400 apology and changes nothing
    (\<open>App.quote_request\<close>).
  \<^item> Functional behaviour of the portfolio and history pages
    (\<open>App.buy_keeps_index_total\<close>, \<open>App.buy_history_page\<close>), and the no-cache
    headers.  The lemma \<open>spec_example\<close> runs the specification's worked
    example through the whole application.

  \<^bold>\<open>What the model shows about the code\<close> (the findings of the manifest):
  registration never succeeds, because line 206 passes one value for two
  placeholders and the cs50 library raises \<open>RuntimeError\<close> before the
  \<open>INSERT\<close> runs (\<open>Account.register_post_fails\<close>), so the only accounts are
  those already in \<open>finance.db\<close> (\<open>App.run_keeps_accounts\<close>); the
  confirmation test before it is correct, contrary to the specification's note;
  the portfolio page's grand total is cash plus the stored \<open>total\<close> column,
  which is cost basis net of sale proceeds, not market value
  (\<open>App.buy_keeps_index_total\<close>, \<open>index_total_cost_basis\<close>); selling a
  symbol one does not hold raises \<open>IndexError\<close> (an internal server error)
  instead of the apology (\<open>Trade.sell_post_not_held\<close>); a non-numeric share
  count raises \<open>ValueError\<close> instead of a validation message
  (\<open>App.trade_bad_shares\<close>); concurrent trades lose updates and pay twice
  (the \<open>Race\<close> theorems); logout redirects to \<open>/\<close>, not \<open>/login\<close>.

  \<^bold>\<open>Bounds, fuel and what is not modelled.\<close>
  Every definition is total and structural, so no fuel is needed: \<open>py_digits\<close>
  recurses on the string, \<open>py_str_nat\<close> on \<open>n div 10\<close>, \<open>run\<close> on the request
  list.  Currency is exact: the rounding of Python floats and SQLite \<open>REAL\<close> is
  not modelled, so the accounting invariants hold of exact arithmetic.  The
  reachable states assume a \<open>finance.db\<close> that satisfies the invariant when
  the server starts; \<open>reachable\<close> serialises requests, so its invariants hold
  of a server that runs one request at a time, and the \<open>Race\<close> theory shows
  what interleaving two trades does.  A schedule is a finite list of choices; a
  thread has six (\<open>buy\<close>) or eight (\<open>sell\<close>) statements, after which it does
  nothing.  Interleavings of more than two requests are not modelled.  Of the
  cs50 library only the placeholder count check is modelled; every other
  \<open>db.execute\<close> of the source passes one value per placeholder.  Not
  modelled: template rendering beyond the context passed to it, session expiry,
  and the Flask configuration of lines 12--33 (library options no handler
  reads).  What remains outside the model cannot be translated from
  \<open>src/\<close>: the templates and the \<open>usd\<close> filter live in \<open>templates/\<close> and
  \<open>helpers.py\<close>, which are not part of the sources, and the quote service and
  the password hash are external services whose code is not in the repository
  (parameters of the model); \<open>lookup\<close> is total, so a missing symbol field
  gives no quote, where \<open>helpers.lookup(None)\<close> may raise.  CPython's \<open>int()\<close> is modelled on ASCII input
  only: it also strips non-ASCII whitespace (such as U+00A0 and U+0085) and
  accepts other Unicode decimal digits, which \<open>py_int\<close> rejects.
\<close>

subsection \<open>Example data\<close>

text \<open>A quote service that knows one symbol, at a given price.\<close>

definition demo_quote :: "money \<Rightarrow> quote" where
  "demo_quote p = \<lparr>q_name = ''Apple Inc'', q_price = p, q_symbol = ''AAPL''\<rparr>"

definition demo_market :: "money \<Rightarrow> market" where
  "demo_market p s = (if s = ''AAPL'' then Some (demo_quote p) else None)"

definition order_form :: "string \<Rightarrow> form" where
  "order_form n = [(''symbol'', ''AAPL''), (''shares'', n)]"

definition alice :: user_row where
  "alice = \<lparr>u_id = 1, u_username = ''alice'', u_hash = ''plain$pw'', u_cash = 10000\<rparr>"

text \<open>
  A \<open>finance.db\<close> holding alice's account with the starting cash, and the
  database after she bought 10 shares at 150.
\<close>

definition demo_db :: db where
  "demo_db = \<lparr>users = [alice], portfolio = [], history = [], next_id = 2\<rparr>"

definition db_holding :: db where
  "db_holding =
     \<lparr>users = [alice\<lparr>u_cash := 8500\<rparr>],
      portfolio = [\<lparr>p_username = ''alice'', p_symbol = ''AAPL'', p_name = ''Apple Inc'', p_shares = 10,
                    p_price = 150, p_total = 1500\<rparr>],
      history = [\<lparr>h_symbol = ''AAPL'', h_shares = 10, h_price = 150, h_username = ''alice''\<rparr>],
      next_id = 2\<rparr>"

definition demo_req :: "http_method \<Rightarrow> string \<Rightarrow> form \<Rightarrow> request" where
  "demo_req m p f = \<lparr>req_method = m, req_path = p, req_form = f, req_salt = ''salt''\<rparr>"

text \<open>
  The worked example of the specification, as requests of one client on that
  file: an attempt to register alice (an internal server error at line 206 that
  changes nothing), a login, a purchase of 10 shares at 150, then a sale of 4
  when the price is 200.
\<close>

definition scenario :: "(market \<times> nat \<times> request) list" where
  "scenario =
    [(demo_market 150, 0, demo_req POST ''/register''
        [(''username'', ''alice''), (''password'', ''pw''), (''confirmation'', ''pw'')]),
     (demo_market 150, 0, demo_req POST ''/login'' [(''username'', ''alice''), (''password'', ''pw'')]),
     (demo_market 150, 0, demo_req POST ''/buy'' (order_form ''10'')),
     (demo_market 200, 0, demo_req POST ''/sell'' (order_form ''4''))]"

text \<open>The order both of two concurrent purchases of 10 shares at 150 carry.\<close>

definition demo_order :: trade_order where
  "demo_order = \<lparr>to_uid = 1, to_quote = demo_quote 150, to_shares = 10\<rparr>"

text \<open>A sale of all 10 shares at 200.\<close>

definition demo_sale_all :: trade_order where
  "demo_sale_all = \<lparr>to_uid = 1, to_quote = demo_quote 200, to_shares = 10\<rparr>"

text \<open>A sale of 6 shares at 200.\<close>

definition demo_sale :: trade_order where
  "demo_sale = \<lparr>to_uid = 1, to_quote = demo_quote 200, to_shares = 6\<rparr>"

subsection \<open>The worked example\<close>

lemma scenario_final:
  "srv_db (snd (run tagged_hasher scenario (init_server demo_db))) =
     \<lparr>users = [alice\<lparr>u_cash := 9300\<rparr>],
      portfolio = [\<lparr>p_username = ''alice'', p_symbol = ''AAPL'', p_name = ''Apple Inc'', p_shares = 6,
                    p_price = 150, p_total = 700\<rparr>],
      history = [\<lparr>h_symbol = ''AAPL'', h_shares = 10, h_price = 150, h_username = ''alice''\<rparr>,
                 \<lparr>h_symbol = ''AAPL'', h_shares = -4, h_price = 200, h_username = ''alice''\<rparr>],
      next_id = 2\<rparr>"
  by code_simp

lemma scenario_session: "srv_sessions (snd (run tagged_hasher scenario (init_server demo_db))) 0 = Some 1"
  by code_simp

lemma demo_market_nonneg: "0 \<le> p \<Longrightarrow> prices_nonneg (demo_market p)"
  by (simp add: prices_nonneg_def demo_market_def demo_quote_def)

text \<open>What the witnesses of the purchase claims need of alice's account.\<close>

lemma demo_db_facts:
  "order_ok (demo_market 150) (order_form ''10'') (demo_quote 150) 10"
  "cash_of demo_db 1 = Some 10000"
  "q_price (demo_quote 150) * of_int 10 \<le> (10000::money)"
  "username_subquery demo_db 1 = Some ''alice''"
  by code_simp+

lemma demo_db_consistent: "db_inv demo_db" "cash_nonneg demo_db"
  by code_simp+

lemma scenario_reachable: "reachable tagged_hasher prices_nonneg (snd (run tagged_hasher scenario (init_server demo_db)))"
  by (rule run_reachable [OF reachable.init [OF demo_db_consistent]]) (simp add: scenario_def demo_market_nonneg)

text \<open>
  The specification's example: a user with 10000 who buys 10 shares at 150
  and then sells 4 at 200 ends with 9300 in cash, a position of 6 shares, and a
  ledger holding the entries (AAPL, +10, 150) and (AAPL, -4, 200) in that order.
\<close>

lemma spec_example:
  "cash_of (srv_db (snd (run tagged_hasher scenario (init_server demo_db)))) 1 = Some 9300 \<and>
   held (portfolio (srv_db (snd (run tagged_hasher scenario (init_server demo_db))))) ''alice'' ''AAPL'' = 6 \<and>
   history (srv_db (snd (run tagged_hasher scenario (init_server demo_db)))) =
     [\<lparr>h_symbol = ''AAPL'', h_shares = 10, h_price = 150, h_username = ''alice''\<rparr>,
      \<lparr>h_symbol = ''AAPL'', h_shares = -4, h_price = 200, h_username = ''alice''\<rparr>]"
  by (simp add: scenario_final) code_simp

text \<open>
  The portfolio page does not report market value: after the example, the
  page's grand total is 10000 (cash 9300 plus the stored total 700 of the six
  remaining shares), while cash plus the shares at the current price of 200 is
  10500.
\<close>

lemma index_total_cost_basis:
  "index 1 (srv_db (snd (run tagged_hasher scenario (init_server demo_db)))) =
     Inr (Render (IndexPage 10000 9300
        [\<lparr>p_username = ''alice'', p_symbol = ''AAPL'', p_name = ''Apple Inc'', p_shares = 6,
           p_price = 150, p_total = 700\<rparr>])) \<and>
   9300 + of_int 6 * q_price (demo_quote 200) = (10500 :: money)"
  by (simp add: scenario_final) code_simp


text \<open>
  Two purchases of 10 shares at 150 by a user with 10000, served at the same
  time with their statements alternating: both succeed, only 1500 is taken from
  the cash although the ledger records both, and the portfolio ends with two rows
  for the same holding, so the tables are no longer well-formed.
\<close>

lemma race_example:
  "trade_start (demo_market 150) (order_form ''10'') 1 = Inr demo_order \<and>
   (case interleave (buy_step demo_order) (buy_step demo_order) (concat (replicate 6 [True, False]))
           (thread0, thread0, demo_db) of
      (ta, tb, d') \<Rightarrow>
        tt_out ta = Some (Inr (Redirect ''/'')) \<and> tt_out tb = Some (Inr (Redirect ''/'')) \<and>
        cash_of d' 1 = Some 8500 \<and> length (history d') = 2 \<and>
        length (holding_rows (portfolio d') ''alice'' ''AAPL'') = 2 \<and> \<not> wf_db d')"
  by code_simp

subsection \<open>The claims at concrete inputs\<close>

lemma buy_post_refines_witness:
  "order_ok (demo_market 150) (order_form ''10'') (demo_quote 150) 10 \<and>
   cash_of demo_db 1 = Some 10000 \<and> q_price (demo_quote 150) * of_int 10 \<le> (10000::money) \<and>
   username_subquery demo_db 1 = Some ''alice'' \<and>
   distinct (map (\<lambda>r. (p_username r, p_symbol r)) (portfolio demo_db)) \<and>
   fst (buy_post (demo_market 150) (order_form ''10'') 1 demo_db) = Inr (Redirect ''/'') \<and>
   view (snd (buy_post (demo_market 150) (order_form ''10'') 1 demo_db)) =
     trade_spec 1 ''alice'' (q_symbol (demo_quote 150)) 10 (q_price (demo_quote 150)) (view demo_db)"
proof -
  note a = demo_db_facts(1) and b = demo_db_facts(2)
    and c = demo_db_facts(3) and d = demo_db_facts(4)
  have e: "distinct (map (\<lambda>r. (p_username r, p_symbol r)) (portfolio demo_db))"
    by (simp add: demo_db_def)
  show ?thesis by (simp only: a b c d e Trade.buy_post_refines [OF a b c d e] simp_thms)
qed

lemma sell_post_refines_witness:
  "order_ok (demo_market 200) (order_form ''4'') (demo_quote 200) 4 \<and>
   cash_of db_holding 1 = Some 8500 \<and>
   username_subquery db_holding 1 = Some ''alice'' \<and>
   4 \<le> held (portfolio db_holding) ''alice'' (q_symbol (demo_quote 200)) \<and>
   distinct (map (\<lambda>r. (p_username r, p_symbol r)) (portfolio db_holding)) \<and>
   fst (sell_post (demo_market 200) (order_form ''4'') 1 db_holding) = Inr (Redirect ''/'') \<and>
   view (snd (sell_post (demo_market 200) (order_form ''4'') 1 db_holding)) =
     trade_spec 1 ''alice'' (q_symbol (demo_quote 200)) (- 4) (q_price (demo_quote 200)) (view db_holding)"
proof -
  have a: "order_ok (demo_market 200) (order_form ''4'') (demo_quote 200) 4" by code_simp
  have b: "cash_of db_holding 1 = Some 8500" by code_simp
  have d: "username_subquery db_holding 1 = Some ''alice''" by code_simp
  have c: "4 \<le> held (portfolio db_holding) ''alice'' (q_symbol (demo_quote 200))" by code_simp
  have e: "distinct (map (\<lambda>r. (p_username r, p_symbol r)) (portfolio db_holding))"
    by (simp add: db_holding_def)
  show ?thesis by (simp only: a b c d e Trade.sell_post_refines [OF a b d c e] simp_thms)
qed

lemma reachable_positions_ledger_witness:
  "reachable tagged_hasher prices_nonneg (snd (run tagged_hasher scenario (init_server demo_db))) \<and>
   held (portfolio (srv_db (snd (run tagged_hasher scenario (init_server demo_db))))) ''alice'' ''AAPL'' =
     ledger_shares (history (srv_db (snd (run tagged_hasher scenario (init_server demo_db))))) ''alice'' ''AAPL''"
  using scenario_reachable App.reachable_positions_ledger [OF scenario_reachable] by simp

lemma reachable_cash_books_witness:
  "reachable tagged_hasher prices_nonneg (snd (run tagged_hasher scenario (init_server demo_db))) \<and>
   alice\<lparr>u_cash := 9300\<rparr> \<in> set (users (srv_db (snd (run tagged_hasher scenario (init_server demo_db))))) \<and>
   u_cash (alice\<lparr>u_cash := 9300\<rparr>) =
     starting_cash - spent (history (srv_db (snd (run tagged_hasher scenario (init_server demo_db))))) ''alice''"
proof -
  have m: "alice\<lparr>u_cash := 9300\<rparr> \<in> set (users (srv_db (snd (run tagged_hasher scenario (init_server demo_db)))))"
    by (simp add: scenario_final)
  show ?thesis
    using scenario_reachable m App.reachable_cash_books [OF scenario_reachable m] by (simp add: alice_def)
qed

lemma reachable_wf_witness:
  "reachable tagged_hasher prices_nonneg (snd (run tagged_hasher scenario (init_server demo_db))) \<and>
   wf_db (srv_db (snd (run tagged_hasher scenario (init_server demo_db))))"
  using scenario_reachable App.reachable_wf [OF scenario_reachable] by simp

lemma reachable_cash_nonneg_witness:
  "reachable tagged_hasher prices_nonneg (snd (run tagged_hasher scenario (init_server demo_db))) \<and>
   cash_nonneg (srv_db (snd (run tagged_hasher scenario (init_server demo_db))))"
  using scenario_reachable App.reachable_cash_nonneg [OF scenario_reachable] by simp

lemma guarded_without_session_witness:
  "srv_sessions (init_server demo_db) 0 = None \<and>
   req_path (demo_req POST ''/buy'' (order_form ''10'')) \<in> {''/'', ''/buy'', ''/history'', ''/quote'', ''/sell''} \<and>
   snd (app tagged_hasher (demo_market 150) 0 (demo_req POST ''/buy'' (order_form ''10'')) (init_server demo_db)) = (init_server demo_db) \<and>
   resp_body (fst (app tagged_hasher (demo_market 150) 0 (demo_req POST ''/buy'' (order_form ''10'')) (init_server demo_db)))
     \<in> {Redirect ''/login'', Apology ''Method Not Allowed'' 405}"
proof -
  have a: "srv_sessions (init_server demo_db) 0 = None" by (simp add: init_server_def)
  have b: "req_path (demo_req POST ''/buy'' (order_form ''10'')) \<in> {''/'', ''/buy'', ''/history'', ''/quote'', ''/sell''}"
    by (simp add: demo_req_def)
  show ?thesis using a b App.guarded_without_session [OF a b] by blast
qed

lemma buy_post_insufficient_cash_witness:
  "order_ok (demo_market 150) (order_form ''100'') (demo_quote 150) 100 \<and>
   cash_of demo_db 1 = Some 10000 \<and> 10000 < q_price (demo_quote 150) * of_int 100 \<and>
   buy_post (demo_market 150) (order_form ''100'') 1 demo_db =
     (Inr (Apology ''NO ENOUGH CASH'' 400), demo_db)"
proof -
  have a: "order_ok (demo_market 150) (order_form ''100'') (demo_quote 150) 100" by code_simp
  note b = demo_db_facts(2)
  have c: "10000 < q_price (demo_quote 150) * of_int 100" by (simp add: demo_quote_def)
  show ?thesis using a b c Trade.buy_post_insufficient_cash [OF a b c] by blast
qed

lemma sell_post_oversell_witness:
  "order_ok (demo_market 200) (order_form ''11'') (demo_quote 200) 11 \<and>
   username_subquery db_holding 1 = Some ''alice'' \<and>
   distinct (map (\<lambda>r. (p_username r, p_symbol r)) (portfolio db_holding)) \<and>
   holding_rows (portfolio db_holding) ''alice'' (q_symbol (demo_quote 200)) \<noteq> [] \<and>
   held (portfolio db_holding) ''alice'' (q_symbol (demo_quote 200)) < 11 \<and>
   sell_post (demo_market 200) (order_form ''11'') 1 db_holding =
     (Inr (Apology ''YOU DON'T OWN THESE SHARES'' 400), db_holding)"
proof -
  have a: "order_ok (demo_market 200) (order_form ''11'') (demo_quote 200) 11" by code_simp
  have b: "username_subquery db_holding 1 = Some ''alice''" by code_simp
  have c: "distinct (map (\<lambda>r. (p_username r, p_symbol r)) (portfolio db_holding))"
    by (simp add: db_holding_def)
  have d: "holding_rows (portfolio db_holding) ''alice'' (q_symbol (demo_quote 200)) \<noteq> []" by code_simp
  have e: "held (portfolio db_holding) ''alice'' (q_symbol (demo_quote 200)) < 11" by code_simp
  show ?thesis using a b c d e Trade.sell_post_oversell [OF a b c d e] by blast
qed

lemma buy_post_failure_unchanged_witness:
  "fst (buy_post (demo_market 150) (order_form ''100'') 1 demo_db) \<noteq> Inr (Redirect ''/'') \<and>
   snd (buy_post (demo_market 150) (order_form ''100'') 1 demo_db) = demo_db"
proof -
  have a: "fst (buy_post (demo_market 150) (order_form ''100'') 1 demo_db) \<noteq> Inr (Redirect ''/'')"
    by code_simp
  show ?thesis using a Trade.buy_post_failure_unchanged [OF a] by blast
qed

lemma sell_post_failure_unchanged_witness:
  "fst (sell_post (demo_market 150) (order_form ''1'') 1 demo_db) \<noteq> Inr (Redirect ''/'') \<and>
   snd (sell_post (demo_market 150) (order_form ''1'') 1 demo_db) = demo_db"
proof -
  have a: "fst (sell_post (demo_market 150) (order_form ''1'') 1 demo_db) \<noteq> Inr (Redirect ''/'')"
    by code_simp
  show ?thesis using a Trade.sell_post_failure_unchanged [OF a] by blast
qed

lemma sell_post_not_held_witness:
  "order_ok (demo_market 150) (order_form ''1'') (demo_quote 150) 1 \<and>
   username_subquery demo_db 1 = Some ''alice'' \<and>
   holding_rows (portfolio demo_db) ''alice'' (q_symbol (demo_quote 150)) = [] \<and>
   sell_post (demo_market 150) (order_form ''1'') 1 demo_db = (Inl IndexError, demo_db)"
proof -
  have a: "order_ok (demo_market 150) (order_form ''1'') (demo_quote 150) 1" by code_simp
  have b: "username_subquery demo_db 1 = Some ''alice''" by code_simp
  have c: "holding_rows (portfolio demo_db) ''alice'' (q_symbol (demo_quote 150)) = []" by code_simp
  show ?thesis using a b c Trade.sell_post_not_held [OF a b c] by blast
qed

lemma trade_bad_shares_witness:
  "srv_sessions (snd (run tagged_hasher scenario (init_server demo_db))) 0 = Some 1 \<and>
   req_method (demo_req POST ''/sell'' (order_form ''ten'')) = POST \<and>
   req_path (demo_req POST ''/sell'' (order_form ''ten'')) \<in> {''/buy'', ''/sell''} \<and>
   form_get (req_form (demo_req POST ''/sell'' (order_form ''ten''))) ''shares'' = Some ''ten'' \<and>
   py_int ''ten'' = None \<and>
   resp_body (fst (app tagged_hasher (demo_market 200) 0 (demo_req POST ''/sell'' (order_form ''ten''))
      (snd (run tagged_hasher scenario (init_server demo_db))))) = Apology ''Internal Server Error'' 500 \<and>
   snd (app tagged_hasher (demo_market 200) 0 (demo_req POST ''/sell'' (order_form ''ten''))
      (snd (run tagged_hasher scenario (init_server demo_db)))) = snd (run tagged_hasher scenario (init_server demo_db))"
proof -
  have b: "req_method (demo_req POST ''/sell'' (order_form ''ten'')) = POST" by (simp add: demo_req_def)
  have c: "req_path (demo_req POST ''/sell'' (order_form ''ten'')) \<in> {''/buy'', ''/sell''}"
    by (simp add: demo_req_def)
  have d: "form_get (req_form (demo_req POST ''/sell'' (order_form ''ten''))) ''shares'' = Some ''ten''"
    by (simp add: demo_req_def order_form_def form_get_def)
  have e: "py_int ''ten'' = None" by code_simp
  show ?thesis using scenario_session b c d e App.trade_bad_shares [OF scenario_session b c d e] by blast
qed


lemma buy_keeps_index_total_witness:
  "order_ok (demo_market 150) (order_form ''10'') (demo_quote 150) 10 \<and>
   cash_of demo_db 1 = Some 10000 \<and> q_price (demo_quote 150) * of_int 10 \<le> (10000::money) \<and>
   username_subquery demo_db 1 = Some ''alice'' \<and>
   distinct (map (\<lambda>r. (p_username r, p_symbol r)) (portfolio demo_db)) \<and>
   (\<exists>T rows rows'. index 1 demo_db = Inr (Render (IndexPage T 10000 rows)) \<and>
      index 1 (snd (buy_post (demo_market 150) (order_form ''10'') 1 demo_db)) =
        Inr (Render (IndexPage T (10000 - q_price (demo_quote 150) * of_int 10) rows')))"
proof -
  note a = demo_db_facts(1) and b = demo_db_facts(2)
    and c = demo_db_facts(3) and d = demo_db_facts(4)
  have e: "distinct (map (\<lambda>r. (p_username r, p_symbol r)) (portfolio demo_db))"
    by (simp add: demo_db_def)
  show ?thesis using a b c d e App.buy_keeps_index_total [OF a b c d e] by blast
qed

lemma sell_post_closes_position_witness:
  "order_ok (demo_market 200) (order_form ''10'') (demo_quote 200) 10 \<and>
   cash_of db_holding 1 = Some 8500 \<and>
   username_subquery db_holding 1 = Some ''alice'' \<and>
   10 = held (portfolio db_holding) ''alice'' (q_symbol (demo_quote 200)) \<and>
   wf_db db_holding \<and>
   holding_rows (portfolio (snd (sell_post (demo_market 200) (order_form ''10'') 1 db_holding))) ''alice''
     (q_symbol (demo_quote 200)) = [] \<and>
   cash_of (snd (sell_post (demo_market 200) (order_form ''10'') 1 db_holding)) 1 =
     Some (8500 + q_price (demo_quote 200) * of_int 10)"
proof -
  have a: "order_ok (demo_market 200) (order_form ''10'') (demo_quote 200) 10" by code_simp
  have b: "cash_of db_holding 1 = Some 8500" by code_simp
  have c: "username_subquery db_holding 1 = Some ''alice''" by code_simp
  have d: "10 = held (portfolio db_holding) ''alice'' (q_symbol (demo_quote 200))" by code_simp
  have e: "wf_db db_holding" by code_simp
  show ?thesis using a b c d e Trade.sell_post_closes_position [OF a b c d e] by blast
qed

lemma app_no_cache_witness:
  "map_of (resp_headers (fst (app tagged_hasher (demo_market 150) 0 (demo_req GET ''/quote'' []) (init_server demo_db))))
     ''Cache-Control'' = Some ''no-cache, no-store, must-revalidate''"
  using App.app_no_cache [of tagged_hasher "demo_market 150" 0 "demo_req GET ''/quote'' []" "init_server demo_db"] by blast

lemma logout_then_guarded_witness:
  "req_method (demo_req GET ''/logout'' []) = GET \<and> req_path (demo_req GET ''/logout'' []) = ''/logout'' \<and>
   req_path (demo_req POST ''/buy'' (order_form ''1'')) \<in> {''/'', ''/buy'', ''/history'', ''/quote'', ''/sell''} \<and>
   srv_db (snd (app tagged_hasher (demo_market 150) 0 (demo_req POST ''/buy'' (order_form ''1''))
     (snd (app tagged_hasher (demo_market 150) 0 (demo_req GET ''/logout'' []) (snd (run tagged_hasher scenario (init_server demo_db)))))))
     = srv_db (snd (run tagged_hasher scenario (init_server demo_db)))"
proof -
  have a: "req_method (demo_req GET ''/logout'' []) = GET" and b: "req_path (demo_req GET ''/logout'' []) = ''/logout''"
    and c: "req_path (demo_req POST ''/buy'' (order_form ''1'')) \<in> {''/'', ''/buy'', ''/history'', ''/quote'', ''/sell''}"
    by (simp_all add: demo_req_def)
  show ?thesis using a b c App.logout_then_guarded [OF a b c] by blast
qed

lemma interleaved_buys_break_books_witness:
  "db_inv demo_db \<and> to_uid demo_order = 1 \<and> cash_of demo_db 1 = Some 10000 \<and>
   order_total demo_order \<le> 10000 \<and> username_subquery demo_db 1 = Some ''alice'' \<and>
   0 < order_total demo_order \<and>
   \<not> cash_balances (snd (snd (interleave (buy_step demo_order) (buy_step demo_order)
                                (concat (replicate 6 [True, False])) (thread0, thread0, demo_db))))"
proof -
  have a: "db_inv demo_db" by code_simp
  have b: "to_uid demo_order = 1" by (simp add: demo_order_def)
  have c: "cash_of demo_db 1 = Some 10000" by code_simp
  have d: "order_total demo_order \<le> 10000" by (simp add: order_total_def demo_order_def demo_quote_def)
  have e: "username_subquery demo_db 1 = Some ''alice''" by code_simp
  have f: "0 < order_total demo_order" by (simp add: order_total_def demo_order_def demo_quote_def)
  show ?thesis using a b c d e f Race.interleaved_buys_break_books [OF a b b c d d e f] by blast
qed

lemma interleaved_sells_oversell_witness:
  "trade_start (demo_market 200) (order_form ''6'') 1 = Inr demo_sale \<and>
   cash_of db_holding 1 = Some 8500 \<and> username_subquery db_holding 1 = Some ''alice'' \<and>
   distinct (map (\<lambda>r. (p_username r, p_symbol r)) (portfolio db_holding)) \<and>
   to_shares demo_sale < held (portfolio db_holding) ''alice'' ''AAPL'' \<and>
   held (portfolio db_holding) ''alice'' ''AAPL'' < to_shares demo_sale + to_shares demo_sale \<and>
   (case interleave (sell_step demo_sale) (sell_step demo_sale) ([True, False] @ replicate 7 True @ replicate 7 False)
           (thread0, thread0, db_holding) of
      (ta, tb, d') \<Rightarrow>
        tt_out ta = Some (Inr (Redirect ''/'')) \<and> tt_out tb = Some (Inr (Redirect ''/'')) \<and>
        held (portfolio d') ''alice'' ''AAPL'' < 0)"
proof -
  have a: "trade_start (demo_market 200) (order_form ''6'') 1 = Inr demo_sale" by code_simp
  have s: "q_symbol (to_quote demo_sale) = ''AAPL''" by (simp add: demo_sale_def demo_quote_def)
  have c: "cash_of db_holding 1 = Some 8500" by code_simp
  have u: "username_subquery db_holding 1 = Some ''alice''" by code_simp
  have k: "distinct (map (\<lambda>r. (p_username r, p_symbol r)) (portfolio db_holding))"
    by (simp add: db_holding_def)
  have h1: "to_shares demo_sale < held (portfolio db_holding) ''alice'' ''AAPL''" by code_simp
  have h2: "to_shares demo_sale \<le> held (portfolio db_holding) ''alice'' ''AAPL''" by code_simp
  have h3: "held (portfolio db_holding) ''alice'' ''AAPL'' < to_shares demo_sale + to_shares demo_sale" by code_simp
  show ?thesis using a c u k h1 h3 Race.interleaved_sells_oversell [OF a a s s c u k h1 h2 h3] by blast
qed

lemma buy_history_page_witness:
  "history_view 1 (snd (buy_post (demo_market 150) (order_form ''10'') 1 demo_db)) =
     Inr (Render (HistoryPage (history_of demo_db 1 @
        [\<lparr>h_symbol = q_symbol (demo_quote 150), h_shares = 10, h_price = q_price (demo_quote 150),
           h_username = ''alice''\<rparr>])))"
proof -
  note a = demo_db_facts(1) and b = demo_db_facts(2)
    and c = demo_db_facts(3) and d = demo_db_facts(4)
  show ?thesis by (rule App.buy_history_page [OF a b c d])
qed

lemma app_status_codes_witness:
  "resp_body (fst (app tagged_hasher (demo_market 150) 0 (demo_req POST ''/buy'' (order_form ''100''))
      (snd (run tagged_hasher scenario (init_server demo_db))))) = Apology ''NO ENOUGH CASH'' 400 \<and>
   (400::nat) \<in> {400, 403, 404, 405, 500}"
proof -
  have a: "resp_body (fst (app tagged_hasher (demo_market 150) 0 (demo_req POST ''/buy'' (order_form ''100''))
      (snd (run tagged_hasher scenario (init_server demo_db))))) = Apology ''NO ENOUGH CASH'' 400"
    using scenario_session by (simp add: app_unfold scenario_final route_def login_required_def buy_def) code_simp
  show ?thesis using a App.app_status_codes [OF a] by blast
qed

lemma delete_empty_is_delete_holding_witness:
  "delete_empty (update_holding ''alice'' ''AAPL'' 0 (-1500) db_holding) =
     delete_holding ''alice'' ''AAPL'' (update_holding ''alice'' ''AAPL'' 0 (-1500) db_holding)"
proof -
  have a: "wf_db db_holding" by code_simp
  show ?thesis by (rule Store.delete_empty_is_delete_holding [OF a])
qed

lemma buy_then_sell_roundtrip_witness:
  "fst (sell_post (demo_market 150) (order_form ''10'') 1 (snd (buy_post (demo_market 150) (order_form ''10'') 1 demo_db)))
     = Inr (Redirect ''/'') \<and>
   cash_of (snd (sell_post (demo_market 150) (order_form ''10'') 1
              (snd (buy_post (demo_market 150) (order_form ''10'') 1 demo_db)))) 1 = Some 10000 \<and>
   portfolio (snd (sell_post (demo_market 150) (order_form ''10'') 1
              (snd (buy_post (demo_market 150) (order_form ''10'') 1 demo_db)))) = portfolio demo_db \<and>
   history (snd (sell_post (demo_market 150) (order_form ''10'') 1
              (snd (buy_post (demo_market 150) (order_form ''10'') 1 demo_db)))) =
     history demo_db @
       [\<lparr>h_symbol = q_symbol (demo_quote 150), h_shares = 10, h_price = q_price (demo_quote 150), h_username = ''alice''\<rparr>,
        \<lparr>h_symbol = q_symbol (demo_quote 150), h_shares = - 10, h_price = q_price (demo_quote 150), h_username = ''alice''\<rparr>]"
proof -
  note a = demo_db_facts(1) and b = demo_db_facts(2)
    and c = demo_db_facts(3) and d = demo_db_facts(4)
  have e: "holding_rows (portfolio demo_db) ''alice'' (q_symbol (demo_quote 150)) = []"
    by (simp add: demo_db_def holding_rows_def)
  have f: "wf_db demo_db" by code_simp
  show ?thesis by (rule Trade.buy_then_sell_roundtrip [OF a a b c d e f])
qed

lemma reachable_sell_form_witness:
  "sell (demo_market 200) GET [] 1 (srv_db (snd (run tagged_hasher scenario (init_server demo_db)))) =
     (Inr (Render (SellForm (symbols_of (srv_db (snd (run tagged_hasher scenario (init_server demo_db)))) 1))),
      srv_db (snd (run tagged_hasher scenario (init_server demo_db)))) \<and>
   distinct (symbols_of (srv_db (snd (run tagged_hasher scenario (init_server demo_db)))) 1) \<and>
   set (symbols_of (srv_db (snd (run tagged_hasher scenario (init_server demo_db)))) 1) =
     {s. 0 < held (portfolio (srv_db (snd (run tagged_hasher scenario (init_server demo_db))))) ''alice'' s}"
proof -
  have u: "username_subquery (srv_db (snd (run tagged_hasher scenario (init_server demo_db)))) 1 = Some ''alice''"
    by (simp add: scenario_final) code_simp
  show ?thesis by (rule App.reachable_sell_form [OF scenario_reachable u])
qed

lemma quote_request_witness:
  "snd (app tagged_hasher (demo_market 150) 0 (demo_req POST ''/quote'' [(''symbol'', ''AAPL'')])
        (snd (run tagged_hasher scenario (init_server demo_db)))) = snd (run tagged_hasher scenario (init_server demo_db)) \<and>
   resp_body (fst (app tagged_hasher (demo_market 150) 0 (demo_req POST ''/quote'' [(''symbol'', ''AAPL'')])
        (snd (run tagged_hasher scenario (init_server demo_db))))) =
     (case lookup (demo_market 150) (form_get (req_form (demo_req POST ''/quote'' [(''symbol'', ''AAPL'')])) ''symbol'') of
        Some q \<Rightarrow> Render (QuotedPage q)
      | None \<Rightarrow> Apology ''Symbol Doesn't Exist'' 400)"
proof -
  have b: "req_method (demo_req POST ''/quote'' [(''symbol'', ''AAPL'')]) = POST" by (simp add: demo_req_def)
  have c: "req_path (demo_req POST ''/quote'' [(''symbol'', ''AAPL'')]) = ''/quote''" by (simp add: demo_req_def)
  show ?thesis by (rule App.quote_request [OF scenario_session b c])
qed




lemma app_ledger_append_witness:
  "\<exists>E. history (srv_db (snd (app tagged_hasher (demo_market 150) 0 (demo_req POST ''/buy'' (order_form ''2''))
          (snd (run tagged_hasher scenario (init_server demo_db)))))) =
        history (srv_db (snd (run tagged_hasher scenario (init_server demo_db)))) @ E \<and> length E \<le> 1"
  using App.app_ledger_append [of tagged_hasher "demo_market 150" 0 "demo_req POST ''/buy'' (order_form ''2'')"
          "snd (run tagged_hasher scenario (init_server demo_db))"]
  by blast


lemma interleaved_sells_paid_twice_witness:
  "trade_start (demo_market 200) (order_form ''10'') 1 = Inr demo_sale_all \<and>
   cash_of db_holding 1 = Some 8500 \<and> username_subquery db_holding 1 = Some ''alice'' \<and>
   distinct (map (\<lambda>r. (p_username r, p_symbol r)) (portfolio db_holding)) \<and>
   to_shares demo_sale_all = held (portfolio db_holding) ''alice'' ''AAPL'' \<and>
   (case interleave (sell_step demo_sale_all) (sell_step demo_sale_all)
           ([True, False] @ replicate 7 True @ replicate 7 False) (thread0, thread0, db_holding) of
      (ta, tb, d') \<Rightarrow>
        tt_out ta = Some (Inr (Redirect ''/'')) \<and> tt_out tb = Some (Inl TypeError) \<and>
        cash_of d' 1 = Some (8500 + order_total demo_sale_all + order_total demo_sale_all) \<and>
        held (portfolio d') ''alice'' ''AAPL'' = 0 \<and>
        ledger_shares (history d') ''alice'' ''AAPL'' =
          ledger_shares (history db_holding) ''alice'' ''AAPL'' - to_shares demo_sale_all - to_shares demo_sale_all)"
proof -
  have a: "trade_start (demo_market 200) (order_form ''10'') 1 = Inr demo_sale_all" by code_simp
  have s: "q_symbol (to_quote demo_sale_all) = ''AAPL''" by (simp add: demo_sale_all_def demo_quote_def)
  have c: "cash_of db_holding 1 = Some 8500" by code_simp
  have u: "username_subquery db_holding 1 = Some ''alice''" by code_simp
  have k: "distinct (map (\<lambda>r. (p_username r, p_symbol r)) (portfolio db_holding))"
    by (simp add: db_holding_def)
  have h1: "to_shares demo_sale_all = held (portfolio db_holding) ''alice'' ''AAPL''" by code_simp
  have h2: "to_shares demo_sale_all \<le> held (portfolio db_holding) ''alice'' ''AAPL''" by code_simp
  show ?thesis using a c u k h1 Race.interleaved_sells_paid_twice [OF a a s s c u k h1 h2] by blast
qed

end
